theory Spec2Isabelle
  imports Complex_Main "HOL-Library.Sublist"
begin

section \<open>Strings\<close>

text \<open>
  JavaScript strings are modelled as \<^typ>\<open>string\<close> (lists of characters).  The
  operations below are the \<open>String.prototype\<close> methods the sources call.
\<close>

definition startsWith :: "string \<Rightarrow> string \<Rightarrow> bool" where
  "startsWith s p = prefix p s"

definition slice :: "string \<Rightarrow> nat \<Rightarrow> string" where
  "slice s n = drop n s"

section \<open>Selector resolution (e2e/src/parser.ts)\<close>

record resolved =
  el_strategy :: string
  el_selector :: string

definition dq :: string where
  "dq = [CHR 0x22]"

text \<open>The default branch of \<open>resolveElementSelector\<close>: find by text.\<close>

definition textFallback :: "string \<Rightarrow> resolved" where
  "textFallback element =
     \<lparr>el_strategy = ''xpath'',
      el_selector = ''//*[contains(@text, '' @ dq @ element @ dq @ '') or contains(@label, '' @ dq @ element @ dq
                 @ '') or contains(@value, '' @ dq @ element @ dq @ '') or contains(@name, '' @ dq @ element @ dq @ '')]''\<rparr>"

definition resolveElementSelector :: "string \<Rightarrow> resolved" where
  "resolveElementSelector element =
     (if startsWith element ''@'' then
        \<lparr>el_strategy = ''accessibility id'', el_selector = slice element 1\<rparr>
      else if startsWith element ''#'' then
        \<lparr>el_strategy = ''id'', el_selector = slice element 1\<rparr>
      else if startsWith element ''xpath:'' then
        \<lparr>el_strategy = ''xpath'', el_selector = slice element 6\<rparr>
      else textFallback element)"

section \<open>Exceptions and effects\<close>

text \<open>
  A thrown JavaScript value is an \<open>exn\<close> carrying the error's message.  Code that
  touches the outside world (file system, browser, device, clock) takes the world
  \<open>'w\<close> and returns the new one together with either the exception it threw or its
  value; an exception does not undo what happened to the world before it.
\<close>

datatype exn = Error string | TypeError string

fun message :: "exn \<Rightarrow> string" where
  "message (Error m) = m"
| "message (TypeError m) = m"

type_synonym ('a, 'w) io = "'w \<Rightarrow> (exn + 'a) \<times> 'w"

text \<open>A template literal prints an absent (\<open>undefined\<close>) string as \<open>undefined\<close>.\<close>

fun tmpl :: "string option \<Rightarrow> string" where
  "tmpl None = ''undefined''"
| "tmpl (Some s) = s"

section \<open>The Appium executor (e2e/src/types.ts, parser.ts, executor.ts)\<close>

datatype Platform = ios | android

text \<open>
  \<open>TestStep\<close> is the union of single-key step objects of types.ts.  A YAML step list
  can also hold primitives: \<open>PrimString s\<close> is a bare string, \<open>PrimOther\<close> any other
  non-object value, and \<open>Flag s\<close> is the object \<open>{[s]: true}\<close> that
  \<open>filterStepsForPlatform\<close> builds from a bare string.
\<close>

datatype TestStep =
    TapStep string
  | TypeStep string string
  | ClearStep string
  | SwipeStep string
  | ScrollStep string
  | SeeStep string
  | NotSeeStep string
  | SeeElementStep string
  | NotSeeElementStep string
  | SeeCountStep string int
  | WaitStep string
  | WaitForStep string
  | WaitForGoneStep string
  | BackStep
  | NavigateStep string
  | ScreenshotStep string
  | LogStep string
  | PlatformStep "TestStep list option" "TestStep list option"
  | PrimString string
  | PrimOther
  | Flag string

record TestScenario =
  ts_name :: string
  ts_description :: "string option"
  ts_tags :: "string list option"
  ts_requires :: "string list option"
  ts_steps :: "TestStep list"

datatype StepStatus = passed | failed | skipped

record ExStepResult =
  xs_step :: TestStep
  xs_status :: StepStatus
  xs_duration :: int
  xs_error :: "string option"

record ExTestResult =
  xr_scenario :: string
  xr_platform :: Platform
  xr_status :: StepStatus
  xr_duration :: int
  xr_steps :: "ExStepResult list"
  xr_screenshots :: "string list"
  xr_error :: "string option"

fun filterStepsForPlatform :: "TestStep list \<Rightarrow> Platform \<Rightarrow> TestStep list" where
  "filterStepsForPlatform [] platform = []"
| "filterStepsForPlatform (PrimString s # steps) platform =
     Flag s # filterStepsForPlatform steps platform"
| "filterStepsForPlatform (PrimOther # steps) platform =
     filterStepsForPlatform steps platform"
| "filterStepsForPlatform (PlatformStep i a # steps) ios =
     (case i of
        None \<Rightarrow> []
      | Some platformSteps \<Rightarrow> filterStepsForPlatform platformSteps ios)
     @ filterStepsForPlatform steps ios"
| "filterStepsForPlatform (PlatformStep i a # steps) android =
     (case a of
        None \<Rightarrow> []
      | Some platformSteps \<Rightarrow> filterStepsForPlatform platformSteps android)
     @ filterStepsForPlatform steps android"
| "filterStepsForPlatform (step # steps) platform =
     step # filterStepsForPlatform steps platform"

text \<open>
  The device operations of \<open>TestExecutor\<close>: \<open>executeStep\<close> (the dispatch on the
  step's key and the Appium calls behind it), \<open>takeScreenshot\<close> with \<open>writeFile\<close>, and
  the clock.  \<open>xe_driver\<close> tells whether \<open>initialize\<close> has set \<open>this.driver\<close>.
\<close>

record 'w Executor =
  xe_driver :: bool
  xe_platform :: Platform
  xe_executeStep :: "TestStep \<Rightarrow> (unit, 'w) io"
  xe_takeScreenshot :: "(string, 'w) io"
  xe_writeFile :: "string \<Rightarrow> string \<Rightarrow> (unit, 'w) io"
  xe_now :: "'w \<Rightarrow> int"
  xe_toISOString :: "'w \<Rightarrow> string"
  xe_join :: "string \<Rightarrow> string \<Rightarrow> string"

definition SCREENSHOT_DIR :: string where
  "SCREENSHOT_DIR = ''screenshots''"

fun platformName :: "Platform \<Rightarrow> string" where
  "platformName ios = ''ios''"
| "platformName android = ''android''"

text \<open>\<open>captureScreenshot\<close> returns the path it pushed onto \<open>this.screenshots\<close>.\<close>

definition captureScreenshot :: "'w Executor \<Rightarrow> string \<Rightarrow> (string, 'w) io" where
  "captureScreenshot X name w =
     (if \<not> xe_driver X then (Inl (Error ''Driver not initialized''), w)
      else
        let timestamp = map (\<lambda>c. if c = CHR '':'' \<or> c = CHR ''.'' then CHR ''-'' else c)
                          (xe_toISOString X w);
            filename = platformName (xe_platform X) @ ''-'' @ name @ ''-'' @ timestamp @ ''.png'';
            filepath = xe_join X SCREENSHOT_DIR filename
        in case xe_takeScreenshot X w of
             (Inl e, w1) \<Rightarrow> (Inl e, w1)
           | (Inr screenshot, w1) \<Rightarrow>
               (case xe_writeFile X filepath screenshot w1 of
                  (Inl e, w2) \<Rightarrow> (Inl e, w2)
                | (Inr _, w2) \<Rightarrow> (Inr filepath, w2)))"

text \<open>
  The \<open>for\<close> loop of \<open>TestExecutor.runScenario\<close>.  The loop state is
  \<open>(failed, errorMessage, stepResults, this.screenshots)\<close>.
\<close>

type_synonym ex_loop = "bool \<times> string option \<times> ExStepResult list \<times> string list"

fun exRunSteps :: "'w Executor \<Rightarrow> string \<Rightarrow> TestStep list \<Rightarrow> ex_loop \<Rightarrow> (ex_loop, 'w) io" where
  "exRunSteps X name [] st w = (Inr st, w)"
| "exRunSteps X name (step # steps) (failedFlag, errorMessage, stepResults, shots) w =
     (if failedFlag then
        exRunSteps X name steps
          (failedFlag, errorMessage,
           stepResults @ [\<lparr>xs_step = step, xs_status = skipped, xs_duration = 0, xs_error = None\<rparr>],
           shots) w
      else
        let stepStart = xe_now X w in
        case xe_executeStep X step w of
          (Inr _, w1) \<Rightarrow>
            exRunSteps X name steps
              (failedFlag, errorMessage,
               stepResults @ [\<lparr>xs_step = step, xs_status = passed,
                                xs_duration = xe_now X w1 - stepStart, xs_error = None\<rparr>],
               shots) w1
        | (Inl err, w1) \<Rightarrow>
            let msg = message err;
                stepResults' = stepResults @ [\<lparr>xs_step = step, xs_status = failed,
                                 xs_duration = xe_now X w1 - stepStart, xs_error = Some msg\<rparr>]
            in (case captureScreenshot X (''FAILURE-'' @ name) w1 of
                  (Inl e, w2) \<Rightarrow> (Inl e, w2)
                | (Inr path, w2) \<Rightarrow>
                    exRunSteps X name steps (True, Some msg, stepResults', shots @ [path]) w2))"

definition exRunScenario :: "'w Executor \<Rightarrow> TestScenario \<Rightarrow> (ExTestResult, 'w) io" where
  "exRunScenario X scenario w =
     (if \<not> xe_driver X then (Inl (Error ''Driver not initialized. Call initialize() first.''), w)
      else
        let startTime = xe_now X w;
            steps = filterStepsForPlatform (ts_steps scenario) (xe_platform X)
        in case exRunSteps X (ts_name scenario) steps (False, None, [], []) w of
             (Inl e, w1) \<Rightarrow> (Inl e, w1)
           | (Inr (failedFlag, errorMessage, stepResults, shots), w1) \<Rightarrow>
               (Inr \<lparr>xr_scenario = ts_name scenario,
                     xr_platform = xe_platform X,
                     xr_status = (if failedFlag then failed else passed),
                     xr_duration = xe_now X w1 - startTime,
                     xr_steps = stepResults,
                     xr_screenshots = shots,
                     xr_error = errorMessage\<rparr>, w1))"

section \<open>Types of the agentic test infrastructure (e2e/lib/types.ts)\<close>

text \<open>
  Fields that the YAML may leave out, and that the code tests for absence, are options
  (\<open>None\<close> is \<open>undefined\<close>).  Numbers are integers.  Record fields carry a prefix
  naming their interface.
\<close>

record Expectation =
  ex_type :: string
  ex_value :: string

record ScenarioStep =
  st_id :: "string option"
  st_action :: string
  st_target :: "string option"
  st_value :: "string option"
  st_expect :: "Expectation list option"

record Scenario =
  sc_name :: "string option"
  sc_description :: string
  sc_preconditions :: "string list"
  sc_steps :: "ScenarioStep list"
  sc_postconditions :: "string list"
  sc_tags :: "string list"

datatype TestStatus = test_passed | test_failed

record StepResult =
  sr_id :: "string option"
  sr_action :: string
  sr_target :: "string option"
  sr_status :: StepStatus
  sr_duration :: int
  sr_error :: "string option"
  sr_screenshot :: "string option"
  sr_actualValue :: "string option"
  sr_expectedValue :: "string option"

record TestResult =
  tr_scenario :: "string option"
  tr_scenarioFile :: string
  tr_status :: TestStatus
  tr_duration :: int
  tr_steps :: "StepResult list"
  tr_screenshots :: "string list"
  tr_consoleErrors :: "string list"
  tr_networkErrors :: "string list"
  tr_timestamp :: string

record TestRunnerConfig =
  baseUrl :: string
  timeout :: int
  screenshotOnFailure :: bool
  screenshotOnStep :: bool
  video :: bool

text \<open>The value \<open>checkExpectation\<close> returns.\<close>

record ExpectationResult =
  er_passed :: bool
  er_error :: "string option"
  er_actualValue :: "string option"
  er_expectedValue :: "string option"

text \<open>The YAML document as parsed, before \<open>parseScenarioFile\<close> reads its fields.\<close>

datatype RawExpectation = RawString string | RawObject "(string \<times> string) list"

record RawStep =
  rs_id :: "string option"
  rs_action :: "string option"
  rs_target :: "string option"
  rs_value :: "string option"
  rs_expect :: "RawExpectation list option"

record RawScenario =
  rw_name :: "string option"
  rw_description :: "string option"
  rw_preconditions :: "string list option"
  rw_steps :: "RawStep list option"
  rw_postconditions :: "string list option"
  rw_tags :: "string list option"

section \<open>The outside world of the agents\<close>

text \<open>
  The library calls of the agents, as operations on the world \<open>'w\<close>: \<open>path.join\<close>,
  the \<open>fs\<close> calls (\<open>io_readYaml\<close> is \<open>readFileSync\<close> followed by the YAML parser,
  whose result is \<open>None\<close> for a null document; \<open>io_writeFileSync\<close> takes the path
  only), \<open>execSync\<close> of the TypeScript compiler, the clock, and the browser behind
  \<open>PlaywrightAdapter\<close>: the body of \<open>initialize\<close> and of \<open>cleanup\<close>, the two error
  collectors that page events fill, and the page calls of \<open>runScenario\<close> and
  \<open>executeStep\<close>, where \<open>io_executeAction\<close> and \<open>io_checkExpectation\<close> stand for
  the adapter's private methods of these names.
\<close>

record 'w Env =
  io_join :: "string \<Rightarrow> string \<Rightarrow> string"
  io_existsSync :: "'w \<Rightarrow> string \<Rightarrow> bool"
  io_mkdirSync :: "string \<Rightarrow> (unit, 'w) io"
  io_readdirSync :: "string \<Rightarrow> (string list, 'w) io"
  io_readYaml :: "string \<Rightarrow> (RawScenario option, 'w) io"
  io_readFileSync :: "string \<Rightarrow> (string, 'w) io"
  io_writeFileSync :: "string \<Rightarrow> (unit, 'w) io"
  io_execTsc :: "string \<Rightarrow> (unit, 'w) io"
  io_now :: "'w \<Rightarrow> int"
  io_toISOString :: "'w \<Rightarrow> string"
  io_getTime :: "string \<Rightarrow> int"
  io_launch :: "TestRunnerConfig \<Rightarrow> (unit, 'w) io"
  io_close :: "(unit, 'w) io"
  io_resetCollectors :: "'w \<Rightarrow> 'w"
  io_consoleErrors :: "'w \<Rightarrow> string list"
  io_networkErrors :: "'w \<Rightarrow> string list"
  io_goto :: "string \<Rightarrow> (unit, 'w) io"
  io_waitForApp :: "int \<Rightarrow> (unit, 'w) io"
  io_executeAction :: "TestRunnerConfig \<Rightarrow> ScenarioStep \<Rightarrow> (unit, 'w) io"
  io_waitForTimeout :: "int \<Rightarrow> (unit, 'w) io"
  io_screenshot :: "string \<Rightarrow> bool \<Rightarrow> (unit, 'w) io"
  io_checkExpectation :: "Expectation \<Rightarrow> (ExpectationResult, 'w) io"

section \<open>The Playwright adapter (e2e/lib/playwrightAdapter.ts)\<close>

text \<open>
  The loop over \<open>step.expect\<close> in \<open>executeStep\<close>.  It ends with \<open>Inr None\<close> when
  every expectation passed, with \<open>Inr (Some r)\<close> at the first result \<open>r\<close> that did
  not pass, and with \<open>Inl\<close> when \<open>checkExpectation\<close> itself threw.
\<close>

fun checkExpectations :: "'w Env \<Rightarrow> Expectation list \<Rightarrow> (ExpectationResult option, 'w) io" where
  "checkExpectations E [] w = (Inr None, w)"
| "checkExpectations E (expectation # rest) w =
     (case io_checkExpectation E expectation w of
        (Inl e, w1) \<Rightarrow> (Inl e, w1)
      | (Inr result, w1) \<Rightarrow>
          if \<not> er_passed result then (Inr (Some result), w1)
          else checkExpectations E rest w1)"

text \<open>The \<open>catch\<close> block of \<open>executeStep\<close>.\<close>

definition failedStepResult ::
  "'w Env \<Rightarrow> ScenarioStep \<Rightarrow> int \<Rightarrow> string option \<Rightarrow> string option \<Rightarrow> string option
     \<Rightarrow> string option \<Rightarrow> exn \<Rightarrow> 'w \<Rightarrow> StepResult" where
  "failedStepResult E step startTime error actualValue expectedValue screenshot err w =
     \<lparr>sr_id = st_id step, sr_action = st_action step, sr_target = st_target step,
      sr_status = failed, sr_duration = io_now E w - startTime,
      sr_error = Some (case error of Some e \<Rightarrow> e | None \<Rightarrow> message err),
      sr_screenshot = screenshot,
      sr_actualValue = actualValue, sr_expectedValue = expectedValue\<rparr>"

definition executeStep ::
  "'w Env \<Rightarrow> TestRunnerConfig \<Rightarrow> ScenarioStep \<Rightarrow> string \<Rightarrow> string \<Rightarrow> 'w \<Rightarrow> StepResult \<times> 'w" where
  "executeStep E config step scenarioFile screenshotDir w =
     (let startTime = io_now E w in
      case io_executeAction E config step w of
        (Inl err, w1) \<Rightarrow> (failedStepResult E step startTime None None None None err w1, w1)
      | (Inr _, w1) \<Rightarrow>
      (case io_waitForTimeout E 100 w1 of
        (Inl err, w2) \<Rightarrow> (failedStepResult E step startTime None None None None err w2, w2)
      | (Inr _, w2) \<Rightarrow>
      (let screenshot = (if screenshotOnStep config
                         then Some (io_join E screenshotDir (tmpl (st_id step) @ ''.png''))
                         else None) in
       case (case screenshot of
               Some path \<Rightarrow> io_screenshot E path False w2
             | None \<Rightarrow> (Inr (), w2)) of
        (Inl err, w3) \<Rightarrow> (failedStepResult E step startTime None None None screenshot err w3, w3)
      | (Inr _, w3) \<Rightarrow>
      (case checkExpectations E (case st_expect step of Some es \<Rightarrow> es | None \<Rightarrow> []) w3 of
        (Inl err, w4) \<Rightarrow> (failedStepResult E step startTime None None None screenshot err w4, w4)
      | (Inr (Some result), w4) \<Rightarrow>
          (failedStepResult E step startTime (er_error result) (er_actualValue result)
             (er_expectedValue result) screenshot
             (Error (case er_error result of Some e \<Rightarrow> e | None \<Rightarrow> [])) w4, w4)
      | (Inr None, w4) \<Rightarrow>
          (\<lparr>sr_id = st_id step, sr_action = st_action step, sr_target = st_target step,
            sr_status = passed, sr_duration = io_now E w4 - startTime,
            sr_error = None, sr_screenshot = screenshot,
            sr_actualValue = None, sr_expectedValue = None\<rparr>, w4)))))"

text \<open>
  The \<open>for\<close> loop of \<open>PlaywrightAdapter.runScenario\<close>, on the loop state
  \<open>(overallStatus, shouldSkip, stepResults, screenshots)\<close>.
\<close>

type_synonym pw_loop = "TestStatus \<times> bool \<times> StepResult list \<times> string list"

fun runSteps ::
  "'w Env \<Rightarrow> TestRunnerConfig \<Rightarrow> string \<Rightarrow> string \<Rightarrow> ScenarioStep list \<Rightarrow> pw_loop
     \<Rightarrow> (pw_loop, 'w) io" where
  "runSteps E config scenarioFile screenshotDir [] st w = (Inr st, w)"
| "runSteps E config scenarioFile screenshotDir (step # steps)
     (overallStatus, shouldSkip, stepResults, screenshots) w =
     (if shouldSkip then
        runSteps E config scenarioFile screenshotDir steps
          (overallStatus, shouldSkip,
           stepResults @ [\<lparr>sr_id = st_id step, sr_action = st_action step,
                            sr_target = st_target step, sr_status = skipped, sr_duration = 0,
                            sr_error = None, sr_screenshot = None,
                            sr_actualValue = None, sr_expectedValue = None\<rparr>],
           screenshots) w
      else
        (case executeStep E config step scenarioFile screenshotDir w of
           (stepResult, w1) \<Rightarrow>
             (let stepResults1 = stepResults @ [stepResult];
                  screenshots1 = (case sr_screenshot stepResult of
                                    Some s \<Rightarrow> screenshots @ [s] | None \<Rightarrow> screenshots)
              in if sr_status stepResult = failed then
                   (if screenshotOnFailure config then
                      (let failScreenshot = io_join E screenshotDir (tmpl (st_id step) @ ''-failure.png'')
                       in case io_screenshot E failScreenshot True w1 of
                            (Inl e, w2) \<Rightarrow> (Inl e, w2)
                          | (Inr _, w2) \<Rightarrow>
                              runSteps E config scenarioFile screenshotDir steps
                                (test_failed, True, stepResults1, screenshots1 @ [failScreenshot]) w2)
                    else
                      runSteps E config scenarioFile screenshotDir steps
                        (test_failed, True, stepResults1, screenshots1) w1)
                 else
                   runSteps E config scenarioFile screenshotDir steps
                     (overallStatus, shouldSkip, stepResults1, screenshots1) w1)))"

definition runScenario ::
  "'w Env \<Rightarrow> TestRunnerConfig \<Rightarrow> Scenario \<Rightarrow> string \<Rightarrow> string \<Rightarrow> (TestResult, 'w) io" where
  "runScenario E config scenario scenarioFile screenshotDir w =
     (let startTime = io_now E w;
          w0 = io_resetCollectors E w in
      case (if \<not> io_existsSync E w0 screenshotDir then io_mkdirSync E screenshotDir w0
            else (Inr (), w0)) of
        (Inl e, w1) \<Rightarrow> (Inl e, w1)
      | (Inr _, w1) \<Rightarrow>
      (case io_goto E (baseUrl config) w1 of
        (Inl e, w2) \<Rightarrow> (Inl e, w2)
      | (Inr _, w2) \<Rightarrow>
      (case io_waitForApp E (timeout config) w2 of
        (Inl e, w3) \<Rightarrow> (Inl e, w3)
      | (Inr _, w3) \<Rightarrow>
      (case runSteps E config scenarioFile screenshotDir (sc_steps scenario)
              (test_passed, False, [], []) w3 of
        (Inl e, w4) \<Rightarrow> (Inl e, w4)
      | (Inr (overallStatus, shouldSkip, stepResults, screenshots), w4) \<Rightarrow>
          (Inr \<lparr>tr_scenario = sc_name scenario,
                tr_scenarioFile = scenarioFile,
                tr_status = overallStatus,
                tr_duration = io_now E w4 - startTime,
                tr_steps = stepResults,
                tr_screenshots = screenshots,
                tr_consoleErrors = io_consoleErrors E w4,
                tr_networkErrors = io_networkErrors E w4,
                tr_timestamp = io_toISOString E w4\<rparr>, w4)))))"

section \<open>More string operations\<close>

text \<open>
  Characters are code units below 256.  \<open>toLowerCase\<close> maps the capital letters of that
  range (a capital letter and its small letter differ in bit 5), and \<open>trim\<close> removes
  its white space and line terminators.
\<close>

definition lowerChar :: "char \<Rightarrow> char" where
  "lowerChar c =
     (let n = (of_char c :: nat)
      in if (65 \<le> n \<and> n \<le> 90) \<or> (192 \<le> n \<and> n \<le> 222 \<and> n \<noteq> 215)
         then (case c of Char b0 b1 b2 b3 b4 b5 b6 b7 \<Rightarrow> Char b0 b1 b2 b3 b4 True b6 b7)
         else c)"

definition toLowerCase :: "string \<Rightarrow> string" where
  "toLowerCase s = map lowerChar s"

definition isSpace :: "char \<Rightarrow> bool" where
  "isSpace c = ((of_char c :: nat) \<in> {9, 10, 11, 12, 13, 32, 160})"

definition trim :: "string \<Rightarrow> string" where
  "trim s = rev (dropWhile isSpace (rev (dropWhile isSpace s)))"

fun includesStr :: "string \<Rightarrow> string \<Rightarrow> bool" where
  "includesStr [] p = (p = [])"
| "includesStr (c # cs) p = (prefix p (c # cs) \<or> includesStr cs p)"

fun replaceFirst :: "string \<Rightarrow> string \<Rightarrow> string \<Rightarrow> string" where
  "replaceFirst [] p r = (if p = [] then r else [])"
| "replaceFirst (c # cs) p r =
     (if prefix p (c # cs) then r @ drop (length p) (c # cs) else c # replaceFirst cs p r)"

fun joinWith :: "string \<Rightarrow> string list \<Rightarrow> string" where
  "joinWith sep [] = []"
| "joinWith sep [x] = x"
| "joinWith sep (x # y # ys) = x @ sep @ joinWith sep (y # ys)"

fun digits :: "nat \<Rightarrow> string" where
  "digits n = (if n < 10 then [''0123456789'' ! n] else digits (n div 10) @ [''0123456789'' ! (n mod 10)])"

declare digits.simps [simp del]

definition toString :: "int \<Rightarrow> string" where
  "toString n = (if n < 0 then ''-'' @ digits (nat (- n)) else digits (nat n))"

text \<open>Truthiness of a possibly absent string: \<open>undefined\<close> and the empty string are falsy.\<close>

fun truthy :: "string option \<Rightarrow> bool" where
  "truthy None = False"
| "truthy (Some s) = (s \<noteq> [])"

definition sq :: string where
  "sq = [CHR 0x27]"

definition nl :: string where
  "nl = [CHR 0x0A]"

section \<open>The scenario parser of the agents (e2e/lib/scenarioParser.ts)\<close>

definition VALID_ACTIONS :: "string list" where
  "VALID_ACTIONS = [''click'', ''fill'', ''select'', ''hover'', ''wait'', ''screenshot'', ''navigate'']"

definition EXPECTATION_TYPES :: "string list" where
  "EXPECTATION_TYPES =
     [''url'', ''url_contains'', ''visible'', ''not_visible'', ''input_value'', ''text_content'',
      ''element_count'']"

definition invalidExpectation :: "string \<Rightarrow> exn" where
  "invalidExpectation t =
     Error (''Invalid expectation type '' @ dq @ t @ dq @ ''. Valid types: ''
            @ joinWith '', '' EXPECTATION_TYPES)"

fun parseExpectation :: "RawExpectation \<Rightarrow> exn + Expectation" where
  "parseExpectation (RawString raw) =
     (if CHR '':'' \<notin> set raw then Inr \<lparr>ex_type = ''visible'', ex_value = raw\<rparr>
      else
        let colonIndex = length (takeWhile (\<lambda>c. c \<noteq> CHR '':'') raw);
            t = trim (take colonIndex raw);
            v = trim (drop (colonIndex + 1) raw)
        in if t \<notin> set EXPECTATION_TYPES then Inl (invalidExpectation t)
           else Inr \<lparr>ex_type = t, ex_value = v\<rparr>)"
| "parseExpectation (RawObject []) = Inl (TypeError ''undefined is not iterable'')"
| "parseExpectation (RawObject ((t, v) # entries)) =
     (if t \<notin> set EXPECTATION_TYPES then Inl (invalidExpectation t)
      else Inr \<lparr>ex_type = t, ex_value = v\<rparr>)"

text \<open>\<open>xs.map(f)\<close> for an \<open>f\<close> that may throw: the first exception ends the map.\<close>

fun mapThrowing :: "('a \<Rightarrow> exn + 'b) \<Rightarrow> 'a list \<Rightarrow> exn + 'b list" where
  "mapThrowing f [] = Inr []"
| "mapThrowing f (x # xs) =
     (case f x of
        Inl e \<Rightarrow> Inl e
      | Inr y \<Rightarrow> (case mapThrowing f xs of Inl e \<Rightarrow> Inl e | Inr ys \<Rightarrow> Inr (y # ys)))"

definition cannotRead :: "string \<Rightarrow> string \<Rightarrow> exn" where
  "cannotRead what prop =
     TypeError (''Cannot read properties of '' @ what @ '' (reading '' @ sq @ prop @ sq @ '')'')"

definition parseStep :: "RawStep \<Rightarrow> exn + ScenarioStep" where
  "parseStep raw =
     (case rs_action raw of
        None \<Rightarrow> Inl (cannotRead ''undefined'' ''toLowerCase'')
      | Some a \<Rightarrow>
          let action = toLowerCase a in
          if action \<notin> set VALID_ACTIONS then
            Inl (Error (''Invalid action '' @ dq @ a @ dq @ '' in step '' @ dq @ tmpl (rs_id raw) @ dq
                        @ ''. Valid actions: '' @ joinWith '', '' VALID_ACTIONS))
          else
            (case (case rs_expect raw of
                     None \<Rightarrow> Inr None
                   | Some es \<Rightarrow> (case mapThrowing parseExpectation es of
                                  Inl e \<Rightarrow> Inl e | Inr xs \<Rightarrow> Inr (Some xs))) of
               Inl e \<Rightarrow> Inl e
             | Inr expect \<Rightarrow>
                 Inr \<lparr>st_id = rs_id raw, st_action = action, st_target = rs_target raw,
                      st_value = rs_value raw, st_expect = expect\<rparr>))"

definition orEmpty :: "'a list option \<Rightarrow> 'a list" where
  "orEmpty xs = (case xs of None \<Rightarrow> [] | Some ys \<Rightarrow> ys)"

definition parseScenarioFile :: "'w Env \<Rightarrow> string \<Rightarrow> (Scenario, 'w) io" where
  "parseScenarioFile E filePath w =
     (case io_readYaml E filePath w of
        (Inl e, w1) \<Rightarrow> (Inl e, w1)
      | (Inr None, w1) \<Rightarrow> (Inl (cannotRead ''null'' ''name''), w1)
      | (Inr (Some raw), w1) \<Rightarrow>
          (case rw_description raw of
             None \<Rightarrow> (Inl (cannotRead ''undefined'' ''trim''), w1)
           | Some d \<Rightarrow>
               (case rw_steps raw of
                  None \<Rightarrow> (Inl (cannotRead ''undefined'' ''map''), w1)
                | Some rawSteps \<Rightarrow>
                    (case mapThrowing parseStep rawSteps of
                       Inl e \<Rightarrow> (Inl e, w1)
                     | Inr steps \<Rightarrow>
                         (Inr \<lparr>sc_name = rw_name raw,
                               sc_description = trim d,
                               sc_preconditions = orEmpty (rw_preconditions raw),
                               sc_steps = steps,
                               sc_postconditions = orEmpty (rw_postconditions raw),
                               sc_tags = orEmpty (rw_tags raw)\<rparr>, w1)))))"

definition endsWith :: "string \<Rightarrow> string \<Rightarrow> bool" where
  "endsWith s p = suffix p s"

text \<open>
  A \<open>Map\<close> is an association list in insertion order; \<open>mapSet\<close> is \<open>Map.set\<close>, which
  keeps the position of a key that is already present.
\<close>

fun mapSet :: "'k \<Rightarrow> 'v \<Rightarrow> ('k \<times> 'v) list \<Rightarrow> ('k \<times> 'v) list" where
  "mapSet k v [] = [(k, v)]"
| "mapSet k v (p # ps) = (if fst p = k then (k, v) # ps else p # mapSet k v ps)"

fun loadFiles ::
  "'w Env \<Rightarrow> string \<Rightarrow> string list \<Rightarrow> (string \<times> Scenario) list
     \<Rightarrow> ((string \<times> Scenario) list, 'w) io" where
  "loadFiles E scenariosDir [] scenarios w = (Inr scenarios, w)"
| "loadFiles E scenariosDir (file # files) scenarios w =
     (case parseScenarioFile E (io_join E scenariosDir file) w of
        (Inl e, w1) \<Rightarrow> (Inl e, w1)
      | (Inr scenario, w1) \<Rightarrow> loadFiles E scenariosDir files (mapSet file scenario scenarios) w1)"

definition loadAllScenarios :: "'w Env \<Rightarrow> string \<Rightarrow> ((string \<times> Scenario) list, 'w) io" where
  "loadAllScenarios E scenariosDir w =
     (case io_readdirSync E scenariosDir w of
        (Inl e, w1) \<Rightarrow> (Inl e, w1)
      | (Inr names, w1) \<Rightarrow>
          loadFiles E scenariosDir
            (filter (\<lambda>f. endsWith f ''.yaml'' \<or> endsWith f ''.yml'') names) [] w1)"

text \<open>The loop of \<open>validateScenario\<close>, on \<open>(errors, stepIds)\<close>.\<close>

fun validateSteps :: "ScenarioStep list \<Rightarrow> string list \<times> string list \<Rightarrow> string list" where
  "validateSteps [] (errors, stepIds) = errors"
| "validateSteps (step # steps) (errors, stepIds) =
     (let (errors1, stepIds1) =
            (case st_id step of
               None \<Rightarrow> (errors @ [''Step is missing an id''], stepIds)
             | Some i \<Rightarrow>
                 if i = [] then (errors @ [''Step is missing an id''], stepIds)
                 else if i \<in> set stepIds then (errors @ [''Duplicate step id: '' @ i], stepIds)
                 else (errors, stepIds @ [i]));
          errors2 =
            (if \<not> truthy (st_target step) \<and> st_action step \<noteq> ''wait''
                \<and> st_action step \<noteq> ''screenshot''
             then errors1 @ [''Step '' @ dq @ tmpl (st_id step) @ dq @ '' is missing a target'']
             else errors1);
          errors3 =
            (if st_action step = ''fill'' \<and> \<not> truthy (st_value step)
             then errors2 @ [''Step '' @ dq @ tmpl (st_id step) @ dq @ '' has action '' @ dq
                             @ ''fill'' @ dq @ '' but no value'']
             else errors2)
      in validateSteps steps (errors3, stepIds1))"

definition validateScenario :: "Scenario \<Rightarrow> string list" where
  "validateScenario scenario =
     (let errors1 = (if \<not> truthy (sc_name scenario) then [''Scenario must have a name''] else []);
          errors2 = (if sc_steps scenario = []
                     then errors1 @ [''Scenario must have at least one step''] else errors1)
      in validateSteps (sc_steps scenario) (errors2, []))"

section \<open>Writing a test result (e2e/lib/reportGenerator.ts)\<close>

text \<open>
  The three \<open>generate...Report\<close> functions differ in the file name only; each creates the
  output directory when it is missing, writes the JSON and returns the path.
\<close>

definition writeReport :: "'w Env \<Rightarrow> string \<Rightarrow> string \<Rightarrow> (string, 'w) io" where
  "writeReport E outputDir fileName w =
     (let filePath = io_join E outputDir fileName in
      case (if \<not> io_existsSync E w outputDir then io_mkdirSync E outputDir w else (Inr (), w)) of
        (Inl e, w1) \<Rightarrow> (Inl e, w1)
      | (Inr _, w1) \<Rightarrow>
          (case io_writeFileSync E filePath w1 of
             (Inl e, w2) \<Rightarrow> (Inl e, w2)
           | (Inr _, w2) \<Rightarrow> (Inr filePath, w2)))"

definition generateTestResultReport :: "'w Env \<Rightarrow> TestResult \<Rightarrow> string \<Rightarrow> (string, 'w) io" where
  "generateTestResultReport E result outputDir w =
     writeReport E outputDir
       (replaceFirst (tr_scenarioFile result) ''.yaml'' [] @ ''-'' @ toString (io_now E w) @ ''.json'') w"

section \<open>The test runner agent (e2e/agents/testRunner.ts)\<close>

record TestRunnerInput =
  ri_scenarioFile :: string
  ri_scenariosDir :: string
  ri_screenshotDir :: string
  ri_reportsDir :: string
  ri_config :: TestRunnerConfig

record TestRunnerOutput =
  ro_success :: bool
  ro_result :: TestResult
  ro_reportPath :: string
  ro_error :: "string option"

definition createFailedResult :: "'w Env \<Rightarrow> string \<Rightarrow> string \<Rightarrow> 'w \<Rightarrow> TestResult" where
  "createFailedResult E scenarioFile error w =
     \<lparr>tr_scenario = Some scenarioFile,
      tr_scenarioFile = scenarioFile,
      tr_status = test_failed,
      tr_duration = 0,
      tr_steps = [],
      tr_screenshots = [],
      tr_consoleErrors = [error],
      tr_networkErrors = [],
      tr_timestamp = io_toISOString E w\<rparr>"

definition validationMessage :: "string list \<Rightarrow> string" where
  "validationMessage validationErrors =
     ''Validation errors:'' @ nl @ joinWith nl (map (\<lambda>e. ''  - '' @ e) validationErrors)"

text \<open>
  The second \<open>try\<close> block of \<open>runTestRunner\<close>: its \<open>catch\<close> turns an exception of
  \<open>initialize\<close> or \<open>runScenario\<close> into a failed result, so it always yields a result.
\<close>

definition runInBrowser :: "'w Env \<Rightarrow> TestRunnerInput \<Rightarrow> Scenario \<Rightarrow> 'w \<Rightarrow> TestResult \<times> 'w" where
  "runInBrowser E input scenario w =
     (case io_launch E (ri_config input) w of
        (Inl err, w1) \<Rightarrow> (createFailedResult E (ri_scenarioFile input) (message err) w1, w1)
      | (Inr _, w1) \<Rightarrow>
          (let scenarioScreenshotDir =
                 io_join E (ri_screenshotDir input) (replaceFirst (ri_scenarioFile input) ''.yaml'' [])
           in case runScenario E (ri_config input) scenario (ri_scenarioFile input)
                     scenarioScreenshotDir w1 of
                (Inl err, w2) \<Rightarrow> (createFailedResult E (ri_scenarioFile input) (message err) w2, w2)
              | (Inr result, w2) \<Rightarrow> (result, w2)))"

definition runTestRunner :: "'w Env \<Rightarrow> TestRunnerInput \<Rightarrow> (TestRunnerOutput, 'w) io" where
  "runTestRunner E input w =
     (let scenarioPath = io_join E (ri_scenariosDir input) (ri_scenarioFile input) in
      case parseScenarioFile E scenarioPath w of
        (Inl err, w1) \<Rightarrow>
          (Inr \<lparr>ro_success = False,
                ro_result = createFailedResult E (ri_scenarioFile input) (message err) w1,
                ro_reportPath = [],
                ro_error = Some (message err)\<rparr>, w1)
      | (Inr scenario, w1) \<Rightarrow>
          (let validationErrors = validateScenario scenario in
           if validationErrors \<noteq> [] then
             (let error = validationMessage validationErrors in
              (Inr \<lparr>ro_success = False,
                    ro_result = createFailedResult E (ri_scenarioFile input) error w1,
                    ro_reportPath = [],
                    ro_error = Some error\<rparr>, w1))
           else
             (case runInBrowser E input scenario w1 of
                (result, w2) \<Rightarrow>
                  (case io_close E w2 of
                     (Inl e, w3) \<Rightarrow> (Inl e, w3)
                   | (Inr _, w3) \<Rightarrow>
                       (case generateTestResultReport E result (ri_reportsDir input) w3 of
                          (Inl e, w4) \<Rightarrow> (Inl e, w4)
                        | (Inr reportPath, w4) \<Rightarrow>
                            (Inr \<lparr>ro_success = (tr_status result = test_passed),
                                  ro_result = result,
                                  ro_reportPath = reportPath,
                                  ro_error = None\<rparr>, w4))))))"

section \<open>The scenario loader of the Appium executor (e2e/src/parser.ts)\<close>

text \<open>
  The YAML document before \<open>parseScenarioFile\<close> checks it; \<open>rt_steps\<close> is \<open>None\<close>
  when \<open>steps\<close> is absent or is not an array.  \<open>ParserEnv\<close> holds the module
  constant \<open>SCENARIOS_DIR\<close> and the library calls: \<open>path.join\<close>, \<open>glob\<close> for the
  pattern and ignore list that \<open>loadAllScenarios\<close> passes, and \<open>readFileSync\<close>
  followed by the YAML parser (\<open>None\<close> for a null document).
\<close>

record RawTestScenario =
  rt_name :: "string option"
  rt_description :: "string option"
  rt_tags :: "string list option"
  rt_requires :: "string list option"
  rt_steps :: "TestStep list option"

record 'w ParserEnv =
  px_SCENARIOS_DIR :: string
  px_join :: "string \<Rightarrow> string \<Rightarrow> string"
  px_glob :: "(string list, 'w) io"
  px_readYaml :: "string \<Rightarrow> (RawTestScenario option, 'w) io"

definition exParseScenarioFile :: "'w ParserEnv \<Rightarrow> string \<Rightarrow> (TestScenario, 'w) io" where
  "exParseScenarioFile P filePath w =
     (case px_readYaml P filePath w of
        (Inl e, w1) \<Rightarrow> (Inl e, w1)
      | (Inr None, w1) \<Rightarrow> (Inl (cannotRead ''null'' ''name''), w1)
      | (Inr (Some parsed), w1) \<Rightarrow>
          if \<not> truthy (rt_name parsed) then
            (Inl (Error (''Scenario missing '' @ sq @ ''name'' @ sq @ '' field: '' @ filePath)), w1)
          else
            (case rt_steps parsed of
               None \<Rightarrow>
                 (Inl (Error (''Scenario missing '' @ sq @ ''steps'' @ sq @ '' array: '' @ filePath)), w1)
             | Some steps \<Rightarrow>
                 (Inr \<lparr>ts_name = tmpl (rt_name parsed), ts_description = rt_description parsed,
                       ts_tags = rt_tags parsed, ts_requires = rt_requires parsed,
                       ts_steps = steps\<rparr>, w1)))"

fun exLoadFiles ::
  "'w ParserEnv \<Rightarrow> string list \<Rightarrow> (string \<times> TestScenario) list
     \<Rightarrow> ((string \<times> TestScenario) list, 'w) io" where
  "exLoadFiles P [] scenarios w = (Inr scenarios, w)"
| "exLoadFiles P (file # files) scenarios w =
     (case exParseScenarioFile P (px_join P (px_SCENARIOS_DIR P) file) w of
        (Inl e, w1) \<Rightarrow> (Inl e, w1)
      | (Inr scenario, w1) \<Rightarrow>
          exLoadFiles P files (mapSet (replaceFirst file ''.yaml'' []) scenario scenarios) w1)"

definition exLoadAllScenarios :: "'w ParserEnv \<Rightarrow> ((string \<times> TestScenario) list, 'w) io" where
  "exLoadAllScenarios P w =
     (case px_glob P w of
        (Inl e, w1) \<Rightarrow> (Inl e, w1)
      | (Inr files, w1) \<Rightarrow> exLoadFiles P files [] w1)"

section \<open>Regular expressions of the analyzer\<close>

text \<open>
  The analyzer's patterns are sequences of three kinds of items: a literal, a
  non-capturing alternation of literals, and the capturing group \<open>(.+)\<close>.  All carry
  the flag \<open>i\<close>, so literals are compared without regard to case.  \<open>matchHere\<close> is
  the backtracking matcher at one position: alternatives are tried in order, \<open>(.+)\<close>
  is greedy and does not cross a line terminator.  It returns the captured groups.
  \<open>regexMatch\<close> is \<open>String.prototype.match\<close> for these patterns: the leftmost match.
\<close>

datatype RegexItem = Lit string | Alt "string list" | Group

definition prefixCI :: "string \<Rightarrow> string \<Rightarrow> bool" where
  "prefixCI p s = prefix (toLowerCase p) (toLowerCase s)"

definition isLineTerminator :: "char \<Rightarrow> bool" where
  "isLineTerminator c = (c = CHR 0x0A \<or> c = CHR 0x0D)"

fun firstSome :: "'a option list \<Rightarrow> 'a option" where
  "firstSome [] = None"
| "firstSome (None # xs) = firstSome xs"
| "firstSome (Some x # xs) = Some x"

fun matchHere :: "RegexItem list \<Rightarrow> string \<Rightarrow> string list option" where
  "matchHere [] s = Some []"
| "matchHere (Lit l # rest) s =
     (if prefixCI l s then matchHere rest (drop (length l) s) else None)"
| "matchHere (Alt alts # rest) s =
     firstSome (map (\<lambda>a. if prefixCI a s then matchHere rest (drop (length a) s) else None) alts)"
| "matchHere (Group # rest) s =
     (let n = length (takeWhile (\<lambda>c. \<not> isLineTerminator c) s)
      in firstSome (map (\<lambda>k. case matchHere rest (drop k s) of
                                 None \<Rightarrow> None
                               | Some groups \<Rightarrow> Some (take k s # groups))
                        (rev [1..<Suc n])))"

fun regexMatch :: "RegexItem list \<Rightarrow> string \<Rightarrow> string list option" where
  "regexMatch pattern [] = matchHere pattern []"
| "regexMatch pattern (c # cs) =
     (case matchHere pattern (c # cs) of
        Some groups \<Rightarrow> Some groups
      | None \<Rightarrow> regexMatch pattern cs)"

definition regexTest :: "RegexItem list \<Rightarrow> string \<Rightarrow> bool" where
  "regexTest pattern s = (regexMatch pattern s \<noteq> None)"

text \<open>\<open>m[i]\<close> of a match, for \<open>i \<ge> 1\<close>, as a template literal prints it.\<close>

definition group :: "string list \<Rightarrow> nat \<Rightarrow> string" where
  "group m i = (if 1 \<le> i \<and> i \<le> length m then m ! (i - 1) else ''undefined'')"

section \<open>The analyzer agent (e2e/agents/analyzer.ts)\<close>

datatype FailureCategory = selector | timing | state | logic | network

datatype Confidence = high | medium | low

record Analysis =
  an_scenario :: "string option"
  an_scenarioFile :: string
  an_failedStep :: string
  an_failedStepId :: "string option"
  an_rootCause :: string
  an_category :: FailureCategory
  an_affectedFiles :: "string list"
  an_suggestedFix :: string
  an_confidence :: Confidence
  an_timestamp :: string

text \<open>The configuration of the analyzer is never read and is left out of its input.\<close>

record AnalyzerInput =
  ai_testResult :: TestResult
  ai_projectRoot :: string
  ai_reportsDir :: string

record AnalyzerOutput =
  ao_analysis :: Analysis
  ao_reportPath :: string

definition FAILURE_PATTERNS ::
  "(RegexItem list \<times> FailureCategory \<times> (string list \<Rightarrow> string)) list" where
  "FAILURE_PATTERNS =
     [([Lit ''Could not find '', Alt [''clickable'', ''fillable''], Lit '' element: '', Group],
       selector,
       (\<lambda>m. ''Element '' @ dq @ group m 1 @ dq
             @ '' not found - selector may be incorrect or element not rendered'')),
      ([Lit (''Expected '' @ dq), Group, Lit (dq @ '' to be visible'')],
       selector,
       (\<lambda>m. ''Element '' @ dq @ group m 1 @ dq
             @ '' not visible - may not be rendered or wrong selector'')),
      ([Lit ''Timeout''],
       timing,
       (\<lambda>m. ''Operation timed out - async operation may be slow or not completing'')),
      ([Lit ''Expected '', Alt [''URL'', ''url''], Lit '' to '', Alt [''be'', ''contain''],
        Lit ('' '' @ dq), Group, Lit (dq @ '' but got '' @ dq), Group, Lit dq],
       state,
       (\<lambda>m. ''Navigation issue: expected '' @ dq @ group m 1 @ dq @ '' but at '' @ dq
             @ group m 2 @ dq)),
      ([Lit (''Expected input value to be '' @ dq), Group, Lit (dq @ '' but got '' @ dq), Group,
        Lit dq],
       state,
       (\<lambda>m. ''State mismatch: expected '' @ dq @ group m 1 @ dq @ '' but got '' @ dq
             @ group m 2 @ dq)),
      ([Lit ''Page Error: '', Group],
       logic,
       (\<lambda>m. ''JavaScript error: '' @ group m 1)),
      ([Alt [''NetworkError'', ''Failed to fetch'', ''net::ERR'']],
       network,
       (\<lambda>m. ''Network request failed''))]"

definition FILE_MAPPINGS :: "(RegexItem list \<times> string list) list" where
  "FILE_MAPPINGS =
     [([Lit ''template''],
       [''src/pages/TemplatePage.tsx'', ''src/components/templates/TemplateForm.tsx'',
        ''src/components/templates/TemplateList.tsx'']),
      ([Alt [''workout'', ''exercise'', ''set'']],
       [''src/pages/HomePage.tsx'', ''src/components/workout/ExerciseCard.tsx'',
        ''src/components/workout/ExerciseList.tsx'', ''src/stores/workoutStore.ts'']),
      ([Alt [''history'', ''session'']],
       [''src/pages/HistoryPage.tsx'', ''src/components/history/HistoryList.tsx'',
        ''src/components/history/SessionDetail.tsx'']),
      ([Lit ''settings''],
       [''src/pages/SettingsPage.tsx'']),
      ([Alt [''button'', ''click'', ''modal'']],
       [''src/components/common/Button.tsx'', ''src/components/common/Modal.tsx'']),
      ([Alt [''input'', ''fill'', ''form'']],
       [''src/components/common/Input.tsx'']),
      ([Alt [''navigate'', ''url'', ''route'']],
       [''src/App.tsx''])]"

text \<open>The loop of \<open>analyzeError\<close> over the patterns, with its default after the loop.\<close>

fun matchPatterns ::
  "(RegexItem list \<times> FailureCategory \<times> (string list \<Rightarrow> string)) list \<Rightarrow> string
     \<Rightarrow> FailureCategory \<times> string" where
  "matchPatterns [] error =
     (selector,
      if error \<noteq> [] then error
      else ''Unknown error - step failed without specific error message'')"
| "matchPatterns ((pattern, category, getMessage) # rest) error =
     (case regexMatch pattern error of
        Some m \<Rightarrow> (category, getMessage m)
      | None \<Rightarrow> matchPatterns rest error)"

definition analyzeError :: "StepResult \<Rightarrow> TestResult \<Rightarrow> FailureCategory \<times> string" where
  "analyzeError failedStep testResult =
     (let error = (case sr_error failedStep of Some e \<Rightarrow> e | None \<Rightarrow> []) in
      case (if tr_consoleErrors testResult \<noteq> []
            then find (\<lambda>e. includesStr e ''Error'') (tr_consoleErrors testResult)
            else None) of
        Some jsError \<Rightarrow> (logic, ''JavaScript error: '' @ take 200 jsError)
      | None \<Rightarrow>
          (case tr_networkErrors testResult of
             n # ns \<Rightarrow> (network, ''Network failure: '' @ n)
           | [] \<Rightarrow> matchPatterns FAILURE_PATTERNS error))"

text \<open>The inner loop of \<open>identifyAffectedFiles\<close> over the files of one mapping.\<close>

fun addExisting :: "'w Env \<Rightarrow> 'w \<Rightarrow> string \<Rightarrow> string list \<Rightarrow> string list \<Rightarrow> string list" where
  "addExisting E w projectRoot [] files = files"
| "addExisting E w projectRoot (file # mappedFiles) files =
     addExisting E w projectRoot mappedFiles
       (if io_existsSync E w (io_join E projectRoot file) \<and> file \<notin> set files
        then files @ [file] else files)"

fun addMappings ::
  "'w Env \<Rightarrow> 'w \<Rightarrow> string \<Rightarrow> (RegexItem list \<times> string list) list \<Rightarrow> string \<Rightarrow> string list
     \<Rightarrow> string list" where
  "addMappings E w projectRoot [] searchTerms files = files"
| "addMappings E w projectRoot ((pattern, mappedFiles) # rest) searchTerms files =
     addMappings E w projectRoot rest searchTerms
       (if regexTest pattern searchTerms then addExisting E w projectRoot mappedFiles files
        else files)"

definition identifyAffectedFiles :: "'w Env \<Rightarrow> 'w \<Rightarrow> StepResult \<Rightarrow> string \<Rightarrow> exn + string list" where
  "identifyAffectedFiles E w failedStep projectRoot =
     (case sr_target failedStep of
        None \<Rightarrow> Inl (cannotRead ''undefined'' ''toLowerCase'')
      | Some t \<Rightarrow>
          (case sr_id failedStep of
             None \<Rightarrow> Inl (cannotRead ''undefined'' ''toLowerCase'')
           | Some i \<Rightarrow>
               let searchTerms = toLowerCase t @ '' '' @ toLowerCase i;
                   files = addMappings E w projectRoot FILE_MAPPINGS searchTerms [];
                   files' = (if files = []
                             then addExisting E w projectRoot
                                    [''src/App.tsx'', ''src/pages/HomePage.tsx''] files
                             else files)
               in Inr (take 5 files')))"

definition firstOr :: "string list \<Rightarrow> string \<Rightarrow> string" where
  "firstOr files d = (case files of f # fs \<Rightarrow> (if f \<noteq> [] then f else d) | [] \<Rightarrow> d)"

fun generateFixSuggestion ::
  "StepResult \<Rightarrow> FailureCategory \<Rightarrow> string \<Rightarrow> string list \<Rightarrow> string" where
  "generateFixSuggestion failedStep selector rootCause affectedFiles =
     ''Check and update the selector for '' @ dq @ tmpl (sr_target failedStep) @ dq @ '' in ''
     @ firstOr affectedFiles ''the relevant component''
     @ ''. The element may have a different class, id, or text content. Consider using data-testid attributes for more reliable selectors.''"
| "generateFixSuggestion failedStep timing rootCause affectedFiles =
     ''Add explicit wait conditions before the '' @ dq @ sr_action failedStep @ dq
     @ '' action. The element may be loading asynchronously. Consider using Playwright''
     @ sq @ ''s auto-waiting features or adding a waitForSelector call.''"
| "generateFixSuggestion failedStep state rootCause affectedFiles =
     ''Verify the application state before step '' @ dq @ tmpl (sr_id failedStep) @ dq
     @ ''. The expected state '' @ dq @ tmpl (sr_expectedValue failedStep) @ dq @ '' doesn''
     @ sq @ ''t match actual '' @ dq @ tmpl (sr_actualValue failedStep) @ dq
     @ ''. Check the state management logic in '' @ firstOr affectedFiles ''the store/hooks'' @ ''.''"
| "generateFixSuggestion failedStep logic rootCause affectedFiles =
     ''Fix the JavaScript error in '' @ firstOr affectedFiles ''the application code'' @ ''. ''
     @ rootCause @ ''. Review the component logic and error boundaries.''"
| "generateFixSuggestion failedStep network rootCause affectedFiles =
     ''Check the API endpoint and network handling. Ensure the backend is running and the endpoint is accessible. Consider adding error handling for failed requests.''"

definition determineConfidence :: "FailureCategory \<Rightarrow> string list \<Rightarrow> StepResult \<Rightarrow> Confidence" where
  "determineConfidence category affectedFiles failedStep =
     (if length affectedFiles > 0 \<and> length affectedFiles \<le> 2
         \<and> ((category = selector \<and> truthy (sr_target failedStep))
            \<or> (category = logic
               \<and> (case sr_error failedStep of Some e \<Rightarrow> includesStr e ''Error'' | None \<Rightarrow> False)))
      then high
      else if length affectedFiles > 0 \<or> truthy (sr_error failedStep) then medium
      else low)"

definition generateAnalysisReport :: "'w Env \<Rightarrow> Analysis \<Rightarrow> string \<Rightarrow> (string, 'w) io" where
  "generateAnalysisReport E analysis outputDir w =
     writeReport E outputDir
       (''analysis-'' @ replaceFirst (an_scenarioFile analysis) ''.yaml'' [] @ ''-''
        @ toString (io_now E w) @ ''.json'') w"

definition runAnalyzer :: "'w Env \<Rightarrow> AnalyzerInput \<Rightarrow> (AnalyzerOutput, 'w) io" where
  "runAnalyzer E input w =
     (let testResult = ai_testResult input in
      case find (\<lambda>s. sr_status s = failed) (tr_steps testResult) of
        None \<Rightarrow> (Inl (Error ''No failed step found in test result''), w)
      | Some failedStep \<Rightarrow>
          (let (category, rootCause) = analyzeError failedStep testResult in
           case identifyAffectedFiles E w failedStep (ai_projectRoot input) of
             Inl e \<Rightarrow> (Inl e, w)
           | Inr affectedFiles \<Rightarrow>
               (let suggestedFix = generateFixSuggestion failedStep category rootCause affectedFiles;
                    confidence = determineConfidence category affectedFiles failedStep;
                    analysis =
                      \<lparr>an_scenario = tr_scenario testResult,
                       an_scenarioFile = tr_scenarioFile testResult,
                       an_failedStep = sr_action failedStep @ '' on '' @ dq
                                       @ tmpl (sr_target failedStep) @ dq,
                       an_failedStepId = sr_id failedStep,
                       an_rootCause = rootCause,
                       an_category = category,
                       an_affectedFiles = affectedFiles,
                       an_suggestedFix = suggestedFix,
                       an_confidence = confidence,
                       an_timestamp = io_toISOString E w\<rparr>
                in case generateAnalysisReport E analysis (ai_reportsDir input) w of
                     (Inl e, w1) \<Rightarrow> (Inl e, w1)
                   | (Inr reportPath, w1) \<Rightarrow>
                       (Inr \<lparr>ao_analysis = analysis, ao_reportPath = reportPath\<rparr>, w1))))"

section \<open>The coding agent (e2e/agents/codingAgent.ts)\<close>

record FileModification =
  fm_filePath :: string
  fm_originalContent :: string
  fm_modifiedContent :: string
  fm_changes :: string

record Fix =
  fx_analysis :: Analysis
  fx_filesModified :: "FileModification list"
  fx_typescriptValid :: bool
  fx_timestamp :: string

record CodingAgentConfig =
  autoApply :: bool
  maxFilesPerFix :: int
  validateTypescript :: bool

record CodingAgentInput =
  ci_analysis :: Analysis
  ci_projectRoot :: string
  ci_reportsDir :: string
  ci_config :: CodingAgentConfig

record CodingAgentOutput =
  co_success :: bool
  co_fix :: Fix
  co_reportPath :: string
  co_error :: "string option"

fun categoryName :: "FailureCategory \<Rightarrow> string" where
  "categoryName selector = ''selector''"
| "categoryName timing = ''timing''"
| "categoryName state = ''state''"
| "categoryName logic = ''logic''"
| "categoryName network = ''network''"

fun confidenceName :: "Confidence \<Rightarrow> string" where
  "confidenceName high = ''high''"
| "confidenceName medium = ''medium''"
| "confidenceName low = ''low''"

text \<open>\<open>xs.slice(0, n)\<close>: a negative \<open>n\<close> counts from the end.\<close>

definition slice0 :: "'a list \<Rightarrow> int \<Rightarrow> 'a list" where
  "slice0 xs n = (if 0 \<le> n then take (nat n) xs else take (length xs - nat (- n)) xs)"

text \<open>The loop of \<open>runCodingAgent\<close> over the affected files.\<close>

fun readAffected ::
  "'w Env \<Rightarrow> Analysis \<Rightarrow> string \<Rightarrow> string list \<Rightarrow> FileModification list
     \<Rightarrow> (FileModification list, 'w) io" where
  "readAffected E analysis projectRoot [] filesModified w = (Inr filesModified, w)"
| "readAffected E analysis projectRoot (file # files) filesModified w =
     (let filePath = io_join E projectRoot file in
      if \<not> io_existsSync E w filePath then
        readAffected E analysis projectRoot files filesModified w
      else
        (case io_readFileSync E filePath w of
           (Inl e, w1) \<Rightarrow> (Inl e, w1)
         | (Inr originalContent, w1) \<Rightarrow>
             readAffected E analysis projectRoot files
               (filesModified @
                [\<lparr>fm_filePath = file,
                  fm_originalContent = originalContent,
                  fm_modifiedContent = originalContent,
                  fm_changes = ''Analyzed for '' @ categoryName (an_category analysis) @ '' fix: ''
                               @ an_rootCause analysis\<rparr>]) w1))"

definition validateTypeScript :: "'w Env \<Rightarrow> string \<Rightarrow> 'w \<Rightarrow> bool \<times> 'w" where
  "validateTypeScript E projectRoot w =
     (case io_execTsc E projectRoot w of
        (Inr _, w1) \<Rightarrow> (True, w1)
      | (Inl _, w1) \<Rightarrow> (False, w1))"

definition generateFixReport :: "'w Env \<Rightarrow> Fix \<Rightarrow> string \<Rightarrow> (string, 'w) io" where
  "generateFixReport E fix outputDir w =
     writeReport E outputDir
       (''fix-'' @ replaceFirst (an_scenarioFile (fx_analysis fix)) ''.yaml'' [] @ ''-''
        @ toString (io_now E w) @ ''.json'') w"

definition runCodingAgent :: "'w Env \<Rightarrow> CodingAgentInput \<Rightarrow> (CodingAgentOutput, 'w) io" where
  "runCodingAgent E input w =
     (let analysis = ci_analysis input; config = ci_config input in
      case readAffected E analysis (ci_projectRoot input)
             (slice0 (an_affectedFiles analysis) (maxFilesPerFix config)) [] w of
        (Inl e, w1) \<Rightarrow> (Inl e, w1)
      | (Inr filesModified, w1) \<Rightarrow>
          (case (if validateTypescript config \<and> filesModified \<noteq> []
                 then validateTypeScript E (ci_projectRoot input) w1 else (True, w1)) of
             (typescriptValid, w2) \<Rightarrow>
               (let fix = \<lparr>fx_analysis = analysis, fx_filesModified = filesModified,
                           fx_typescriptValid = typescriptValid,
                           fx_timestamp = io_toISOString E w2\<rparr>
                in case generateFixReport E fix (ci_reportsDir input) w2 of
                     (Inl e, w3) \<Rightarrow> (Inl e, w3)
                   | (Inr reportPath, w3) \<Rightarrow>
                       (Inr \<lparr>co_success = typescriptValid, co_fix = fix,
                             co_reportPath = reportPath, co_error = None\<rparr>, w3))))"

text \<open>The loop of \<open>generateCodingAgentPrompt\<close> over the affected files.\<close>

fun readContents :: "'w Env \<Rightarrow> string \<Rightarrow> string list \<Rightarrow> string list \<Rightarrow> (string list, 'w) io" where
  "readContents E projectRoot [] fileContents w = (Inr fileContents, w)"
| "readContents E projectRoot (file # files) fileContents w =
     (let filePath = io_join E projectRoot file in
      if io_existsSync E w filePath then
        (case io_readFileSync E filePath w of
           (Inl e, w1) \<Rightarrow> (Inl e, w1)
         | (Inr content, w1) \<Rightarrow>
             readContents E projectRoot files
               (fileContents @ [''### '' @ file @ nl @ ''```typescript'' @ nl @ content @ nl @ ''```''])
               w1)
      else readContents E projectRoot files fileContents w)"

definition generateCodingAgentPrompt :: "'w Env \<Rightarrow> Analysis \<Rightarrow> string \<Rightarrow> (string, 'w) io" where
  "generateCodingAgentPrompt E analysis projectRoot w =
     (case readContents E projectRoot (an_affectedFiles analysis) [] w of
        (Inl e, w1) \<Rightarrow> (Inl e, w1)
      | (Inr fileContents, w1) \<Rightarrow>
          (Inr (joinWith nl
                 [[],
                  ''You are a Coding Agent fixing a test failure.'',
                  [],
                  ''## Test Failure Details'',
                  [],
                  ''**Scenario:** '' @ tmpl (an_scenario analysis),
                  ''**Failed Step:** '' @ an_failedStep analysis @ '' (id: ''
                    @ tmpl (an_failedStepId analysis) @ '')'',
                  ''**Category:** '' @ categoryName (an_category analysis),
                  ''**Root Cause:** '' @ an_rootCause analysis,
                  ''**Confidence:** '' @ confidenceName (an_confidence analysis),
                  [],
                  ''## Suggested Fix'',
                  [],
                  an_suggestedFix analysis,
                  [],
                  ''## Affected Files'',
                  [],
                  joinWith (nl @ nl) fileContents,
                  [],
                  ''## Instructions'',
                  [],
                  ''1. Analyze the root cause and affected files'',
                  ''2. Apply a minimal, targeted fix that addresses the issue'',
                  ''3. Do NOT change unrelated code'',
                  ''4. Do NOT add unnecessary comments or refactoring'',
                  ''5. Ensure the fix maintains TypeScript type safety'',
                  ''6. After making changes, run `npx tsc --noEmit` to validate'',
                  [],
                  ''Focus on fixing this specific issue: **'' @ an_rootCause analysis @ ''**'',
                  []]), w1))"

section \<open>The orchestrator's state and the final report (e2e/lib/types.ts, reportGenerator.ts)\<close>

datatype OrchestratorStatus = initializing | running | orch_passed | orch_failed | max_retries

record OrchestratorState =
  os_scenarios :: "Scenario list"
  os_currentScenario :: "string option"
  os_iteration :: int
  os_maxIterations :: real
  os_results :: "TestResult list"
  os_analyses :: "Analysis list"
  os_fixes :: "Fix list"
  os_status :: OrchestratorStatus
  os_startTime :: string
  os_endTime :: "string option"

record ScenarioReport =
  rp_name :: "string option"
  rp_file :: string
  rp_status :: TestStatus
  rp_iterations :: int
  rp_results :: "TestResult list"
  rp_analyses :: "Analysis list"
  rp_fixes :: "Fix list"

record ReportSummary =
  totalScenarios :: int
  sm_passed :: int
  sm_failed :: int
  sm_iterations :: int
  fixesApplied :: int

record FinalReport =
  fr_summary :: ReportSummary
  fr_scenarios :: "ScenarioReport list"
  fr_fixes :: "Fix list"
  fr_timestamp :: string
  fr_duration :: int

text \<open>
  \<open>mapGet\<close> is \<open>Map.get\<close>.  The reports in the map are objects that the loops mutate
  through the reference \<open>get\<close> returns; \<open>mapModify\<close> is that mutation.
\<close>

definition mapGet :: "('k \<times> 'v) list \<Rightarrow> 'k \<Rightarrow> 'v option" where
  "mapGet m k = map_of m k"

fun mapModify :: "'k \<Rightarrow> ('v \<Rightarrow> 'v) \<Rightarrow> ('k \<times> 'v) list \<Rightarrow> ('k \<times> 'v) list" where
  "mapModify k f [] = []"
| "mapModify k f (p # ps) = (if fst p = k then (k, f (snd p)) # ps else p # mapModify k f ps)"

fun groupResults ::
  "TestResult list \<Rightarrow> (string \<times> ScenarioReport) list \<Rightarrow> (string \<times> ScenarioReport) list" where
  "groupResults [] scenarioReports = scenarioReports"
| "groupResults (result # results) scenarioReports =
     (let key = tr_scenarioFile result;
          reports1 =
            (if mapGet scenarioReports key = None then
               mapSet key
                 \<lparr>rp_name = tr_scenario result, rp_file = tr_scenarioFile result,
                  rp_status = test_failed, rp_iterations = 0,
                  rp_results = [], rp_analyses = [], rp_fixes = []\<rparr> scenarioReports
             else scenarioReports);
          reports2 =
            mapModify key
              (\<lambda>report. report
                 \<lparr>rp_results := rp_results report @ [result],
                  rp_iterations := rp_iterations report + 1,
                  rp_status := (if tr_status result = test_passed then test_passed
                                else rp_status report)\<rparr>) reports1
      in groupResults results reports2)"

fun addAnalyses ::
  "Analysis list \<Rightarrow> (string \<times> ScenarioReport) list \<Rightarrow> (string \<times> ScenarioReport) list" where
  "addAnalyses [] scenarioReports = scenarioReports"
| "addAnalyses (analysis # analyses) scenarioReports =
     addAnalyses analyses
       (mapModify (an_scenarioFile analysis)
          (\<lambda>report. report\<lparr>rp_analyses := rp_analyses report @ [analysis]\<rparr>) scenarioReports)"

fun addFixes ::
  "Fix list \<Rightarrow> (string \<times> ScenarioReport) list \<Rightarrow> (string \<times> ScenarioReport) list" where
  "addFixes [] scenarioReports = scenarioReports"
| "addFixes (fix # fixes) scenarioReports =
     addFixes fixes
       (mapModify (an_scenarioFile (fx_analysis fix))
          (\<lambda>report. report\<lparr>rp_fixes := rp_fixes report @ [fix]\<rparr>) scenarioReports)"

text \<open>
  The aggregation of \<open>generateFinalReport\<close>, without its effects: \<open>endTime\<close> is the
  time stamp taken at its start.
\<close>

definition buildFinalReport :: "'w Env \<Rightarrow> OrchestratorState \<Rightarrow> string \<Rightarrow> FinalReport" where
  "buildFinalReport E st endTime =
     (let duration = io_getTime E endTime - io_getTime E (os_startTime st);
          scenarioReports =
            addFixes (os_fixes st)
              (addAnalyses (os_analyses st) (groupResults (os_results st) []));
          scenarios = map snd scenarioReports;
          summary =
            \<lparr>totalScenarios = int (length scenarios),
             sm_passed = int (length (filter (\<lambda>s. rp_status s = test_passed) scenarios)),
             sm_failed = int (length (filter (\<lambda>s. rp_status s = test_failed) scenarios)),
             sm_iterations = os_iteration st,
             fixesApplied = int (length (os_fixes st))\<rparr>
      in \<lparr>fr_summary = summary, fr_scenarios = scenarios, fr_fixes = os_fixes st,
           fr_timestamp = endTime, fr_duration = duration\<rparr>)"

text \<open>
  \<open>generateFinalReport\<close>: the aggregation, then the JSON report and the text summary
  are written (the text of the summary is not modelled).
\<close>

definition generateFinalReport :: "'w Env \<Rightarrow> OrchestratorState \<Rightarrow> string \<Rightarrow> (FinalReport, 'w) io" where
  "generateFinalReport E st outputDir w =
     (let finalReport = buildFinalReport E st (io_toISOString E w) in
      case writeReport E outputDir (''final-report-'' @ toString (io_now E w) @ ''.json'') w of
        (Inl e, w1) \<Rightarrow> (Inl e, w1)
      | (Inr reportPath, w1) \<Rightarrow>
          (case io_writeFileSync E
                  (io_join E outputDir (''summary-'' @ toString (io_now E w1) @ ''.txt'')) w1 of
             (Inl e, w2) \<Rightarrow> (Inl e, w2)
           | (Inr _, w2) \<Rightarrow> (Inr finalReport, w2)))"

section \<open>The orchestrator (e2e/agents/orchestrator.ts)\<close>

text \<open>
  \<open>maxIterations\<close> is a number, and nothing in \<open>runOrchestrator\<close> rounds it or checks that
  it is whole, so it is a \<open>real\<close> here: the finite numbers, without \<open>NaN\<close> and the
  infinities.  The loop counter \<open>iteration\<close> starts at 0 and is only ever incremented,
  so it is an \<open>int\<close>, and the loop compares the two as numbers.
\<close>

record OrchestratorConfig =
  maxIterations :: real
  parallelScenarios :: bool
  stopOnFirstFailure :: bool

text \<open>\<open>AgentConfig\<close> without the analyzer's part, which is never read.\<close>

record AgentConfig =
  cfg_orchestrator :: OrchestratorConfig
  cfg_testRunner :: TestRunnerConfig
  cfg_codingAgent :: CodingAgentConfig

record OrchestratorInput =
  oi_scenariosDir :: string
  oi_screenshotDir :: string
  oi_reportsDir :: string
  oi_projectRoot :: string
  oi_config :: AgentConfig
  oi_tags :: "string list option"

record OrchestratorOutput =
  oo_success :: bool
  oo_state :: OrchestratorState
  oo_codingAgentPrompts :: "string list"

text \<open>
  The second half of the loop body, from \<open>Analyze the failure\<close> to the coding agent: it
  adds the analysis, the prompt and, under \<open>autoApply\<close>, the fix.
\<close>

fun analyzeAndFix ::
  "'w Env \<Rightarrow> OrchestratorInput \<Rightarrow> TestResult \<Rightarrow> OrchestratorState \<times> string list
     \<Rightarrow> (OrchestratorState \<times> string list, 'w) io" where
  "analyzeAndFix E input result (st, prompts) w =
     (let config = oi_config input in
      case runAnalyzer E
              \<lparr>ai_testResult = result,
               ai_projectRoot = oi_projectRoot input,
               ai_reportsDir = oi_reportsDir input\<rparr> w of
        (Inl e, w1) \<Rightarrow> (Inl e, w1)
      | (Inr analysisResult, w1) \<Rightarrow>
      (let st1 = st\<lparr>os_analyses := os_analyses st @ [ao_analysis analysisResult]\<rparr> in
       case generateCodingAgentPrompt E (ao_analysis analysisResult) (oi_projectRoot input) w1 of
         (Inl e, w2) \<Rightarrow> (Inl e, w2)
       | (Inr codingPrompt, w2) \<Rightarrow>
       (let prompts1 = prompts @ [codingPrompt] in
        if autoApply (cfg_codingAgent config) then
          (case runCodingAgent E
                  \<lparr>ci_analysis = ao_analysis analysisResult,
                   ci_projectRoot = oi_projectRoot input,
                   ci_reportsDir = oi_reportsDir input,
                   ci_config = cfg_codingAgent config\<rparr> w2 of
             (Inl e, w3) \<Rightarrow> (Inl e, w3)
           | (Inr fixResult, w3) \<Rightarrow>
               (Inr (st1\<lparr>os_fixes := os_fixes st1 @ [co_fix fixResult]\<rparr>, prompts1), w3))
        else (Inr (st1, prompts1), w2))))"

text \<open>
  The \<open>while\<close> loop of one scenario.  Its state is the local \<open>passed\<close> and
  \<open>iteration\<close>, the orchestrator state and the prompts collected so far; a \<open>break\<close>
  returns the state as it is.
\<close>

type_synonym attempt_loop = "bool \<times> int \<times> OrchestratorState \<times> string list"

function attempts ::
  "'w Env \<Rightarrow> OrchestratorInput \<Rightarrow> string \<Rightarrow> attempt_loop \<Rightarrow> (attempt_loop, 'w) io" where
  "attempts E input scenarioFile (passedFlag, iteration, st, prompts) w =
     (let config = oi_config input in
      if \<not> passedFlag \<and> real_of_int iteration < maxIterations (cfg_orchestrator config) then
        (let iteration1 = iteration + 1;
             st1 = st\<lparr>os_iteration := iteration1\<rparr>
         in case runTestRunner E
                   \<lparr>ri_scenarioFile = scenarioFile, ri_scenariosDir = oi_scenariosDir input,
                    ri_screenshotDir = oi_screenshotDir input, ri_reportsDir = oi_reportsDir input,
                    ri_config = cfg_testRunner config\<rparr> w of
              (Inl e, w1) \<Rightarrow> (Inl e, w1)
            | (Inr testResult, w1) \<Rightarrow>
            (let st2 = st1\<lparr>os_results := os_results st1 @ [ro_result testResult]\<rparr> in
             if ro_success testResult then (Inr (True, iteration1, st2, prompts), w1)
             else if real_of_int iteration1 \<ge> maxIterations (cfg_orchestrator config)
             then (Inr (passedFlag, iteration1, st2, prompts), w1)
             else
               (case analyzeAndFix E input (ro_result testResult) (st2, prompts) w1 of
                  (Inl e, w2) \<Rightarrow> (Inl e, w2)
                | (Inr (st3, prompts1), w2) \<Rightarrow>
                    if stopOnFirstFailure (cfg_orchestrator config) \<and> \<not> passedFlag
                    then (Inr (passedFlag, iteration1, st3, prompts1), w2)
                    else attempts E input scenarioFile (passedFlag, iteration1, st3, prompts1) w2)))
      else (Inr (passedFlag, iteration, st, prompts), w))"
  by pat_completeness auto
termination
  by (relation "measure (\<lambda>(E, input, scenarioFile, (passedFlag, iteration, st, prompts), w).
                   nat (\<lceil>maxIterations (cfg_orchestrator (oi_config input))\<rceil> - iteration))")
     (auto simp: less_ceiling_iff)

declare attempts.simps [simp del]
declare analyzeAndFix.simps [simp del]

text \<open>The \<open>for\<close> loop over the scenario map, on the orchestrator state and the prompts.\<close>

fun processScenarios ::
  "'w Env \<Rightarrow> OrchestratorInput \<Rightarrow> (string \<times> Scenario) list \<Rightarrow> OrchestratorState \<times> string list
     \<Rightarrow> (OrchestratorState \<times> string list, 'w) io" where
  "processScenarios E input [] (st, prompts) w = (Inr (st, prompts), w)"
| "processScenarios E input ((scenarioFile, scenario) # rest) (st, prompts) w =
     (let config = oi_config input;
          st0 = st\<lparr>os_currentScenario := sc_name scenario\<rparr>
      in case attempts E input scenarioFile (False, 0, st0, prompts) w of
           (Inl e, w1) \<Rightarrow> (Inl e, w1)
         | (Inr (passedFlag, iteration, st1, prompts1), w1) \<Rightarrow>
             if \<not> passedFlag then
               (let st2 = st1\<lparr>os_status :=
                               (if real_of_int iteration \<ge> maxIterations (cfg_orchestrator config)
                                then max_retries else orch_failed)\<rparr>
                in if stopOnFirstFailure (cfg_orchestrator config) then (Inr (st2, prompts1), w1)
                   else processScenarios E input rest (st2, prompts1) w1)
             else processScenarios E input rest (st1, prompts1) w1)"

fun ensureDirectories :: "'w Env \<Rightarrow> string list \<Rightarrow> (unit, 'w) io" where
  "ensureDirectories E [] w = (Inr (), w)"
| "ensureDirectories E (dir # dirs) w =
     (if \<not> io_existsSync E w dir then
        (case io_mkdirSync E dir w of
           (Inl e, w1) \<Rightarrow> (Inl e, w1)
         | (Inr _, w1) \<Rightarrow> ensureDirectories E dirs w1)
      else ensureDirectories E dirs w)"

text \<open>The last part of \<open>runOrchestrator\<close>, from \<open>Determine final status\<close> on.\<close>

definition finalStatus :: "OrchestratorState \<Rightarrow> OrchestratorStatus" where
  "finalStatus st =
     (let allPassed = (os_results st \<noteq> [] \<and> list_all (\<lambda>r. tr_status r = test_passed) (os_results st))
      in if allPassed then orch_passed
         else if os_status st = running then orch_failed
         else os_status st)"

definition runOrchestrator :: "'w Env \<Rightarrow> OrchestratorInput \<Rightarrow> (OrchestratorOutput, 'w) io" where
  "runOrchestrator E input w =
     (let config = oi_config input;
          st = \<lparr>os_scenarios = [], os_currentScenario = None, os_iteration = 0,
                os_maxIterations = maxIterations (cfg_orchestrator config),
                os_results = [], os_analyses = [], os_fixes = [],
                os_status = initializing, os_startTime = io_toISOString E w,
                os_endTime = None\<rparr>
      in case ensureDirectories E [oi_screenshotDir input, oi_reportsDir input] w of
           (Inl e, w1) \<Rightarrow> (Inl e, w1)
         | (Inr _, w1) \<Rightarrow>
         (case loadAllScenarios E (oi_scenariosDir input) w1 of
            (Inl e, w2) \<Rightarrow> (Inl e, w2)
          | (Inr scenarioMap, w2) \<Rightarrow>
          (let st1 = st\<lparr>os_scenarios := map snd scenarioMap\<rparr> in
           if os_scenarios st1 = [] then
             (Inr \<lparr>oo_success = False, oo_state = st1\<lparr>os_status := orch_failed\<rparr>,
                   oo_codingAgentPrompts = []\<rparr>, w2)
           else
             (case processScenarios E input scenarioMap (st1\<lparr>os_status := running\<rparr>, []) w2 of
                (Inl e, w3) \<Rightarrow> (Inl e, w3)
              | (Inr (st2, codingAgentPrompts), w3) \<Rightarrow>
                  (let st3 = st2\<lparr>os_status := finalStatus st2,
                                 os_endTime := Some (io_toISOString E w3)\<rparr>
                   in case generateFinalReport E st3 (oi_reportsDir input) w3 of
                        (Inl e, w4) \<Rightarrow> (Inl e, w4)
                      | (Inr finalReport, w4) \<Rightarrow>
                          (Inr \<lparr>oo_success = (os_status st3 = orch_passed), oo_state = st3,
                                oo_codingAgentPrompts = codingAgentPrompts\<rparr>, w4))))))"

section \<open>Properties of results\<close>

text \<open>
  A result list halts at its first failure when every entry after a failed one is skipped
  and took no time.
\<close>

fun haltsAtFailure :: "('a \<Rightarrow> StepStatus) \<Rightarrow> ('a \<Rightarrow> int) \<Rightarrow> 'a list \<Rightarrow> bool" where
  "haltsAtFailure st du [] = True"
| "haltsAtFailure st du (r # rs) =
     ((if st r = failed then list_all (\<lambda>x. st x = skipped \<and> du x = 0) rs else True)
      \<and> haltsAtFailure st du rs)"

text \<open>What the grouping loop has built after the results \<open>seen\<close>.\<close>

definition groupedEntries :: "TestResult list \<Rightarrow> (string \<times> ScenarioReport) list \<Rightarrow> bool" where
  "groupedEntries seen m \<longleftrightarrow>
     distinct (map fst m)
     \<and> (\<forall>(k, report) \<in> set m.
           rp_file report = k
           \<and> rp_results report = filter (\<lambda>r. tr_scenarioFile r = k) seen
           \<and> rp_iterations report = int (length (filter (\<lambda>r. tr_scenarioFile r = k) seen))
           \<and> (rp_status report = test_passed
                \<longleftrightarrow> (\<exists>r \<in> set seen. tr_scenarioFile r = k \<and> tr_status r = test_passed)))"

definition grouped :: "TestResult list \<Rightarrow> (string \<times> ScenarioReport) list \<Rightarrow> bool" where
  "grouped seen m \<longleftrightarrow> groupedEntries seen m \<and> set (map fst m) = tr_scenarioFile ` set seen"

text \<open>
  The loop counter is whole, so the loop compares it with the least whole number that
  is not below \<open>maxIterations\<close>.
\<close>

definition attemptBound :: "OrchestratorInput \<Rightarrow> int" where
  "attemptBound input = \<lceil>maxIterations (cfg_orchestrator (oi_config input))\<rceil>"

text \<open>What the loop of one scenario adds to the state.\<close>

definition attemptsPost ::
  "OrchestratorInput \<Rightarrow> string \<Rightarrow> int \<Rightarrow> OrchestratorState \<Rightarrow> bool \<Rightarrow> int \<Rightarrow> OrchestratorState
     \<Rightarrow> TestResult list \<Rightarrow> bool" where
  "attemptsPost input f i st p' i' st' new \<longleftrightarrow>
     os_results st' = os_results st @ new
     \<and> int (length new) = i' - i
     \<and> list_all (\<lambda>r. tr_scenarioFile r = f) new
     \<and> list_all (\<lambda>r. tr_status r = test_failed) (butlast new)
     \<and> (p' = (new \<noteq> [] \<and> tr_status (last new) = test_passed))
     \<and> os_iteration st' = (if new = [] then os_iteration st else i')
     \<and> os_status st' = os_status st
     \<and> (i' \<le> attemptBound input \<or> i' = i)
     \<and> (if p' \<or> attemptBound input \<le> i' then True
         else stopOnFirstFailure (cfg_orchestrator (oi_config input)) \<and> new \<noteq> [])
     \<and> (if stopOnFirstFailure (cfg_orchestrator (oi_config input)) then length new \<le> 1 else True)"

text \<open>What the loop over the scenarios adds to the state.\<close>

definition batchPost ::
  "OrchestratorInput \<Rightarrow> string list \<Rightarrow> OrchestratorState \<Rightarrow> OrchestratorState
     \<Rightarrow> TestResult list \<Rightarrow> bool" where
  "batchPost input files st st' new \<longleftrightarrow>
     (let n = attemptBound input;
          stop = stopOnFirstFailure (cfg_orchestrator (oi_config input));
          count = (\<lambda>f. length (filter (\<lambda>r. tr_scenarioFile r = f) new))
      in os_results st' = os_results st @ new
       \<and> (\<forall>r \<in> set new. tr_scenarioFile r \<in> set files)
       \<and> (\<forall>f. count f \<le> nat n)
       \<and> (1 \<le> n \<and> (\<exists>f. count f = nat n
                          \<and> (\<forall>r \<in> set new. tr_scenarioFile r = f \<longrightarrow> tr_status r = test_failed))
            \<longrightarrow> os_status st' = max_retries)
       \<and> (\<not> stop \<and> os_status st = max_retries \<longrightarrow> os_status st' = max_retries)
       \<and> os_status st' \<in> {os_status st, max_retries, orch_failed}
       \<and> os_iteration st' = (if new = [] then os_iteration st
                              else int (count (tr_scenarioFile (last new))))
       \<and> (stop \<longrightarrow> distinct (map tr_scenarioFile new)
              \<and> (\<forall>r \<in> set (butlast new). tr_status r = test_passed)
              \<and> (new \<noteq> [] \<and> tr_status (last new) = test_failed
                   \<longrightarrow> os_status st' = (if n \<le> 1 then max_retries else orch_failed))))"


text \<open>
  The state and the prompts after the second half of the loop body has run once for the
  result \<open>r\<close>: one analysis of \<open>r\<close>, the prompt written for it and, under \<open>autoApply\<close>,
  the fix the coding agent made for it have been added.
\<close>

definition analyzedOnce ::
  "'w Env \<Rightarrow> OrchestratorInput \<Rightarrow> TestResult \<Rightarrow> OrchestratorState \<Rightarrow> string list
     \<Rightarrow> OrchestratorState \<Rightarrow> string list \<Rightarrow> bool" where
  "analyzedOnce E input r st prompts st' prompts' \<longleftrightarrow>
     (\<exists>wa ar wp prompt.
        fst (runAnalyzer E \<lparr>ai_testResult = r, ai_projectRoot = oi_projectRoot input,
                            ai_reportsDir = oi_reportsDir input\<rparr> wa) = Inr ar
      \<and> os_analyses st' = os_analyses st @ [ao_analysis ar]
      \<and> fst (generateCodingAgentPrompt E (ao_analysis ar) (oi_projectRoot input) wp) = Inr prompt
      \<and> prompts' = prompts @ [prompt]
      \<and> (if autoApply (cfg_codingAgent (oi_config input)) then
            (\<exists>wf fr. fst (runCodingAgent E
                             \<lparr>ci_analysis = ao_analysis ar, ci_projectRoot = oi_projectRoot input,
                              ci_reportsDir = oi_reportsDir input,
                              ci_config = cfg_codingAgent (oi_config input)\<rparr> wf) = Inr fr
                \<and> os_fixes st' = os_fixes st @ [co_fix fr])
          else os_fixes st' = os_fixes st))"

text \<open>
  What the loop over the scenarios \<open>files\<close> adds to the state and the prompts when
  \<open>stopOnFirstFailure\<close> is set.
\<close>

definition stopBatchPost ::
  "'w Env \<Rightarrow> OrchestratorInput \<Rightarrow> string list \<Rightarrow> OrchestratorState \<Rightarrow> string list
     \<Rightarrow> OrchestratorState \<Rightarrow> string list \<Rightarrow> TestResult list \<Rightarrow> bool" where
  "stopBatchPost E input files st prompts st' prompts' new \<longleftrightarrow>
     os_results st' = os_results st @ new
     \<and> map tr_scenarioFile new = take (length new) files
     \<and> (\<forall>r \<in> set (butlast new). tr_status r = test_passed)
     \<and> (if new \<noteq> [] \<and> tr_status (last new) = test_failed \<and> 1 < attemptBound input
         then analyzedOnce E input (last new) st prompts st' prompts'
         else os_analyses st' = os_analyses st \<and> os_fixes st' = os_fixes st \<and> prompts' = prompts)
     \<and> ((\<forall>r \<in> set new. tr_status r = test_passed) \<and> 0 < attemptBound input
           \<longrightarrow> length new = length files)"
section \<open>A concrete world\<close>

text \<open>
  A small world on which the functions above can be run: a directory of YAML documents,
  a browser whose first \<open>cold\<close> launches do not render clickable elements in time, and
  a clock that the page calls advance.  \<open>demoExecutor\<close> is a device on which the
  element \<open>Missing Button\<close> does not exist.
\<close>

record DemoWorld =
  launches :: nat
  clock :: int
  console :: "string list"
  network :: "string list"

definition basename :: "string \<Rightarrow> string" where
  "basename p = rev (takeWhile (\<lambda>c. c \<noteq> CHR ''/'') (rev p))"

definition passedExpectation :: ExpectationResult where
  "passedExpectation = \<lparr>er_passed = True, er_error = None, er_actualValue = None, er_expectedValue = None\<rparr>"

definition demoEnv :: "(string \<times> RawScenario option) list \<Rightarrow> nat \<Rightarrow> DemoWorld Env" where
  "demoEnv files cold =
     \<lparr>io_join = (\<lambda>a b. a @ ''/'' @ b),
      io_existsSync = (\<lambda>w p. True),
      io_mkdirSync = (\<lambda>p w. (Inr (), w)),
      io_readdirSync = (\<lambda>d w. (Inr (map fst files), w)),
      io_readYaml = (\<lambda>p w. case map_of files (basename p) of
                             Some doc \<Rightarrow> (Inr doc, w)
                           | None \<Rightarrow> (Inl (Error ''ENOENT: no such file or directory''), w)),
      io_readFileSync = (\<lambda>p w. (Inr ''export default function App() {}'', w)),
      io_writeFileSync = (\<lambda>p w. (Inr (), w)),
      io_execTsc = (\<lambda>cwd w. (Inr (), w)),
      io_now = clock,
      io_toISOString = (\<lambda>w. ''2024-01-01T00:00:00.000Z''),
      io_getTime = (\<lambda>s. 1704067200000),
      io_launch = (\<lambda>config w. (Inr (), w\<lparr>launches := launches w + 1, clock := clock w + 500\<rparr>)),
      io_close = (\<lambda>w. (Inr (), w)),
      io_resetCollectors = (\<lambda>w. w\<lparr>console := [], network := []\<rparr>),
      io_consoleErrors = console,
      io_networkErrors = network,
      io_goto = (\<lambda>url w. (Inr (), w\<lparr>clock := clock w + 200\<rparr>)),
      io_waitForApp = (\<lambda>t w. (Inr (), w)),
      io_executeAction = (\<lambda>config step w.
         if st_action step = ''click'' \<and> launches w \<le> cold
         then (Inl (Error (''Could not find clickable element: '' @ tmpl (st_target step))),
               w\<lparr>clock := clock w + timeout config\<rparr>)
         else (Inr (), w\<lparr>clock := clock w + 50\<rparr>)),
      io_waitForTimeout = (\<lambda>ms w. (Inr (), w\<lparr>clock := clock w + ms\<rparr>)),
      io_screenshot = (\<lambda>p fullPage w. (Inr (), w)),
      io_checkExpectation = (\<lambda>e w. (Inr passedExpectation, w))\<rparr>"

definition demoConfig :: TestRunnerConfig where
  "demoConfig = \<lparr>baseUrl = ''http://localhost:5173'', timeout = 30000,
                 screenshotOnFailure = True, screenshotOnStep = True, video = False\<rparr>"

definition demoScenario :: Scenario where
  "demoScenario =
     \<lparr>sc_name = Some ''Start a workout'', sc_description = ''Tap through to a running workout'',
      sc_preconditions = [],
      sc_steps = [\<lparr>st_id = Some ''open'', st_action = ''click'', st_target = Some ''Start Workout'',
                    st_value = None, st_expect = None\<rparr>,
                  \<lparr>st_id = Some ''pause'', st_action = ''wait'', st_target = Some ''500'',
                    st_value = None,
                    st_expect = Some [\<lparr>ex_type = ''visible'', ex_value = ''Finish''\<rparr>]\<rparr>],
      sc_postconditions = [], sc_tags = [''smoke'']\<rparr>"

definition freshWorld :: DemoWorld where
  "freshWorld = \<lparr>launches = 0, clock = 0, console = [], network = []\<rparr>"

definition coldWorld :: DemoWorld where
  "coldWorld = \<lparr>launches = 1, clock = 0, console = [], network = []\<rparr>"

definition demoExecutor :: "int Executor" where
  "demoExecutor =
     \<lparr>xe_driver = True, xe_platform = ios,
      xe_executeStep = (\<lambda>step w. case step of
          TapStep t \<Rightarrow> if t = ''Missing Button''
                       then (Inl (Error ''element still not existing after 10000ms''), w + 10000)
                       else (Inr (), w + 100)
        | _ \<Rightarrow> (Inr (), w + 100)),
      xe_takeScreenshot = (\<lambda>w. (Inr ''iVBORw0KGgo='', w + 20)),
      xe_writeFile = (\<lambda>p d w. (Inr (), w)),
      xe_now = (\<lambda>w. w),
      xe_toISOString = (\<lambda>w. ''2024-01-01T00:00:00.000Z''),
      xe_join = (\<lambda>a b. a @ ''/'' @ b)\<rparr>"

definition demoTestScenario :: TestScenario where
  "demoTestScenario =
     \<lparr>ts_name = ''missing button'', ts_description = None, ts_tags = None, ts_requires = None,
      ts_steps = [TapStep ''Missing Button'', SeeStep ''Done'']\<rparr>"

text \<open>Three YAML documents: a well-formed one, one without \<open>name\<close>, one without \<open>steps\<close>.\<close>

definition wellFormedDoc :: RawScenario where
  "wellFormedDoc =
     \<lparr>rw_name = Some ''Start a workout'',
      rw_description = Some ''Tap through to a running workout '',
      rw_preconditions = None,
      rw_steps = Some [\<lparr>rs_id = Some ''open'', rs_action = Some ''Click'',
                        rs_target = Some ''Start Workout'', rs_value = None, rs_expect = None\<rparr>,
                      \<lparr>rs_id = Some ''pause'', rs_action = Some ''wait'',
                        rs_target = Some ''500'', rs_value = None,
                        rs_expect = Some [RawString ''visible: Finish'']\<rparr>],
      rw_postconditions = None,
      rw_tags = Some [''smoke'']\<rparr>"

definition noNameDoc :: RawScenario where
  "noNameDoc = wellFormedDoc\<lparr>rw_name := None\<rparr>"

definition noStepsDoc :: RawScenario where
  "noStepsDoc = wellFormedDoc\<lparr>rw_steps := None\<rparr>"

definition demoInput :: "string \<Rightarrow> TestRunnerInput" where
  "demoInput file =
     \<lparr>ri_scenarioFile = file, ri_scenariosDir = ''e2e/scenarios'',
      ri_screenshotDir = ''e2e/screenshots'', ri_reportsDir = ''e2e/reports'',
      ri_config = demoConfig\<rparr>"

text \<open>
  A failed step whose message is the one \<open>smartClick\<close> throws, and a failed result around
  it with given console errors.
\<close>

definition demoFailedStep :: StepResult where
  "demoFailedStep =
     \<lparr>sr_id = Some ''open'', sr_action = ''click'', sr_target = Some ''Start Workout'',
      sr_status = failed, sr_duration = 30000,
      sr_error = Some ''Could not find clickable element: Start Workout'',
      sr_screenshot = None, sr_actualValue = None, sr_expectedValue = None\<rparr>"

definition demoFailedResult :: "string list \<Rightarrow> TestResult" where
  "demoFailedResult errors =
     \<lparr>tr_scenario = Some ''Start a workout'', tr_scenarioFile = ''start.yaml'',
      tr_status = test_failed, tr_duration = 30200, tr_steps = [demoFailedStep],
      tr_screenshots = [], tr_consoleErrors = errors, tr_networkErrors = [],
      tr_timestamp = ''2024-01-01T00:00:00.000Z''\<rparr>"

definition demoAnalyzerInput :: "string list \<Rightarrow> AnalyzerInput" where
  "demoAnalyzerInput errors =
     \<lparr>ai_testResult = demoFailedResult errors, ai_projectRoot = ''/repo'',
      ai_reportsDir = ''e2e/reports''\<rparr>"

text \<open>
  An orchestrator input with the default configuration of \<open>loadConfig\<close>, except for the
  given \<open>maxIterations\<close> and \<open>stopOnFirstFailure\<close>.
\<close>

definition demoOrchestratorInput :: "real \<Rightarrow> bool \<Rightarrow> OrchestratorInput" where
  "demoOrchestratorInput n stop =
     \<lparr>oi_scenariosDir = ''e2e/scenarios'', oi_screenshotDir = ''e2e/screenshots'',
      oi_reportsDir = ''e2e/reports'', oi_projectRoot = ''/repo'',
      oi_config =
        \<lparr>cfg_orchestrator =
           \<lparr>maxIterations = n, parallelScenarios = False, stopOnFirstFailure = stop\<rparr>,
         cfg_testRunner = demoConfig,
         cfg_codingAgent = \<lparr>autoApply = True, maxFilesPerFix = 3, validateTypescript = True\<rparr>\<rparr>,
      oi_tags = None\<rparr>"

text \<open>
  An orchestrator state whose results are three attempts: \<open>a.yaml\<close> passed and then
  failed, \<open>b.yaml\<close> failed.
\<close>

definition demoResult :: "string \<Rightarrow> TestStatus \<Rightarrow> TestResult" where
  "demoResult file status =
     \<lparr>tr_scenario = Some ''Start a workout'', tr_scenarioFile = file,
      tr_status = status, tr_duration = 700, tr_steps = [],
      tr_screenshots = [], tr_consoleErrors = [], tr_networkErrors = [],
      tr_timestamp = ''2024-01-01T00:00:00.000Z''\<rparr>"

definition demoState :: OrchestratorState where
  "demoState =
     \<lparr>os_scenarios = [], os_currentScenario = Some ''Start a workout'', os_iteration = 1,
      os_maxIterations = 5,
      os_results = [demoResult ''a.yaml'' test_passed, demoResult ''a.yaml'' test_failed,
                    demoResult ''b.yaml'' test_failed],
      os_analyses = [], os_fixes = [], os_status = max_retries,
      os_startTime = ''2024-01-01T00:00:00.000Z'', os_endTime = None\<rparr>"

text \<open>
  A scenarios directory for the loader of parser.ts: \<open>a.yaml\<close> is well formed and
  \<open>b.yaml\<close> has no \<open>name\<close>.
\<close>

definition demoRawTestScenario :: RawTestScenario where
  "demoRawTestScenario =
     \<lparr>rt_name = Some ''missing button'', rt_description = None, rt_tags = None,
      rt_requires = None, rt_steps = Some [TapStep ''Missing Button'', SeeStep ''Done'']\<rparr>"

definition demoParserEnv :: "unit ParserEnv" where
  "demoParserEnv =
     \<lparr>px_SCENARIOS_DIR = ''e2e/scenarios'',
      px_join = (\<lambda>a b. a @ ''/'' @ b),
      px_glob = (\<lambda>w. (Inr [''a.yaml'', ''b.yaml''], w)),
      px_readYaml = (\<lambda>p w.
         if p = ''e2e/scenarios/a.yaml'' then (Inr (Some demoRawTestScenario), w)
         else if p = ''e2e/scenarios/b.yaml''
         then (Inr (Some (demoRawTestScenario\<lparr>rt_name := None\<rparr>)), w)
         else (Inl (Error ''ENOENT: no such file or directory''), w))\<rparr>"

section \<open>What the analyzer returns\<close>

lemma find_Some_nonempty: "find P xs = Some x \<Longrightarrow> xs \<noteq> []"
  by (cases xs) auto

lemma runAnalyzer_Inr:
  assumes "fst (runAnalyzer E input w) = Inr out"
  shows "\<exists>fs. find (\<lambda>s. sr_status s = failed) (tr_steps (ai_testResult input)) = Some fs
      \<and> an_scenarioFile (ao_analysis out) = tr_scenarioFile (ai_testResult input)
      \<and> an_category (ao_analysis out) = fst (analyzeError fs (ai_testResult input))
      \<and> an_rootCause (ao_analysis out) = snd (analyzeError fs (ai_testResult input))"
proof (cases "find (\<lambda>s. sr_status s = failed) (tr_steps (ai_testResult input))")
  case None
  with assms show ?thesis
    by (simp add: runAnalyzer_def)
next
  case (Some fs)
  show ?thesis
  proof (cases "identifyAffectedFiles E w fs (ai_projectRoot input)")
    case (Inl e)
    with assms Some show ?thesis
      by (simp add: runAnalyzer_def case_prod_beta)
  next
    case (Inr files)
    obtain c r where ae: "analyzeError fs (ai_testResult input) = (c, r)"
      by (cases "analyzeError fs (ai_testResult input)")
    define analysis where "analysis =
       \<lparr>an_scenario = tr_scenario (ai_testResult input),
        an_scenarioFile = tr_scenarioFile (ai_testResult input),
        an_failedStep = sr_action fs @ '' on '' @ dq @ tmpl (sr_target fs) @ dq,
        an_failedStepId = sr_id fs,
        an_rootCause = r,
        an_category = c,
        an_affectedFiles = files,
        an_suggestedFix = generateFixSuggestion fs c r files,
        an_confidence = determineConfidence c files fs,
        an_timestamp = io_toISOString E w\<rparr>"
    have eq: "runAnalyzer E input w =
        (case generateAnalysisReport E analysis (ai_reportsDir input) w of
           (Inl e, w1) \<Rightarrow> (Inl e, w1)
         | (Inr reportPath, w1) \<Rightarrow> (Inr \<lparr>ao_analysis = analysis, ao_reportPath = reportPath\<rparr>, w1))"
      by (simp add: runAnalyzer_def Some Inr ae Let_def analysis_def split: prod.splits sum.splits)
    from assms have "ao_analysis out = analysis"
      unfolding eq by (auto split: prod.splits sum.splits)
    with Some ae show ?thesis
      by (simp add: analysis_def)
  qed
qed

lemma analyzeError_Some:
  assumes f: "find (\<lambda>e. includesStr e ''Error'') (tr_consoleErrors testResult) = Some jsError"
  shows "analyzeError failedStep testResult = (logic, ''JavaScript error: '' @ take 200 jsError)"
proof -
  from f have "tr_consoleErrors testResult \<noteq> []"
    by (rule find_Some_nonempty)
  with f show ?thesis
    unfolding analyzeError_def by (simp add: Let_def)
qed

lemma analyzeError_None:
  assumes f: "find (\<lambda>e. includesStr e ''Error'') (tr_consoleErrors testResult) = None"
  shows "analyzeError failedStep testResult
        = analyzeError failedStep (testResult\<lparr>tr_consoleErrors := []\<rparr>)"
proof -
  have "(if tr_consoleErrors testResult \<noteq> []
            then find (\<lambda>e. includesStr e ''Error'') (tr_consoleErrors testResult)
            else None) = None"
    using f by (simp del: find_None_iff)
  then show ?thesis
    unfolding analyzeError_def by (simp add: Let_def del: find_None_iff)
qed

section \<open>The loops of the orchestrator\<close>

lemma runScenario_file:
  "fst (runScenario E config scenario scenarioFile dir w) = Inr r \<Longrightarrow> tr_scenarioFile r = scenarioFile"
  by (auto simp: runScenario_def Let_def split: prod.splits sum.splits if_splits)

lemma runInBrowser_file:
  "tr_scenarioFile (fst (runInBrowser E input scenario w)) = ri_scenarioFile input"
proof (cases "io_launch E (ri_config input) w")
  case (Pair a w1)
  show ?thesis
  proof (cases a)
    case (Inl e)
    with Pair show ?thesis
      by (simp add: runInBrowser_def createFailedResult_def)
  next
    case (Inr u)
    let ?run = "runScenario E (ri_config input) scenario (ri_scenarioFile input)
                  (io_join E (ri_screenshotDir input) (replaceFirst (ri_scenarioFile input) ''.yaml'' [])) w1"
    show ?thesis
    proof (cases "fst ?run")
      case (Inl e)
      with Pair Inr show ?thesis
        by (cases ?run) (simp add: runInBrowser_def createFailedResult_def Let_def)
    next
      case r: (Inr r)
      from runScenario_file [OF r] Pair Inr r show ?thesis
        by (cases ?run) (simp add: runInBrowser_def Let_def)
    qed
  qed
qed

lemma runTestRunner_Inr:
  assumes "runTestRunner E input w = (Inr out, w')"
  shows "tr_scenarioFile (ro_result out) = ri_scenarioFile input"
    and "ro_success out \<longleftrightarrow> tr_status (ro_result out) = test_passed"
proof -
  let ?p = "parseScenarioFile E (io_join E (ri_scenariosDir input) (ri_scenarioFile input)) w"
  obtain a w1 where p: "?p = (a, w1)" by (cases ?p)
  have "tr_scenarioFile (ro_result out) = ri_scenarioFile input
        \<and> (ro_success out \<longleftrightarrow> tr_status (ro_result out) = test_passed)"
  proof (cases a)
    case (Inl e)
    with assms p show ?thesis
      by (auto simp: runTestRunner_def createFailedResult_def Let_def)
  next
    case (Inr scenario)
    show ?thesis
    proof (cases "validateScenario scenario = []")
      case False
      with assms p Inr show ?thesis
        by (auto simp: runTestRunner_def createFailedResult_def Let_def)
    next
      case True
      obtain result w2 where b: "runInBrowser E input scenario w1 = (result, w2)"
        by (cases "runInBrowser E input scenario w1")
      with runInBrowser_file [of E input scenario w1]
      have f: "tr_scenarioFile result = ri_scenarioFile input" by simp
      from assms p Inr True b have "ro_result out = result \<and> ro_success out = (tr_status result = test_passed)"
        by (auto simp: runTestRunner_def Let_def split: prod.splits sum.splits)
      with f show ?thesis by simp
    qed
  qed
  then show "tr_scenarioFile (ro_result out) = ri_scenarioFile input"
    and "ro_success out \<longleftrightarrow> tr_status (ro_result out) = test_passed"
    by simp_all
qed

lemma analyzeAndFix_Inr:
  assumes "analyzeAndFix E input result (st, prompts) w = (Inr (st', prompts'), w')"
  shows "os_results st' = os_results st" and "os_iteration st' = os_iteration st"
    and "os_status st' = os_status st"
  using assms
  by (auto simp: analyzeAndFix.simps Let_def split: prod.splits sum.splits if_splits)


text \<open>The loop in terms of the whole bound.\<close>

lemma attempt_bound_less:
  "real_of_int i < maxIterations (cfg_orchestrator (oi_config input)) \<longleftrightarrow> i < attemptBound input"
  by (simp add: attemptBound_def less_ceiling_iff)

lemma attempt_bound_le:
  "maxIterations (cfg_orchestrator (oi_config input)) \<le> real_of_int i \<longleftrightarrow> attemptBound input \<le> i"
  by (simp add: attemptBound_def ceiling_le_iff)

lemma attempts_int:
  "attempts E input scenarioFile (passedFlag, iteration, st, prompts) w =
     (let config = oi_config input in
      if \<not> passedFlag \<and> iteration < attemptBound input then
        (let iteration1 = iteration + 1;
             st1 = st\<lparr>os_iteration := iteration1\<rparr>
         in case runTestRunner E
                   \<lparr>ri_scenarioFile = scenarioFile, ri_scenariosDir = oi_scenariosDir input,
                    ri_screenshotDir = oi_screenshotDir input, ri_reportsDir = oi_reportsDir input,
                    ri_config = cfg_testRunner config\<rparr> w of
              (Inl e, w1) \<Rightarrow> (Inl e, w1)
            | (Inr testResult, w1) \<Rightarrow>
            (let st2 = st1\<lparr>os_results := os_results st1 @ [ro_result testResult]\<rparr> in
             if ro_success testResult then (Inr (True, iteration1, st2, prompts), w1)
             else if iteration1 \<ge> attemptBound input
             then (Inr (passedFlag, iteration1, st2, prompts), w1)
             else
               (case analyzeAndFix E input (ro_result testResult) (st2, prompts) w1 of
                  (Inl e, w2) \<Rightarrow> (Inl e, w2)
                | (Inr (st3, prompts1), w2) \<Rightarrow>
                    if stopOnFirstFailure (cfg_orchestrator config) \<and> \<not> passedFlag
                    then (Inr (passedFlag, iteration1, st3, prompts1), w2)
                    else attempts E input scenarioFile (passedFlag, iteration1, st3, prompts1) w2)))
      else (Inr (passedFlag, iteration, st, prompts), w))"
  unfolding Let_def attempt_bound_less [symmetric] attempt_bound_le [symmetric]
  by (subst attempts.simps, unfold Let_def, rule refl)

lemma processScenarios_int:
  "processScenarios E input ((scenarioFile, scenario) # rest) (st, prompts) w =
     (let config = oi_config input;
          st0 = st\<lparr>os_currentScenario := sc_name scenario\<rparr>
      in case attempts E input scenarioFile (False, 0, st0, prompts) w of
           (Inl e, w1) \<Rightarrow> (Inl e, w1)
         | (Inr (passedFlag, iteration, st1, prompts1), w1) \<Rightarrow>
             if \<not> passedFlag then
               (let st2 = st1\<lparr>os_status :=
                               (if iteration \<ge> attemptBound input
                                then max_retries else orch_failed)\<rparr>
                in if stopOnFirstFailure (cfg_orchestrator config) then (Inr (st2, prompts1), w1)
                   else processScenarios E input rest (st2, prompts1) w1)
             else processScenarios E input rest (st1, prompts1) w1)"
  unfolding Let_def attempt_bound_le [symmetric]
  by (simp only: processScenarios.simps Let_def)

lemma attempts_spec:
  assumes "attempts E input f (False, i, st, pr) w = (Inr (p', i', st', pr'), w')"
  shows "\<exists>new. attemptsPost input f i st p' i' st' new"
  using assms
proof (induction "nat (attemptBound input - i)"
         arbitrary: i st pr w rule: less_induct)
  case less
  let ?max = "attemptBound input"
  let ?stop = "stopOnFirstFailure (cfg_orchestrator (oi_config input))"
  note run = less.prems
  show ?case
  proof (cases "i < ?max")
    case False
    with run have "p' = False" "i' = i" "st' = st"
      by (simp_all add: attempts_int)
    with False have "attemptsPost input f i st p' i' st' []"
      by (simp add: attemptsPost_def)
    then show ?thesis ..
  next
    case True
    let ?inp = "\<lparr>ri_scenarioFile = f, ri_scenariosDir = oi_scenariosDir input,
                  ri_screenshotDir = oi_screenshotDir input, ri_reportsDir = oi_reportsDir input,
                  ri_config = cfg_testRunner (oi_config input)\<rparr>"
    obtain a w1 where t: "runTestRunner E ?inp w = (a, w1)"
      by (cases "runTestRunner E ?inp w")
    from run True t obtain out where a: "a = Inr out"
      by (cases a) (simp_all add: attempts_int Let_def)
    from runTestRunner_Inr [OF t [unfolded a]]
    have rfile: "tr_scenarioFile (ro_result out) = f"
      and succ: "ro_success out \<longleftrightarrow> tr_status (ro_result out) = test_passed"
      by simp_all
    let ?st2 = "st\<lparr>os_iteration := i + 1, os_results := os_results st @ [ro_result out]\<rparr>"
    show ?thesis
    proof (cases "ro_success out")
      case s: True
      with run True t a have "p' = True" "i' = i + 1" "st' = ?st2"
        by (auto simp: attempts_int Let_def)
      with rfile succ s True have "attemptsPost input f i st p' i' st' [ro_result out]"
        by (simp add: attemptsPost_def)
      then show ?thesis ..
    next
      case s: False
      with succ have failed: "tr_status (ro_result out) = test_failed"
        by (cases "tr_status (ro_result out)") auto
      show ?thesis
      proof (cases "i + 1 \<ge> ?max")
        case last: True
        with run True t a s have "p' = False" "i' = i + 1" "st' = ?st2"
          by (auto simp: attempts_int Let_def)
        with rfile failed True last have "attemptsPost input f i st p' i' st' [ro_result out]"
          by (simp add: attemptsPost_def)
        then show ?thesis ..
      next
        case more: False
        obtain b w2 where af: "analyzeAndFix E input (ro_result out) (?st2, pr) w1 = (b, w2)"
          by (cases "analyzeAndFix E input (ro_result out) (?st2, pr) w1")
        from run True t a s more af obtain st3 pr1 where b: "b = Inr (st3, pr1)"
          by (cases b) (auto simp: attempts_int Let_def)
        from analyzeAndFix_Inr [OF af [unfolded b]]
        have st3: "os_results st3 = os_results st @ [ro_result out]" "os_iteration st3 = i + 1"
          "os_status st3 = os_status st"
          by simp_all
        show ?thesis
        proof (cases ?stop)
          case stop: True
          with run True t a s more af b have "p' = False" "i' = i + 1" "st' = st3"
            by (auto simp: attempts_int Let_def)
          with rfile failed True more stop st3
          have "attemptsPost input f i st p' i' st' [ro_result out]"
            by (simp add: attemptsPost_def)
          then show ?thesis ..
        next
          case nostop: False
          with run True t a s more af b
          have rec: "attempts E input f (False, i + 1, st3, pr1) w2 = (Inr (p', i', st', pr'), w')"
            by (simp add: attempts_int [of E input f False i] Let_def)
          from True have "nat (?max - (i + 1)) < nat (?max - i)"
            by simp
          from less.hyps [OF this rec] obtain new where
            post: "attemptsPost input f (i + 1) st3 p' i' st' new"
            by blast
          have "attemptsPost input f i st p' i' st' (ro_result out # new)"
          proof (cases "new = []")
            case True
            with post st3 rfile failed nostop more show ?thesis
              by (auto simp: attemptsPost_def split: if_splits)
          next
            case False
            with post st3 rfile failed nostop more show ?thesis
              by (auto simp: attemptsPost_def split: if_splits)
          qed
          then show ?thesis ..
        qed
      qed
    qed
  qed
qed


lemma filter_file_other:
  "list_all (\<lambda>r. tr_scenarioFile r = f) xs \<Longrightarrow> g \<noteq> f \<Longrightarrow> filter (\<lambda>r. tr_scenarioFile r = g) xs = []"
  by (induction xs) auto

lemma filter_file_same:
  "list_all (\<lambda>r. tr_scenarioFile r = f) xs \<Longrightarrow> filter (\<lambda>r. tr_scenarioFile r = f) xs = xs"
  by (induction xs) auto

lemma filter_file_notin:
  "\<forall>r \<in> set xs. tr_scenarioFile r \<in> F \<Longrightarrow> f \<notin> F \<Longrightarrow> filter (\<lambda>r. tr_scenarioFile r = f) xs = []"
  by (induction xs) auto

lemma processScenarios_spec:
  assumes "processScenarios E input scs (st, pr) w = (Inr (st', pr'), w')"
    and "distinct (map fst scs)"
  shows "\<exists>new. batchPost input (map fst scs) st st' new"
  using assms
proof (induction scs arbitrary: st pr w)
  case Nil
  then have "batchPost input [] st st' []"
    by (auto simp: batchPost_def Let_def)
  then show ?case by auto
next
  case (Cons sc scs)
  let ?n = "attemptBound input"
  let ?stop = "stopOnFirstFailure (cfg_orchestrator (oi_config input))"
  obtain f scenario where sc: "sc = (f, scenario)" by (cases sc)
  let ?st0 = "st\<lparr>os_currentScenario := sc_name scenario\<rparr>"
  obtain a w1 where at: "attempts E input f (False, 0, ?st0, pr) w = (a, w1)"
    by (cases "attempts E input f (False, 0, ?st0, pr) w")
  from Cons.prems(1) sc at obtain p i st1 pr1 where a: "a = Inr (p, i, st1, pr1)"
    by (cases a) (auto simp: Let_def attempt_bound_le)
  from attempts_spec [OF at [unfolded a]] obtain newf where
    post: "attemptsPost input f 0 ?st0 p i st1 newf"
    by blast
  from Cons.prems(2) sc have fresh: "f \<notin> set (map fst scs)" and dist: "distinct (map fst scs)"
    by simp_all
  from post have len: "int (length newf) = i" and allf: "list_all (\<lambda>r. tr_scenarioFile r = f) newf"
    and res1: "os_results st1 = os_results st @ newf"
    by (simp_all add: attemptsPost_def)
  have cnt_f: "length (filter (\<lambda>r. tr_scenarioFile r = f) newf) = length newf"
    using filter_file_same [OF allf] by simp
  have cnt_o: "g \<noteq> f \<Longrightarrow> length (filter (\<lambda>r. tr_scenarioFile r = g) newf) = 0" for g
    using filter_file_other [OF allf] by simp
  have bound: "length newf \<le> nat ?n"
    using post len by (auto simp: attemptsPost_def)
  let ?st2 = "st1\<lparr>os_status := (if i \<ge> ?n then max_retries else orch_failed)\<rparr>"
  show ?case
  proof (cases "\<not> p \<and> ?stop")
    case True
    with Cons.prems(1) sc at a have st': "st' = ?st2"
      by (auto simp: Let_def attempt_bound_le)
    have "batchPost input (map fst (sc # scs)) st st' newf"
      unfolding batchPost_def Let_def
    proof (intro conjI)
      show "os_results st' = os_results st @ newf"
        using st' res1 by simp
      show "\<forall>r\<in>set newf. tr_scenarioFile r \<in> set (map fst (sc # scs))"
        using allf sc by (auto simp: list_all_iff)
      show "\<forall>g. length (filter (\<lambda>r. tr_scenarioFile r = g) newf) \<le> nat ?n"
        using bound cnt_f cnt_o by (metis le0)
      show "1 \<le> ?n \<and> (\<exists>g. length (filter (\<lambda>r. tr_scenarioFile r = g) newf) = nat ?n
                \<and> (\<forall>r\<in>set newf. tr_scenarioFile r = g \<longrightarrow> tr_status r = test_failed))
            \<longrightarrow> os_status st' = max_retries"
      proof
        assume h: "1 \<le> ?n \<and> (\<exists>g. length (filter (\<lambda>r. tr_scenarioFile r = g) newf) = nat ?n
                \<and> (\<forall>r\<in>set newf. tr_scenarioFile r = g \<longrightarrow> tr_status r = test_failed))"
        then obtain g where g: "length (filter (\<lambda>r. tr_scenarioFile r = g) newf) = nat ?n"
          by blast
        with h cnt_o [of g] have "g = f" by (cases "g = f") auto
        with g cnt_f len h have "i = ?n" by simp
        with st' show "os_status st' = max_retries" by simp
      qed
      show "\<not> ?stop \<and> os_status st = max_retries \<longrightarrow> os_status st' = max_retries"
        using True by simp
      show "os_status st' \<in> {os_status st, max_retries, orch_failed}"
        using st' by simp
      show "os_iteration st' = (if newf = [] then os_iteration st
              else int (length (filter (\<lambda>r. tr_scenarioFile r = tr_scenarioFile (last newf)) newf)))"
      proof (cases "newf = []")
        case True
        with post st' show ?thesis by (simp add: attemptsPost_def)
      next
        case False
        with allf have "tr_scenarioFile (last newf) = f"
          by (simp add: list_all_iff)
        with False post st' cnt_f len show ?thesis by (simp add: attemptsPost_def)
      qed
      show "?stop \<longrightarrow> distinct (map tr_scenarioFile newf)
              \<and> (\<forall>r \<in> set (butlast newf). tr_status r = test_passed)
              \<and> (newf \<noteq> [] \<and> tr_status (last newf) = test_failed
                   \<longrightarrow> os_status st' = (if ?n \<le> 1 then max_retries else orch_failed))"
      proof
        assume ?stop
        with post have "length newf \<le> 1" by (simp add: attemptsPost_def)
        then have "newf = [] \<or> (\<exists>r. newf = [r])"
          by (cases newf) auto
        with len st' show "distinct (map tr_scenarioFile newf)
              \<and> (\<forall>r \<in> set (butlast newf). tr_status r = test_passed)
              \<and> (newf \<noteq> [] \<and> tr_status (last newf) = test_failed
                   \<longrightarrow> os_status st' = (if ?n \<le> 1 then max_retries else orch_failed))"
          by auto
      qed
    qed
    then show ?thesis by blast
  next
    case False
    define st2 where "st2 = (if p then st1 else ?st2)"
    from False Cons.prems(1) sc at a
    have rec: "processScenarios E input scs (st2, pr1) w1 = (Inr (st', pr'), w')"
      by (auto simp: Let_def attempt_bound_le st2_def split: if_splits)
    from Cons.IH [OF rec dist] obtain newr where
      ih: "batchPost input (map fst scs) st2 st' newr"
      by blast
    have res2: "os_results st2 = os_results st @ newf"
      using res1 by (simp add: st2_def)
    from ih have inr: "\<forall>r \<in> set newr. tr_scenarioFile r \<in> set (map fst scs)"
      by (simp add: batchPost_def Let_def)
    have cnt_r: "length (filter (\<lambda>r. tr_scenarioFile r = f) newr) = 0"
      using filter_file_notin [OF inr fresh] by simp
    have full: "\<not> p \<Longrightarrow> ?n \<le> i"
      using post False by (auto simp: attemptsPost_def split: if_splits)
    have "batchPost input (map fst (sc # scs)) st st' (newf @ newr)"
      unfolding batchPost_def Let_def
    proof (intro conjI)
      show "os_results st' = os_results st @ newf @ newr"
        using ih res2 by (simp add: batchPost_def Let_def)
      show "\<forall>r\<in>set (newf @ newr). tr_scenarioFile r \<in> set (map fst (sc # scs))"
        using allf inr sc by (auto simp: list_all_iff)
      show "\<forall>g. length (filter (\<lambda>r. tr_scenarioFile r = g) (newf @ newr)) \<le> nat ?n"
      proof
        fix g
        show "length (filter (\<lambda>r. tr_scenarioFile r = g) (newf @ newr)) \<le> nat ?n"
        proof (cases "g = f")
          case True
          with cnt_r cnt_f bound show ?thesis by simp
        next
          case False
          with cnt_o [of g] ih show ?thesis by (simp add: batchPost_def Let_def)
        qed
      qed
      show "1 \<le> ?n \<and> (\<exists>g. length (filter (\<lambda>r. tr_scenarioFile r = g) (newf @ newr)) = nat ?n
                \<and> (\<forall>r\<in>set (newf @ newr). tr_scenarioFile r = g \<longrightarrow> tr_status r = test_failed))
            \<longrightarrow> os_status st' = max_retries"
      proof
        assume h: "1 \<le> ?n \<and> (\<exists>g. length (filter (\<lambda>r. tr_scenarioFile r = g) (newf @ newr)) = nat ?n
                \<and> (\<forall>r\<in>set (newf @ newr). tr_scenarioFile r = g \<longrightarrow> tr_status r = test_failed))"
        then obtain g where g: "length (filter (\<lambda>r. tr_scenarioFile r = g) (newf @ newr)) = nat ?n"
          and gf: "\<forall>r\<in>set (newf @ newr). tr_scenarioFile r = g \<longrightarrow> tr_status r = test_failed"
          and n1: "1 \<le> ?n"
          by blast
        show "os_status st' = max_retries"
        proof (cases "g = f")
          case True
          with g cnt_r cnt_f have l: "length newf = nat ?n" by simp
          with n1 have ne: "newf \<noteq> []" by auto
          with gf True allf have "tr_status (last newf) = test_failed"
            by (auto simp: list_all_iff)
          with post have "\<not> p" by (auto simp: attemptsPost_def)
          moreover from l len n1 have "i = ?n" by auto
          ultimately have "os_status st2 = max_retries"
            by (simp add: st2_def)
          moreover from \<open>\<not> p\<close> False have "\<not> ?stop" by simp
          ultimately show ?thesis
            using ih by (simp add: batchPost_def Let_def)
        next
          case False
          with g gf cnt_o [of g] n1 ih show ?thesis
            by (auto simp: batchPost_def Let_def)
        qed
      qed
      show "\<not> ?stop \<and> os_status st = max_retries \<longrightarrow> os_status st' = max_retries"
      proof
        assume h: "\<not> ?stop \<and> os_status st = max_retries"
        have "os_status st2 = max_retries"
        proof (cases p)
          case True
          with post h show ?thesis by (simp add: st2_def attemptsPost_def)
        next
          case False
          with full show ?thesis by (simp add: st2_def)
        qed
        with h ih show "os_status st' = max_retries"
          by (simp add: batchPost_def Let_def)
      qed
      show "os_status st' \<in> {os_status st, max_retries, orch_failed}"
      proof -
        from post have "os_status st2 \<in> {os_status st, max_retries, orch_failed}"
          by (simp add: st2_def attemptsPost_def)
        moreover from ih have "os_status st' \<in> {os_status st2, max_retries, orch_failed}"
          by (simp add: batchPost_def Let_def)
        ultimately show ?thesis by auto
      qed
      show "os_iteration st' = (if newf @ newr = [] then os_iteration st
              else int (length (filter (\<lambda>r. tr_scenarioFile r = tr_scenarioFile (last (newf @ newr)))
                         (newf @ newr))))"
      proof (cases "newr = []")
        case nr: True
        then have i': "os_iteration st' = os_iteration st2"
          using ih by (simp add: batchPost_def Let_def)
        show ?thesis
        proof (cases "newf = []")
          case True
          with post i' nr show ?thesis by (simp add: attemptsPost_def st2_def)
        next
          case False
          with allf have "tr_scenarioFile (last newf) = f"
            by (simp add: list_all_iff)
          with False post i' nr cnt_f len show ?thesis by (simp add: attemptsPost_def st2_def)
        qed
      next
        case nr: False
        with inr have "tr_scenarioFile (last newr) \<in> set (map fst scs)"
          by simp
        with fresh have "tr_scenarioFile (last newr) \<noteq> f" by auto
        from cnt_o [OF this] nr ih show ?thesis
          by (simp add: batchPost_def Let_def)
      qed
      show "?stop \<longrightarrow> distinct (map tr_scenarioFile (newf @ newr))
              \<and> (\<forall>r \<in> set (butlast (newf @ newr)). tr_status r = test_passed)
              \<and> (newf @ newr \<noteq> [] \<and> tr_status (last (newf @ newr)) = test_failed
                   \<longrightarrow> os_status st' = (if ?n \<le> 1 then max_retries else orch_failed))"
      proof
        assume stop: ?stop
        with False have p: p by simp
        from stop post have "length newf \<le> 1" by (simp add: attemptsPost_def)
        with p post obtain r where r: "newf = [r]" "tr_status r = test_passed"
          by (cases newf) (auto simp: attemptsPost_def)
        with allf have rf: "tr_scenarioFile r = f" by simp
        from stop ih have d: "distinct (map tr_scenarioFile newr)"
          and b: "\<forall>r \<in> set (butlast newr). tr_status r = test_passed"
          and l: "newr \<noteq> [] \<and> tr_status (last newr) = test_failed
                   \<longrightarrow> os_status st' = (if ?n \<le> 1 then max_retries else orch_failed)"
          by (simp_all add: batchPost_def Let_def)
        from inr fresh rf have "tr_scenarioFile r \<notin> tr_scenarioFile ` set newr"
          by auto
        with d r b l show "distinct (map tr_scenarioFile (newf @ newr))
              \<and> (\<forall>r \<in> set (butlast (newf @ newr)). tr_status r = test_passed)
              \<and> (newf @ newr \<noteq> [] \<and> tr_status (last (newf @ newr)) = test_failed
                   \<longrightarrow> os_status st' = (if ?n \<le> 1 then max_retries else orch_failed))"
          by (cases "newr = []") auto
      qed
    qed
    then show ?thesis by blast
  qed
qed

lemma mapSet_keys:
  "map fst (mapSet k v m) = (if k \<in> fst ` set m then map fst m else map fst m @ [k])"
  by (induction m) auto

lemma loadFiles_distinct:
  "loadFiles E dir fs m w = (Inr m', w') \<Longrightarrow> distinct (map fst m) \<Longrightarrow> distinct (map fst m')"
proof (induction fs arbitrary: m w)
  case Nil
  then show ?case by simp
next
  case (Cons f fs)
  from Cons.prems(1) obtain scenario w1 where
    "loadFiles E dir fs (mapSet f scenario m) w1 = (Inr m', w')"
    by (auto split: prod.splits sum.splits)
  moreover from Cons.prems(2) have "distinct (map fst (mapSet f scenario m))"
    by (simp add: mapSet_keys)
  ultimately show ?case
    by (rule Cons.IH)
qed

lemma loadAllScenarios_distinct:
  "loadAllScenarios E dir w = (Inr m, w') \<Longrightarrow> distinct (map fst m)"
  by (auto simp: loadAllScenarios_def split: prod.splits sum.splits dest: loadFiles_distinct)

text \<open>
  A run of the orchestrator that returns either found no scenario, or went through the
  loop over the scenarios from the initial state.
\<close>

lemma runOrchestrator_Inr:
  assumes "fst (runOrchestrator E input w) = Inr out"
  shows "(os_results (oo_state out) = [] \<and> os_status (oo_state out) = orch_failed
            \<and> os_iteration (oo_state out) = 0 \<and> \<not> oo_success out)
     \<or> (\<exists>files st0 st.
           batchPost input files st0 st (os_results (oo_state out))
           \<and> os_results st0 = [] \<and> os_status st0 = running \<and> os_iteration st0 = 0
           \<and> os_results st = os_results (oo_state out)
           \<and> os_iteration (oo_state out) = os_iteration st
           \<and> os_status (oo_state out) = finalStatus st
           \<and> oo_success out = (finalStatus st = orch_passed))"
proof -
  let ?init = "\<lparr>os_scenarios = [], os_currentScenario = None, os_iteration = 0,
                os_maxIterations = maxIterations (cfg_orchestrator (oi_config input)),
                os_results = [], os_analyses = [], os_fixes = [],
                os_status = initializing, os_startTime = io_toISOString E w,
                os_endTime = None\<rparr>"
  from assms obtain w1 where
    e: "ensureDirectories E [oi_screenshotDir input, oi_reportsDir input] w = (Inr (), w1)"
    by (auto simp: runOrchestrator_def Let_def split: prod.splits sum.splits simp del: ensureDirectories.simps)
  from assms e obtain scenarioMap w2 where
    l: "loadAllScenarios E (oi_scenariosDir input) w1 = (Inr scenarioMap, w2)"
    by (auto simp: runOrchestrator_def Let_def split: prod.splits sum.splits simp del: ensureDirectories.simps)
  show ?thesis
  proof (cases "scenarioMap = []")
    case True
    with assms e l show ?thesis
      by (auto simp: runOrchestrator_def Let_def simp del: ensureDirectories.simps)
  next
    case False
    let ?st0 = "?init\<lparr>os_scenarios := map snd scenarioMap, os_status := running\<rparr>"
    from assms e l False obtain st prompts w3 where
      p: "processScenarios E input scenarioMap (?st0, []) w2 = (Inr (st, prompts), w3)"
      by (auto simp: runOrchestrator_def Let_def split: prod.splits sum.splits simp del: ensureDirectories.simps)
    from assms e l False p
    have out: "oo_state out = st\<lparr>os_status := finalStatus st, os_endTime := Some (io_toISOString E w3)\<rparr>"
      "oo_success out = (finalStatus st = orch_passed)"
      by (auto simp: runOrchestrator_def Let_def split: prod.splits sum.splits simp del: ensureDirectories.simps)
    from processScenarios_spec [OF p loadAllScenarios_distinct [OF l]] obtain new where
      b: "batchPost input (map fst scenarioMap) ?st0 st new"
      by blast
    then have "os_results st = new"
      by (simp add: batchPost_def Let_def)
    with b out have "batchPost input (map fst scenarioMap) ?st0 st (os_results (oo_state out))
           \<and> os_results ?st0 = [] \<and> os_status ?st0 = running \<and> os_iteration ?st0 = 0
           \<and> os_results st = os_results (oo_state out)
           \<and> os_iteration (oo_state out) = os_iteration st
           \<and> os_status (oo_state out) = finalStatus st
           \<and> oo_success out = (finalStatus st = orch_passed)"
      by simp
    then show ?thesis by blast
  qed
qed

lemma finalStatus_failed_result:
  assumes "\<exists>r \<in> set (os_results st). tr_status r = test_failed"
    and "os_status st \<noteq> running"
  shows "finalStatus st = os_status st"
proof -
  from assms(1) have "\<not> list_all (\<lambda>r. tr_status r = test_passed) (os_results st)"
    by (force simp: list_all_iff)
  with assms(2) show ?thesis
    by (simp add: finalStatus_def)
qed

section \<open>Running the agents in the concrete world\<close>

lemma demo_writeReport:
  "writeReport (demoEnv files cold) d n w = (Inr (d @ ''/'' @ n), w)"
  by (simp add: writeReport_def demoEnv_def)

lemma demo_readContents:
  "\<exists>cs. readContents (demoEnv files cold) projectRoot fs acc w = (Inr cs, w)"
proof (induction fs arbitrary: acc)
  case Nil
  show ?case by simp
next
  case (Cons f fs)
  have "io_existsSync (demoEnv files cold) w p" for p
    by (simp add: demoEnv_def)
  moreover have "io_readFileSync (demoEnv files cold) p w = (Inr ''export default function App() {}'', w)" for p
    by (simp add: demoEnv_def)
  ultimately show ?case
    using Cons.IH by (simp add: Let_def)
qed

lemma demo_readAffected:
  "\<exists>ms. readAffected (demoEnv files cold) a projectRoot fs acc w = (Inr ms, w)"
proof (induction fs arbitrary: acc)
  case Nil
  show ?case by simp
next
  case (Cons f fs)
  have "io_existsSync (demoEnv files cold) w p" for p
    by (simp add: demoEnv_def)
  moreover have "io_readFileSync (demoEnv files cold) p w = (Inr ''export default function App() {}'', w)" for p
    by (simp add: demoEnv_def)
  ultimately show ?case
    using Cons.IH by (simp add: Let_def)
qed

lemma demo_generateCodingAgentPrompt:
  "\<exists>p. generateCodingAgentPrompt (demoEnv files cold) a projectRoot w = (Inr p, w)"
proof -
  obtain cs where "readContents (demoEnv files cold) projectRoot (an_affectedFiles a) [] w = (Inr cs, w)"
    using demo_readContents by blast
  then show ?thesis
    by (simp add: generateCodingAgentPrompt_def)
qed

lemma demo_runCodingAgent:
  "\<exists>out. runCodingAgent (demoEnv files cold) ci w = (Inr out, w)"
proof -
  obtain ms where "readAffected (demoEnv files cold) (ci_analysis ci) (ci_projectRoot ci)
      (slice0 (an_affectedFiles (ci_analysis ci)) (maxFilesPerFix (ci_config ci))) [] w = (Inr ms, w)"
    using demo_readAffected by blast
  moreover have "validateTypeScript (demoEnv files cold) projectRoot w = (True, w)" for projectRoot
    by (simp add: validateTypeScript_def demoEnv_def)
  ultimately show ?thesis
    by (simp add: runCodingAgent_def generateFixReport_def demo_writeReport Let_def)
qed

lemma demo_runAnalyzer:
  assumes "find (\<lambda>s. sr_status s = failed) (tr_steps (ai_testResult ai)) = Some fs"
    and "sr_target fs = Some t" and "sr_id fs = Some i"
  shows "\<exists>out. runAnalyzer (demoEnv files cold) ai w = (Inr out, w)"
proof -
  obtain c r where ae: "analyzeError fs (ai_testResult ai) = (c, r)"
    by (cases "analyzeError fs (ai_testResult ai)")
  from assms obtain fl where "identifyAffectedFiles (demoEnv files cold) w fs (ai_projectRoot ai) = Inr fl"
    by (simp add: identifyAffectedFiles_def Let_def)
  with assms(1) ae show ?thesis
    by (simp add: runAnalyzer_def generateAnalysisReport_def demo_writeReport Let_def)
qed

lemma demo_analyzeAndFix:
  assumes "find (\<lambda>s. sr_status s = failed) (tr_steps result) = Some fs"
    and "sr_target fs = Some t" and "sr_id fs = Some i"
  shows "\<exists>st' pr'. analyzeAndFix (demoEnv files cold) input result (st, pr) w = (Inr (st', pr'), w)"
proof -
  let ?ai = "\<lparr>ai_testResult = result, ai_projectRoot = oi_projectRoot input,
               ai_reportsDir = oi_reportsDir input\<rparr>"
  from assms have "find (\<lambda>s. sr_status s = failed) (tr_steps (ai_testResult ?ai)) = Some fs"
    by simp
  from demo_runAnalyzer [OF this assms(2,3)] obtain out where
    "runAnalyzer (demoEnv files cold) ?ai w = (Inr out, w)"
    by blast
  moreover obtain p where "generateCodingAgentPrompt (demoEnv files cold) (ao_analysis out)
      (oi_projectRoot input) w = (Inr p, w)"
    using demo_generateCodingAgentPrompt by blast
  moreover obtain co where "runCodingAgent (demoEnv files cold)
      \<lparr>ci_analysis = ao_analysis out, ci_projectRoot = oi_projectRoot input,
       ci_reportsDir = oi_reportsDir input, ci_config = cfg_codingAgent (oi_config input)\<rparr> w = (Inr co, w)"
    using demo_runCodingAgent by blast
  ultimately show ?thesis
    by (simp add: analyzeAndFix.simps Let_def)
qed

lemma parse_wellFormedDoc:
  "mapThrowing parseStep (the (rw_steps wellFormedDoc)) = Inr (sc_steps demoScenario)"
  by (simp add: wellFormedDoc_def demoScenario_def parseStep_def toLowerCase_def lowerChar_def
        VALID_ACTIONS_def EXPECTATION_TYPES_def trim_def isSpace_def Let_def)

lemma demo_parseScenarioFile:
  assumes "map_of files (basename p) = Some (Some wellFormedDoc)"
  shows "parseScenarioFile (demoEnv files cold) p w = (Inr demoScenario, w)"
proof -
  have "io_readYaml (demoEnv files cold) p w = (Inr (Some wellFormedDoc), w)"
    using assms by (simp add: demoEnv_def)
  moreover have "rw_steps wellFormedDoc = Some (the (rw_steps wellFormedDoc))"
    by (simp add: wellFormedDoc_def)
  moreover have "trim (the (rw_description wellFormedDoc)) = sc_description demoScenario"
    by (simp add: wellFormedDoc_def demoScenario_def trim_def isSpace_def)
  moreover have "rw_description wellFormedDoc = Some (the (rw_description wellFormedDoc))"
    by (simp add: wellFormedDoc_def)
  ultimately show ?thesis
    using parse_wellFormedDoc
    apply (simp add: parseScenarioFile_def  split: option.splits)
    apply (simp add: wellFormedDoc_def demoScenario_def orEmpty_def)
    done
qed

lemma validate_demoScenario: "validateScenario demoScenario = []"
  by (simp add: validateScenario_def demoScenario_def Let_def)


lemma demo_runScenario_cold:
  assumes "launches w \<le> cold"
  shows "\<exists>r w'. runScenario (demoEnv files cold) demoConfig demoScenario f dir w = (Inr r, w')
     \<and> launches w' = launches w
     \<and> tr_status r = test_failed
     \<and> (\<exists>fs. find (\<lambda>s. sr_status s = failed) (tr_steps r) = Some fs
            \<and> sr_target fs = Some ''Start Workout'' \<and> sr_id fs = Some ''open'')"
  using assms
  by (simp add: runScenario_def demoEnv_def demoConfig_def demoScenario_def executeStep_def
        failedStepResult_def Let_def)

lemma demo_runScenario_warm:
  assumes "cold < launches w"
  shows "\<exists>r w'. runScenario (demoEnv files cold) demoConfig demoScenario f dir w = (Inr r, w')
     \<and> launches w' = launches w
     \<and> tr_status r = test_passed"
  using assms
  by (simp add: runScenario_def demoEnv_def demoConfig_def demoScenario_def executeStep_def
        failedStepResult_def passedExpectation_def Let_def)

lemma demo_launch:
  "io_launch (demoEnv files cold) c w = (Inr (), w\<lparr>launches := launches w + 1, clock := clock w + 500\<rparr>)"
  by (simp add: demoEnv_def)

lemma demo_close: "io_close (demoEnv files cold) w = (Inr (), w)"
  by (simp add: demoEnv_def)

lemma demo_runTestRunner_cold:
  assumes "map_of files (basename (io_join (demoEnv files cold) ''e2e/scenarios'' f))
             = Some (Some wellFormedDoc)"
    and "launches w < cold"
  shows "\<exists>out w'. runTestRunner (demoEnv files cold) (demoInput f) w = (Inr out, w')
     \<and> launches w' = launches w + 1
     \<and> \<not> ro_success out
     \<and> tr_status (ro_result out) = test_failed
     \<and> (\<exists>fs. find (\<lambda>s. sr_status s = failed) (tr_steps (ro_result out)) = Some fs
            \<and> sr_target fs = Some ''Start Workout'' \<and> sr_id fs = Some ''open'')"
proof -
  let ?E = "demoEnv files cold"
  let ?w1 = "w\<lparr>launches := launches w + 1, clock := clock w + 500\<rparr>"
  from assms(2) have "launches ?w1 \<le> cold" by simp
  from demo_runScenario_cold [OF this, of files f
         "io_join ?E (ri_screenshotDir (demoInput f)) (replaceFirst f ''.yaml'' [])"]
  obtain r w2 where
    run: "runScenario ?E demoConfig demoScenario f
            (io_join ?E (ri_screenshotDir (demoInput f)) (replaceFirst f ''.yaml'' [])) ?w1 = (Inr r, w2)"
    and r: "launches w2 = launches w + 1" "tr_status r = test_failed"
      "\<exists>fs. find (\<lambda>s. sr_status s = failed) (tr_steps r) = Some fs
            \<and> sr_target fs = Some ''Start Workout'' \<and> sr_id fs = Some ''open''"
    by auto
  have b: "runInBrowser ?E (demoInput f) demoScenario w = (r, w2)"
    using run by (simp add: runInBrowser_def demo_launch demoInput_def Let_def)
  have p: "parseScenarioFile ?E (io_join ?E (ri_scenariosDir (demoInput f)) (ri_scenarioFile (demoInput f))) w
             = (Inr demoScenario, w)"
    using assms(1) by (intro demo_parseScenarioFile) (simp add: demoInput_def)
  have "runTestRunner ?E (demoInput f) w
          = (Inr \<lparr>ro_success = False, ro_result = r,
                  ro_reportPath = ri_reportsDir (demoInput f) @ ''/''
                    @ replaceFirst (tr_scenarioFile r) ''.yaml'' [] @ ''-'' @ toString (io_now ?E w2) @ ''.json'',
                  ro_error = None\<rparr>, w2)"
    using r(2)
    by (simp add: runTestRunner_def p validate_demoScenario b demo_close
          generateTestResultReport_def demo_writeReport Let_def)
  with r show ?thesis by simp
qed

lemma demo_runTestRunner_warm:
  assumes "map_of files (basename (io_join (demoEnv files cold) ''e2e/scenarios'' f))
             = Some (Some wellFormedDoc)"
    and "cold \<le> launches w"
  shows "\<exists>out w'. runTestRunner (demoEnv files cold) (demoInput f) w = (Inr out, w')
     \<and> launches w' = launches w + 1
     \<and> ro_success out
     \<and> tr_status (ro_result out) = test_passed"
proof -
  let ?E = "demoEnv files cold"
  let ?w1 = "w\<lparr>launches := launches w + 1, clock := clock w + 500\<rparr>"
  from assms(2) have "cold < launches ?w1" by simp
  from demo_runScenario_warm [OF this, of files f
         "io_join ?E (ri_screenshotDir (demoInput f)) (replaceFirst f ''.yaml'' [])"]
  obtain r w2 where
    run: "runScenario ?E demoConfig demoScenario f
            (io_join ?E (ri_screenshotDir (demoInput f)) (replaceFirst f ''.yaml'' [])) ?w1 = (Inr r, w2)"
    and r: "launches w2 = launches w + 1" "tr_status r = test_passed"
    by auto
  have b: "runInBrowser ?E (demoInput f) demoScenario w = (r, w2)"
    using run by (simp add: runInBrowser_def demo_launch demoInput_def Let_def)
  have p: "parseScenarioFile ?E (io_join ?E (ri_scenariosDir (demoInput f)) (ri_scenarioFile (demoInput f))) w
             = (Inr demoScenario, w)"
    using assms(1) by (intro demo_parseScenarioFile) (simp add: demoInput_def)
  have "runTestRunner ?E (demoInput f) w
          = (Inr \<lparr>ro_success = True, ro_result = r,
                  ro_reportPath = ri_reportsDir (demoInput f) @ ''/''
                    @ replaceFirst (tr_scenarioFile r) ''.yaml'' [] @ ''-'' @ toString (io_now ?E w2) @ ''.json'',
                  ro_error = None\<rparr>, w2)"
    using r(2)
    by (simp add: runTestRunner_def p validate_demoScenario b demo_close
          generateTestResultReport_def demo_writeReport Let_def)
  with r show ?thesis by simp
qed

lemma demo_runner_input:
  "\<lparr>ri_scenarioFile = f, ri_scenariosDir = oi_scenariosDir (demoOrchestratorInput n stop),
    ri_screenshotDir = oi_screenshotDir (demoOrchestratorInput n stop),
    ri_reportsDir = oi_reportsDir (demoOrchestratorInput n stop),
    ri_config = cfg_testRunner (oi_config (demoOrchestratorInput n stop))\<rparr> = demoInput f"
  by (simp add: demoOrchestratorInput_def demoInput_def)

lemma demo_config:
  "maxIterations (cfg_orchestrator (oi_config (demoOrchestratorInput n stop))) = n"
  "stopOnFirstFailure (cfg_orchestrator (oi_config (demoOrchestratorInput n stop))) = stop"
  by (simp_all add: demoOrchestratorInput_def)

text \<open>One pass of the loop of a scenario, in the concrete world.\<close>

lemma demo_attempt_passes:
  assumes "map_of files (basename (io_join (demoEnv files cold) ''e2e/scenarios'' f))
             = Some (Some wellFormedDoc)"
    and "cold \<le> launches w" and "real_of_int i < n"
  shows "\<exists>st' w' r. attempts (demoEnv files cold) (demoOrchestratorInput n stop) f (False, i, st, pr) w
            = (Inr (True, i + 1, st', pr), w')
     \<and> os_results st' = os_results st @ [r] \<and> tr_status r = test_passed \<and> tr_scenarioFile r = f
     \<and> os_iteration st' = i + 1 \<and> os_status st' = os_status st
     \<and> launches w' = launches w + 1"
proof -
  from demo_runTestRunner_warm [OF assms(1,2)] obtain out w' where
    run: "runTestRunner (demoEnv files cold) (demoInput f) w = (Inr out, w')"
    and o: "launches w' = launches w + 1" "ro_success out" "tr_status (ro_result out) = test_passed"
    by blast
  from runTestRunner_Inr(1) [OF run] have "tr_scenarioFile (ro_result out) = f"
    by (simp add: demoInput_def)
  with run o assms(3) show ?thesis
    by (simp add: attempts.simps demo_runner_input demo_config Let_def)
qed

lemma demo_attempt_fails_last:
  assumes "map_of files (basename (io_join (demoEnv files cold) ''e2e/scenarios'' f))
             = Some (Some wellFormedDoc)"
    and "launches w < cold" and "real_of_int i < n" and "n \<le> real_of_int (i + 1)"
  shows "\<exists>st' w' r. attempts (demoEnv files cold) (demoOrchestratorInput n stop) f (False, i, st, pr) w
            = (Inr (False, i + 1, st', pr), w')
     \<and> os_results st' = os_results st @ [r] \<and> tr_status r = test_failed \<and> tr_scenarioFile r = f
     \<and> os_iteration st' = i + 1 \<and> os_status st' = os_status st
     \<and> launches w' = launches w + 1"
proof -
  from demo_runTestRunner_cold [OF assms(1,2)] obtain out w' where
    run: "runTestRunner (demoEnv files cold) (demoInput f) w = (Inr out, w')"
    and o: "launches w' = launches w + 1" "\<not> ro_success out" "tr_status (ro_result out) = test_failed"
    by blast
  from runTestRunner_Inr(1) [OF run] have "tr_scenarioFile (ro_result out) = f"
    by (simp add: demoInput_def)
  with run o assms(3,4) show ?thesis
    by (simp add: attempts.simps demo_runner_input demo_config Let_def)
qed

lemma demo_attempt_fails:
  assumes "map_of files (basename (io_join (demoEnv files cold) ''e2e/scenarios'' f))
             = Some (Some wellFormedDoc)"
    and "launches w < cold" and "real_of_int (i + 1) < n"
  shows "\<exists>st' pr' w' r.
       attempts (demoEnv files cold) (demoOrchestratorInput n stop) f (False, i, st, pr) w
         = (if stop then (Inr (False, i + 1, st', pr'), w')
            else attempts (demoEnv files cold) (demoOrchestratorInput n stop) f
                   (False, i + 1, st', pr') w')
     \<and> os_results st' = os_results st @ [r] \<and> tr_status r = test_failed \<and> tr_scenarioFile r = f
     \<and> os_iteration st' = i + 1 \<and> os_status st' = os_status st
     \<and> launches w' = launches w + 1"
proof -
  let ?E = "demoEnv files cold"
  let ?I = "demoOrchestratorInput n stop"
  from demo_runTestRunner_cold [OF assms(1,2)] obtain out w' fs where
    run: "runTestRunner ?E (demoInput f) w = (Inr out, w')"
    and o: "launches w' = launches w + 1" "\<not> ro_success out" "tr_status (ro_result out) = test_failed"
    and fs: "find (\<lambda>s. sr_status s = failed) (tr_steps (ro_result out)) = Some fs"
      "sr_target fs = Some ''Start Workout''" "sr_id fs = Some ''open''"
    by blast
  from runTestRunner_Inr(1) [OF run] have rf: "tr_scenarioFile (ro_result out) = f"
    by (simp add: demoInput_def)
  let ?st2 = "st\<lparr>os_iteration := i + 1, os_results := os_results st @ [ro_result out]\<rparr>"
  from demo_analyzeAndFix [OF fs, of files cold ?I ?st2 pr w'] obtain st3 pr1 where
    af: "analyzeAndFix ?E ?I (ro_result out) (?st2, pr) w' = (Inr (st3, pr1), w')"
    by blast
  from analyzeAndFix_Inr [OF af]
  have st3: "os_results st3 = os_results st @ [ro_result out]" "os_iteration st3 = i + 1"
    "os_status st3 = os_status st"
    by simp_all
  have "attempts ?E ?I f (False, i, st, pr) w
         = (if stop then (Inr (False, i + 1, st3, pr1), w')
            else attempts ?E ?I f (False, i + 1, st3, pr1) w')"
    using run o assms(3) af
    by (simp add: attempts.simps [of ?E ?I f False i] demo_runner_input demo_config Let_def)
  with st3 o rf show ?thesis by blast
qed

lemma demo_basename:
  "basename (io_join (demoEnv files cold) ''e2e/scenarios'' ''a.yaml'') = ''a.yaml''"
  "basename (io_join (demoEnv files cold) ''e2e/scenarios'' ''b.yaml'') = ''b.yaml''"
  by (simp_all add: demoEnv_def basename_def)

lemma demo_ensureDirectories: "ensureDirectories (demoEnv files cold) dirs w = (Inr (), w)"
  by (induction dirs) (simp_all add: demoEnv_def)

lemma demo_loadAllScenarios_one:
  "loadAllScenarios (demoEnv [(''a.yaml'', Some wellFormedDoc)] cold) ''e2e/scenarios'' w
     = (Inr [(''a.yaml'', demoScenario)], w)"
proof -
  let ?E = "demoEnv [(''a.yaml'', Some wellFormedDoc)] cold"
  have r: "io_readdirSync ?E ''e2e/scenarios'' w = (Inr [''a.yaml''], w)"
    by (simp add: demoEnv_def)
  have p: "parseScenarioFile ?E (io_join ?E ''e2e/scenarios'' ''a.yaml'') w = (Inr demoScenario, w)"
    by (rule demo_parseScenarioFile) (simp add: demo_basename)
  show ?thesis
    by (simp add: loadAllScenarios_def r p endsWith_def suffix_to_prefix)
qed

lemma demo_loadAllScenarios_two:
  "loadAllScenarios (demoEnv [(''a.yaml'', Some wellFormedDoc), (''b.yaml'', Some wellFormedDoc)] cold)
       ''e2e/scenarios'' w
     = (Inr [(''a.yaml'', demoScenario), (''b.yaml'', demoScenario)], w)"
proof -
  let ?E = "demoEnv [(''a.yaml'', Some wellFormedDoc), (''b.yaml'', Some wellFormedDoc)] cold"
  have r: "io_readdirSync ?E ''e2e/scenarios'' w = (Inr [''a.yaml'', ''b.yaml''], w)"
    by (simp add: demoEnv_def)
  have p: "parseScenarioFile ?E (io_join ?E ''e2e/scenarios'' ''a.yaml'') w = (Inr demoScenario, w)"
    "parseScenarioFile ?E (io_join ?E ''e2e/scenarios'' ''b.yaml'') w = (Inr demoScenario, w)"
    by (rule demo_parseScenarioFile, simp add: demo_basename)+
  show ?thesis
    by (simp add: loadAllScenarios_def r p endsWith_def suffix_to_prefix)
qed

lemma demo_generateFinalReport:
  "generateFinalReport (demoEnv files cold) st dir w
     = (Inr (buildFinalReport (demoEnv files cold) st (io_toISOString (demoEnv files cold) w)), w)"
proof -
  have "io_writeFileSync (demoEnv files cold) p w = (Inr (), w)" for p
    by (simp add: demoEnv_def)
  then show ?thesis
    by (simp add: generateFinalReport_def demo_writeReport Let_def)
qed

lemma demo_oi: "oi_screenshotDir (demoOrchestratorInput n stop) = ''e2e/screenshots''"
  "oi_reportsDir (demoOrchestratorInput n stop) = ''e2e/reports''"
  "oi_scenariosDir (demoOrchestratorInput n stop) = ''e2e/scenarios''"
  by (simp_all add: demoOrchestratorInput_def)

lemma processScenarios_Cons:
  assumes "attempts E input f (False, 0, st\<lparr>os_currentScenario := sc_name scenario\<rparr>, pr) w
             = (Inr (p, i, st1, pr1), w1)"
  shows "processScenarios E input ((f, scenario) # rest) (st, pr) w
     = (if \<not> p then
          (if stopOnFirstFailure (cfg_orchestrator (oi_config input))
           then (Inr (st1\<lparr>os_status := (if real_of_int i \<ge> maxIterations (cfg_orchestrator (oi_config input))
                                           then max_retries else orch_failed)\<rparr>, pr1), w1)
           else processScenarios E input rest
                  (st1\<lparr>os_status := (if real_of_int i \<ge> maxIterations (cfg_orchestrator (oi_config input))
                                       then max_retries else orch_failed)\<rparr>, pr1) w1)
        else processScenarios E input rest (st1, pr1) w1)"
  by (simp add: assms Let_def)

text \<open>The state with which \<open>runOrchestrator\<close> enters the loop over the scenarios.\<close>

lemma demo_runOrchestrator:
  assumes "loadAllScenarios (demoEnv files cold) ''e2e/scenarios'' w = (Inr scenarioMap, w)"
    and "scenarioMap \<noteq> []"
    and "processScenarios (demoEnv files cold) (demoOrchestratorInput n stop) scenarioMap
           (\<lparr>os_scenarios = map snd scenarioMap, os_currentScenario = None, os_iteration = 0,
             os_maxIterations = n, os_results = [], os_analyses = [], os_fixes = [],
             os_status = running, os_startTime = io_toISOString (demoEnv files cold) w,
             os_endTime = None\<rparr>, []) w = (Inr (st2, prompts), w2)"
  shows "\<exists>out. runOrchestrator (demoEnv files cold) (demoOrchestratorInput n stop) w = (Inr out, w2)
     \<and> os_results (oo_state out) = os_results st2
     \<and> os_iteration (oo_state out) = os_iteration st2
     \<and> os_status (oo_state out) = finalStatus st2
     \<and> oo_success out = (finalStatus st2 = orch_passed)"
  using assms(2)
  by (simp add: runOrchestrator_def demo_ensureDirectories demo_oi assms(1,3)
        demo_generateFinalReport demo_config Let_def del: ensureDirectories.simps)

text \<open>Two scenarios, first launch cold, five iterations allowed, \<open>stopOnFirstFailure\<close> set.\<close>

lemma demo_run_stop:
  "\<exists>out w'. runOrchestrator
                (demoEnv [(''a.yaml'', Some wellFormedDoc), (''b.yaml'', Some wellFormedDoc)] 1)
                (demoOrchestratorInput 5 True) freshWorld = (Inr out, w')
     \<and> map (\<lambda>r. (tr_scenarioFile r, tr_status r)) (os_results (oo_state out))
         = [(''a.yaml'', test_failed)]
     \<and> os_iteration (oo_state out) = 1
     \<and> os_status (oo_state out) = orch_failed"
proof -
  let ?files = "[(''a.yaml'', Some wellFormedDoc), (''b.yaml'', Some wellFormedDoc)]"
  let ?E = "demoEnv ?files 1"
  let ?I = "demoOrchestratorInput 5 True"
  let ?map = "[(''a.yaml'', demoScenario), (''b.yaml'', demoScenario)]"
  let ?init = "\<lparr>os_scenarios = map snd ?map, os_currentScenario = None,
              os_iteration = 0, os_maxIterations = 5, os_results = [], os_analyses = [],
              os_fixes = [], os_status = running,
              os_startTime = io_toISOString ?E freshWorld, os_endTime = None\<rparr>"
  let ?st = "?init\<lparr>os_currentScenario := sc_name demoScenario\<rparr>"
  have m: "map_of ?files (basename (io_join ?E ''e2e/scenarios'' ''a.yaml'')) = Some (Some wellFormedDoc)"
    by (simp add: demo_basename)
  have l0: "launches freshWorld < 1"
    by (simp add: freshWorld_def)
  from demo_attempt_fails [OF m l0, of 0 5 True ?st "[]"] obtain st1 pr1 w1 r1 where
    a1: "attempts ?E ?I ''a.yaml'' (False, 0, ?st, []) freshWorld = (Inr (False, 1, st1, pr1), w1)"
    and s1: "os_results st1 = [r1]" "tr_status r1 = test_failed" "tr_scenarioFile r1 = ''a.yaml''"
      "os_status st1 = running" "os_iteration st1 = 1"
    by auto
  let ?st2 = "st1\<lparr>os_status := (if 1 \<ge> maxIterations (cfg_orchestrator (oi_config ?I))
                                   then max_retries else orch_failed)\<rparr>"
  from processScenarios_Cons [OF a1, of "[(''b.yaml'', demoScenario)]"]
  have p: "processScenarios ?E ?I ?map (?init, []) freshWorld = (Inr (?st2, pr1), w1)"
    by (simp add: demo_config)
  have f: "finalStatus ?st2 = orch_failed"
    using s1 by (simp add: finalStatus_def demo_config)
  from demo_runOrchestrator [OF demo_loadAllScenarios_two _ p] s1 f
  show ?thesis
    by auto
qed

text \<open>Two scenarios that pass at their first attempt.\<close>

lemma demo_run_two_pass:
  "\<exists>out w'. runOrchestrator
                (demoEnv [(''a.yaml'', Some wellFormedDoc), (''b.yaml'', Some wellFormedDoc)] 0)
                (demoOrchestratorInput 5 False) freshWorld = (Inr out, w')
     \<and> map (\<lambda>r. (tr_scenarioFile r, tr_status r)) (os_results (oo_state out))
         = [(''a.yaml'', test_passed), (''b.yaml'', test_passed)]
     \<and> os_iteration (oo_state out) = 1
     \<and> os_status (oo_state out) = orch_passed"
proof -
  let ?files = "[(''a.yaml'', Some wellFormedDoc), (''b.yaml'', Some wellFormedDoc)]"
  let ?E = "demoEnv ?files 0"
  let ?I = "demoOrchestratorInput 5 False"
  let ?map = "[(''a.yaml'', demoScenario), (''b.yaml'', demoScenario)]"
  let ?init = "\<lparr>os_scenarios = map snd ?map, os_currentScenario = None,
              os_iteration = 0, os_maxIterations = 5, os_results = [], os_analyses = [],
              os_fixes = [], os_status = running,
              os_startTime = io_toISOString ?E freshWorld, os_endTime = None\<rparr>"
  let ?st = "?init\<lparr>os_currentScenario := sc_name demoScenario\<rparr>"
  have ma: "map_of ?files (basename (io_join ?E ''e2e/scenarios'' ''a.yaml'')) = Some (Some wellFormedDoc)"
    and mb: "map_of ?files (basename (io_join ?E ''e2e/scenarios'' ''b.yaml'')) = Some (Some wellFormedDoc)"
    by (simp_all add: demo_basename)
  from demo_attempt_passes [OF ma, of freshWorld 0 5 False ?st "[]"] obtain st1 w1 r1 where
    a1: "attempts ?E ?I ''a.yaml'' (False, 0, ?st, []) freshWorld = (Inr (True, 1, st1, []), w1)"
    and s1: "os_results st1 = [r1]" "tr_status r1 = test_passed" "tr_scenarioFile r1 = ''a.yaml''"
      "os_status st1 = running"
    by auto
  let ?st1 = "st1\<lparr>os_currentScenario := sc_name demoScenario\<rparr>"
  from demo_attempt_passes [OF mb, of w1 0 5 False ?st1 "[]"] obtain st2 w2 r2 where
    a2: "attempts ?E ?I ''b.yaml'' (False, 0, ?st1, []) w1 = (Inr (True, 1, st2, []), w2)"
    and s2: "os_results st2 = os_results ?st1 @ [r2]" "tr_status r2 = test_passed"
      "tr_scenarioFile r2 = ''b.yaml''" "os_status st2 = os_status ?st1" "os_iteration st2 = 1"
    by auto
  from processScenarios_Cons [OF a2, of "[]"]
  have p2: "processScenarios ?E ?I [(''b.yaml'', demoScenario)] (st1, []) w1 = (Inr (st2, []), w2)"
    by simp
  from processScenarios_Cons [OF a1, of "[(''b.yaml'', demoScenario)]"] p2
  have p: "processScenarios ?E ?I ?map (?init, []) freshWorld = (Inr (st2, []), w2)"
    by simp
  have f: "finalStatus st2 = orch_passed"
    using s1 s2 by (simp add: finalStatus_def)
  from demo_runOrchestrator [OF demo_loadAllScenarios_two _ p] s1 s2 f
  show ?thesis
    by auto
qed

text \<open>
  One scenario that never passes, with \<open>maxIterations\<close> above 1 and at most 2: two
  attempts are made.
\<close>

lemma demo_run_exhausted:
  assumes "1 < n" and "n \<le> 2"
  shows "\<exists>out w'. runOrchestrator (demoEnv [(''a.yaml'', Some wellFormedDoc)] 9)
                (demoOrchestratorInput n False) freshWorld = (Inr out, w')
     \<and> map (\<lambda>r. (tr_scenarioFile r, tr_status r)) (os_results (oo_state out))
         = [(''a.yaml'', test_failed), (''a.yaml'', test_failed)]
     \<and> os_status (oo_state out) = max_retries"
proof -
  let ?files = "[(''a.yaml'', Some wellFormedDoc)]"
  let ?E = "demoEnv ?files 9"
  let ?I = "demoOrchestratorInput n False"
  let ?map = "[(''a.yaml'', demoScenario)]"
  let ?init = "\<lparr>os_scenarios = map snd ?map, os_currentScenario = None,
              os_iteration = 0, os_maxIterations = n, os_results = [], os_analyses = [],
              os_fixes = [], os_status = running,
              os_startTime = io_toISOString ?E freshWorld, os_endTime = None\<rparr>"
  let ?st = "?init\<lparr>os_currentScenario := sc_name demoScenario\<rparr>"
  have m: "map_of ?files (basename (io_join ?E ''e2e/scenarios'' ''a.yaml'')) = Some (Some wellFormedDoc)"
    by (simp add: demo_basename)
  have l0: "launches freshWorld < 9"
    by (simp add: freshWorld_def)
  have n0: "real_of_int (0 + 1) < n"
    using assms(1) by simp
  from demo_attempt_fails [OF m l0 n0, of False ?st "[]"] obtain st1 pr1 w1 r1 where
    a1: "attempts ?E ?I ''a.yaml'' (False, 0, ?st, []) freshWorld
           = attempts ?E ?I ''a.yaml'' (False, 1, st1, pr1) w1"
    and s1: "os_results st1 = [r1]" "tr_status r1 = test_failed" "tr_scenarioFile r1 = ''a.yaml''"
      "os_status st1 = running" "launches w1 = launches freshWorld + 1"
    by auto
  from s1 have l1: "launches w1 < 9" by (simp add: freshWorld_def)
  have n1: "real_of_int 1 < n" "n \<le> real_of_int (1 + 1)"
    using assms by simp_all
  from demo_attempt_fails_last [OF m l1 n1, of False st1 pr1] obtain st2 w2 r2 where
    a2: "attempts ?E ?I ''a.yaml'' (False, 1, st1, pr1) w1 = (Inr (False, 2, st2, pr1), w2)"
    and s2: "os_results st2 = os_results st1 @ [r2]" "tr_status r2 = test_failed"
      "tr_scenarioFile r2 = ''a.yaml''" "os_status st2 = os_status st1"
    by auto
  from a1 a2 have at: "attempts ?E ?I ''a.yaml'' (False, 0, ?st, []) freshWorld
      = (Inr (False, 2, st2, pr1), w2)"
    by (rule trans)
  let ?st3 = "st2\<lparr>os_status := max_retries\<rparr>"
  from processScenarios_Cons [OF at, of "[]"] assms(2)
  have p: "processScenarios ?E ?I ?map (?init, []) freshWorld = (Inr (?st3, pr1), w2)"
    by (simp add: demo_config)
  have f: "finalStatus ?st3 = max_retries"
    using s1 s2 by (simp add: finalStatus_def)
  from demo_runOrchestrator [OF demo_loadAllScenarios_one _ p] s1 s2 f
  show ?thesis
    by auto
qed

section \<open>Selector resolution: the three prefixed forms\<close>

lemma textFallback_longer: "length element < length (el_selector (textFallback element))"
  by (simp add: textFallback_def)

text \<open>
  Claim C7.  For every string \<open>s\<close>, \<open>resolveElementSelector\<close> maps \<open>@s\<close> to the
  accessibility-id strategy with value \<open>s\<close>, \<open>#s\<close> to the id strategy with value
  \<open>s\<close>, and \<open>xpath:x\<close> to the xpath strategy with \<open>x\<close> verbatim; in none of the
  three cases is the result the text-based fallback of the input.
\<close>

theorem resolveElementSelector_prefixed:
  "resolveElementSelector (''@'' @ s) = \<lparr>el_strategy = ''accessibility id'', el_selector = s\<rparr>
   \<and> resolveElementSelector (''#'' @ s) = \<lparr>el_strategy = ''id'', el_selector = s\<rparr>
   \<and> resolveElementSelector (''xpath:'' @ x) = \<lparr>el_strategy = ''xpath'', el_selector = x\<rparr>
   \<and> resolveElementSelector (''@'' @ s) \<noteq> textFallback (''@'' @ s)
   \<and> resolveElementSelector (''#'' @ s) \<noteq> textFallback (''#'' @ s)
   \<and> resolveElementSelector (''xpath:'' @ x) \<noteq> textFallback (''xpath:'' @ x)"
proof -
  have a: "resolveElementSelector (''@'' @ s) = \<lparr>el_strategy = ''accessibility id'', el_selector = s\<rparr>"
    by (simp add: resolveElementSelector_def startsWith_def slice_def)
  have b: "resolveElementSelector (''#'' @ s) = \<lparr>el_strategy = ''id'', el_selector = s\<rparr>"
    by (simp add: resolveElementSelector_def startsWith_def slice_def)
  have c: "resolveElementSelector (''xpath:'' @ x) = \<lparr>el_strategy = ''xpath'', el_selector = x\<rparr>"
    by (simp add: resolveElementSelector_def startsWith_def slice_def)
  have a': "resolveElementSelector (''@'' @ s) \<noteq> textFallback (''@'' @ s)"
    unfolding a by (simp add: textFallback_def)
  have b': "resolveElementSelector (''#'' @ s) \<noteq> textFallback (''#'' @ s)"
    unfolding b by (simp add: textFallback_def)
  have "length (el_selector (textFallback (''xpath:'' @ x))) > length x"
    using textFallback_longer [of "''xpath:'' @ x"] by simp
  then have "el_selector (textFallback (''xpath:'' @ x)) \<noteq> x"
    by auto
  then have c': "resolveElementSelector (''xpath:'' @ x) \<noteq> textFallback (''xpath:'' @ x)"
    unfolding c by (auto simp: textFallback_def)
  from a b c a' b' c' show ?thesis by blast
qed

section \<open>Steps after the first failure are skipped\<close>

lemma haltsAtFailure_snoc:
  "haltsAtFailure st du (rs @ [r]) =
     (haltsAtFailure st du rs \<and> ((\<exists>x \<in> set rs. st x = failed) \<longrightarrow> st r = skipped \<and> du r = 0))"
  by (induction rs) (auto simp: list_all_iff)

lemma haltsAtFailure_nth:
  "haltsAtFailure st du rs \<Longrightarrow> i < j \<Longrightarrow> j < length rs \<Longrightarrow> st (rs ! i) = failed
     \<Longrightarrow> st (rs ! j) = skipped \<and> du (rs ! j) = 0"
proof (induction rs arbitrary: i j)
  case Nil
  then show ?case by simp
next
  case (Cons r rs)
  show ?case
  proof (cases i)
    case 0
    with Cons.prems obtain j' where j: "j = Suc j'" "j' < length rs"
      by (cases j) auto
    from Cons.prems 0 have "list_all (\<lambda>x. st x = skipped \<and> du x = 0) rs"
      by simp
    with j show ?thesis
      by (simp add: list_all_length)
  next
    case (Suc i')
    with Cons.prems obtain j' where j: "j = Suc j'" "i' < j'" "j' < length rs"
      by (cases j) auto
    with Cons.prems Suc Cons.IH [of i' j'] show ?thesis
      by simp
  qed
qed

lemma runSteps_inv:
  "runSteps E config file dir steps (os, skip, acc, shots) w = (Inr (os', skip', acc', shots'), w')
   \<Longrightarrow> haltsAtFailure sr_status sr_duration acc
   \<Longrightarrow> (\<forall>x \<in> set acc. sr_status x = failed \<longrightarrow> skip)
   \<Longrightarrow> haltsAtFailure sr_status sr_duration acc'"
proof (induction steps arbitrary: os skip acc shots w)
  case Nil
  then show ?case by simp
next
  case (Cons step steps)
  show ?case
  proof (cases skip)
    case True
    with Cons.prems show ?thesis
      by (auto intro!: Cons.IH simp: haltsAtFailure_snoc)
  next
    case False
    obtain sr w1 where ex: "executeStep E config step file dir w = (sr, w1)"
      by (cases "executeStep E config step file dir w")
    from False Cons.prems(3) have nf: "\<forall>x \<in> set acc. sr_status x \<noteq> failed" by auto
    with Cons.prems(2) have h: "haltsAtFailure sr_status sr_duration (acc @ [sr])"
      by (simp add: haltsAtFailure_snoc)
    from Cons.prems(1) False ex h nf show ?thesis
      by (auto simp: Let_def split: if_splits prod.splits sum.splits option.splits
               elim!: Cons.IH)
  qed
qed


lemma exRunSteps_inv:
  "exRunSteps X name steps (flag, msg, acc, shots) w = (Inr (flag', msg', acc', shots'), w')
   \<Longrightarrow> haltsAtFailure xs_status xs_duration acc
   \<Longrightarrow> (\<forall>x \<in> set acc. xs_status x = failed \<longrightarrow> flag)
   \<Longrightarrow> haltsAtFailure xs_status xs_duration acc'"
proof (induction steps arbitrary: flag msg acc shots w)
  case Nil
  then show ?case by simp
next
  case (Cons step steps)
  show ?case
  proof (cases flag)
    case True
    with Cons.prems show ?thesis
      by (auto intro!: Cons.IH simp: haltsAtFailure_snoc)
  next
    case False
    from False Cons.prems(3) have nf: "\<forall>x \<in> set acc. xs_status x \<noteq> failed" by auto
    with Cons.prems(2) have h: "\<And>r. haltsAtFailure xs_status xs_duration (acc @ [r])"
      by (simp add: haltsAtFailure_snoc)
    from Cons.prems(1) False h nf show ?thesis
      by (auto simp: Let_def split: if_splits prod.splits sum.splits option.splits
               elim!: Cons.IH)
  qed
qed

lemma runSteps_skip:
  "runSteps E config file dir steps (os, True, acc, shots) w =
     (Inr (os, True,
           acc @ map (\<lambda>step. \<lparr>sr_id = st_id step, sr_action = st_action step,
                               sr_target = st_target step, sr_status = skipped, sr_duration = 0,
                               sr_error = None, sr_screenshot = None,
                               sr_actualValue = None, sr_expectedValue = None\<rparr>) steps,
           shots), w)"
  by (induction steps arbitrary: acc) simp_all

lemma exRunSteps_skip:
  "exRunSteps X name steps (True, msg, acc, shots) w =
     (Inr (True, msg,
           acc @ map (\<lambda>step. \<lparr>xs_step = step, xs_status = skipped, xs_duration = 0,
                               xs_error = None\<rparr>) steps,
           shots), w)"
  by (induction steps arbitrary: acc) simp_all

lemma runSteps_append:
  "runSteps E config file dir (pre @ post) st w =
     (case runSteps E config file dir pre st w of
        (Inl e, w1) \<Rightarrow> (Inl e, w1)
      | (Inr st1, w1) \<Rightarrow> runSteps E config file dir post st1 w1)"
proof (induction pre arbitrary: st w)
  case Nil
  then show ?case by simp
next
  case (Cons step pre)
  obtain os skip acc shots where st: "st = (os, skip, acc, shots)"
    by (cases st)
  show ?case
  proof (cases skip)
    case True
    then show ?thesis
      by (simp add: st Cons.IH)
  next
    case False
    obtain sr w1 where ex: "executeStep E config step file dir w = (sr, w1)"
      by (cases "executeStep E config step file dir w")
    let ?shot = "io_screenshot E (io_join E dir (tmpl (st_id step) @ ''-failure.png'')) True w1"
    obtain a w2 where sh: "?shot = (a, w2)"
      by (cases ?shot)
    show ?thesis
    proof (cases a)
      case (Inl e)
      with False ex sh show ?thesis
        by (simp add: st Cons.IH Let_def)
    next
      case (Inr u)
      with False ex sh show ?thesis
        by (simp add: st Cons.IH Let_def)
    qed
  qed
qed

lemma exRunSteps_append:
  "exRunSteps X name (pre @ post) st w =
     (case exRunSteps X name pre st w of
        (Inl e, w1) \<Rightarrow> (Inl e, w1)
      | (Inr st1, w1) \<Rightarrow> exRunSteps X name post st1 w1)"
proof (induction pre arbitrary: st w)
  case Nil
  then show ?case by simp
next
  case (Cons step pre)
  obtain flag msg acc shots where st: "st = (flag, msg, acc, shots)"
    by (cases st)
  show ?case
  proof (cases flag)
    case True
    then show ?thesis
      by (simp add: st Cons.IH)
  next
    case False
    obtain a w1 where ex: "xe_executeStep X step w = (a, w1)"
      by (cases "xe_executeStep X step w")
    show ?thesis
    proof (cases a)
      case (Inr u)
      with False ex show ?thesis
        by (simp add: st Cons.IH Let_def)
    next
      case (Inl err)
      obtain b w2 where sh: "captureScreenshot X (''FAILURE-'' @ name) w1 = (b, w2)"
        by (cases "captureScreenshot X (''FAILURE-'' @ name) w1")
      with False ex Inl show ?thesis
        by (cases b) (simp_all add: st Cons.IH Let_def)
    qed
  qed
qed

lemma runSteps_flag:
  "runSteps E config file dir steps (os, skip, acc, shots) w = (Inr (os', skip', acc', shots'), w')
   \<Longrightarrow> (\<forall>x \<in> set acc. sr_status x = failed \<longrightarrow> skip)
   \<Longrightarrow> (\<forall>x \<in> set acc'. sr_status x = failed \<longrightarrow> skip')"
proof (induction steps arbitrary: os skip acc shots w)
  case Nil
  then show ?case by simp
next
  case (Cons step steps)
  show ?case
  proof (cases skip)
    case True
    with Cons.prems show ?thesis
      by (simp add: runSteps_skip)
  next
    case False
    obtain sr w1 where ex: "executeStep E config step file dir w = (sr, w1)"
      by (cases "executeStep E config step file dir w")
    show ?thesis
    proof (cases "sr_status sr = failed")
      case True
      with Cons.prems(1) False ex have skip'
        by (auto simp: Let_def runSteps_skip split: if_splits prod.splits sum.splits)
      then show ?thesis by simp
    next
      case nf: False
      let ?shots = "case sr_screenshot sr of Some s \<Rightarrow> shots @ [s] | None \<Rightarrow> shots"
      from Cons.prems(1) False ex nf
      have rec: "runSteps E config file dir steps (os, False, acc @ [sr], ?shots) w1
                   = (Inr (os', skip', acc', shots'), w')"
        by (simp add: Let_def)
      from False Cons.prems(2) nf have "\<forall>x \<in> set (acc @ [sr]). sr_status x = failed \<longrightarrow> False"
        by auto
      from Cons.IH [OF rec this] show ?thesis .
    qed
  qed
qed

lemma exRunSteps_flag:
  "exRunSteps X name steps (flag, msg, acc, shots) w = (Inr (flag', msg', acc', shots'), w')
   \<Longrightarrow> (\<forall>x \<in> set acc. xs_status x = failed \<longrightarrow> flag)
   \<Longrightarrow> (\<forall>x \<in> set acc'. xs_status x = failed \<longrightarrow> flag')"
proof (induction steps arbitrary: flag msg acc shots w)
  case Nil
  then show ?case by simp
next
  case (Cons step steps)
  show ?case
  proof (cases flag)
    case True
    with Cons.prems show ?thesis
      by (simp add: exRunSteps_skip)
  next
    case False
    obtain a w1 where ex: "xe_executeStep X step w = (a, w1)"
      by (cases "xe_executeStep X step w")
    show ?thesis
    proof (cases a)
      case (Inl err)
      with Cons.prems(1) False ex have flag'
        by (auto simp: Let_def exRunSteps_skip split: prod.splits sum.splits)
      then show ?thesis by simp
    next
      case (Inr u)
      let ?r = "\<lparr>xs_step = step, xs_status = passed,
                  xs_duration = xe_now X w1 - xe_now X w, xs_error = None\<rparr>"
      from Cons.prems(1) False ex Inr
      have rec: "exRunSteps X name steps (False, msg, acc @ [?r], shots) w1
                   = (Inr (flag', msg', acc', shots'), w')"
        by (simp add: Let_def)
      from False Cons.prems(2) have "\<forall>x \<in> set (acc @ [?r]). xs_status x = failed \<longrightarrow> False"
        by auto
      from Cons.IH [OF rec this] show ?thesis .
    qed
  qed
qed

lemma filterStepsForPlatform_append:
  "filterStepsForPlatform (pre @ post) platform
     = filterStepsForPlatform pre platform @ filterStepsForPlatform post platform"
  by (induction pre platform rule: filterStepsForPlatform.induct) simp_all

lemma runScenario_rest_skipped:
  assumes "fst (runScenario E config (scenario\<lparr>sc_steps := pre\<rparr>) file dir w) = Inr r"
    and "\<exists>s \<in> set (tr_steps r). sr_status s = failed"
  shows "runScenario E config (scenario\<lparr>sc_steps := pre @ post\<rparr>) file dir w
     = (Inr (r\<lparr>tr_steps := tr_steps r @
               map (\<lambda>step. \<lparr>sr_id = st_id step, sr_action = st_action step,
                              sr_target = st_target step, sr_status = skipped, sr_duration = 0,
                              sr_error = None, sr_screenshot = None,
                              sr_actualValue = None, sr_expectedValue = None\<rparr>) post\<rparr>),
        snd (runScenario E config (scenario\<lparr>sc_steps := pre\<rparr>) file dir w))"
proof -
  let ?w0 = "io_resetCollectors E w"
  obtain w1 where m: "(if \<not> io_existsSync E ?w0 dir then io_mkdirSync E dir ?w0 else (Inr (), ?w0))
                       = (Inr (), w1)"
    using assms(1)
    by (auto simp: runScenario_def Let_def split: prod.splits sum.splits)
  obtain w2 where g: "io_goto E (baseUrl config) w1 = (Inr (), w2)"
    using assms(1) m
    by (auto simp: runScenario_def Let_def split: prod.splits sum.splits)
  obtain w3 where a: "io_waitForApp E (timeout config) w2 = (Inr (), w3)"
    using assms(1) m g
    by (auto simp: runScenario_def Let_def split: prod.splits sum.splits)
  obtain os sk acc shots w4 where
    l: "runSteps E config file dir pre (test_passed, False, [], []) w3 = (Inr (os, sk, acc, shots), w4)"
    using assms(1) m g a
    by (auto simp: runScenario_def Let_def split: prod.splits sum.splits)
  from assms(1) m g a l have r: "runScenario E config (scenario\<lparr>sc_steps := pre\<rparr>) file dir w
      = (Inr r, w4)" and acc: "tr_steps r = acc"
    by (auto simp: runScenario_def Let_def)
  from runSteps_flag [OF l] assms(2) acc have sk: sk
    by auto
  from l sk have "runSteps E config file dir (pre @ post) (test_passed, False, [], []) w3
     = (Inr (os, True,
           acc @ map (\<lambda>step. \<lparr>sr_id = st_id step, sr_action = st_action step,
                               sr_target = st_target step, sr_status = skipped, sr_duration = 0,
                               sr_error = None, sr_screenshot = None,
                               sr_actualValue = None, sr_expectedValue = None\<rparr>) post,
           shots), w4)"
    by (simp add: runSteps_append runSteps_skip)
  with r m g a l sk show ?thesis
    by (auto simp: runScenario_def Let_def)
qed

lemma exRunScenario_rest_skipped:
  assumes "fst (exRunScenario X (scenario\<lparr>ts_steps := pre\<rparr>) v) = Inr x"
    and "\<exists>s \<in> set (xr_steps x). xs_status s = failed"
  shows "exRunScenario X (scenario\<lparr>ts_steps := pre @ post\<rparr>) v
     = (Inr (x\<lparr>xr_steps := xr_steps x @
               map (\<lambda>step. \<lparr>xs_step = step, xs_status = skipped, xs_duration = 0,
                              xs_error = None\<rparr>)
                 (filterStepsForPlatform post (xe_platform X))\<rparr>),
        snd (exRunScenario X (scenario\<lparr>ts_steps := pre\<rparr>) v))"
proof -
  let ?pre = "filterStepsForPlatform pre (xe_platform X)"
  let ?post = "filterStepsForPlatform post (xe_platform X)"
  from assms(1) have d: "xe_driver X"
    by (auto simp: exRunScenario_def split: if_splits)
  obtain fl msg acc shots v1 where
    l: "exRunSteps X (ts_name scenario) ?pre (False, None, [], []) v = (Inr (fl, msg, acc, shots), v1)"
    using assms(1) d
    by (auto simp: exRunScenario_def Let_def split: prod.splits sum.splits)
  from assms(1) d l have r: "exRunScenario X (scenario\<lparr>ts_steps := pre\<rparr>) v = (Inr x, v1)"
    and acc: "xr_steps x = acc"
    by (auto simp: exRunScenario_def Let_def)
  from exRunSteps_flag [OF l] assms(2) acc have fl: fl
    by auto
  from l fl have "exRunSteps X (ts_name scenario) (?pre @ ?post) (False, None, [], []) v
     = (Inr (True, msg,
           acc @ map (\<lambda>step. \<lparr>xs_step = step, xs_status = skipped, xs_duration = 0,
                               xs_error = None\<rparr>) ?post,
           shots), v1)"
    by (simp add: exRunSteps_append exRunSteps_skip)
  with r d l fl show ?thesis
    by (auto simp: exRunScenario_def Let_def filterStepsForPlatform_append)
qed

lemma runScenario_halts:
  assumes "fst (runScenario E config scenario scenarioFile screenshotDir w) = Inr r"
  shows "haltsAtFailure sr_status sr_duration (tr_steps r)"
proof -
  from assms obtain w3 os sk shots w4 where
    "runSteps E config scenarioFile screenshotDir (sc_steps scenario) (test_passed, False, [], []) w3
       = (Inr (os, sk, tr_steps r, shots), w4)"
    by (auto simp: runScenario_def Let_def split: if_splits prod.splits sum.splits)
  then show ?thesis
    by (rule runSteps_inv) simp_all
qed

lemma exRunScenario_halts:
  assumes "fst (exRunScenario X tscenario v) = Inr x"
  shows "haltsAtFailure xs_status xs_duration (xr_steps x)"
proof -
  from assms obtain fl msg shots v' where
    "exRunSteps X (ts_name tscenario) (filterStepsForPlatform (ts_steps tscenario) (xe_platform X))
       (False, None, [], []) v = (Inr (fl, msg, xr_steps x, shots), v')"
    by (auto simp: exRunScenario_def Let_def split: if_splits prod.splits sum.splits)
  then show ?thesis
    by (rule exRunSteps_inv) simp_all
qed

text \<open>
  Claim C1.  In the result that \<open>PlaywrightAdapter.runScenario\<close> or
  \<open>TestExecutor.runScenario\<close> returns, every step result after one with status
  \<open>failed\<close> has status \<open>skipped\<close> and duration 0.  And no step executes after the
  first failure: once a step has failed, the loop of either runner records each
  further step as skipped and leaves the world as it is, for every environment, so it
  calls none of the page or device operations.  Hence a run of the steps \<open>pre\<close> that
  holds a failed step result, continued by any steps \<open>post\<close>, returns the same world
  and the same result, with only the skipped entries of \<open>post\<close> appended.
\<close>

theorem skipped_after_first_failure:
  "(fst (runScenario E config scenario scenarioFile screenshotDir w) = Inr r \<longrightarrow>
      (\<forall>i j. i < j \<longrightarrow> j < length (tr_steps r) \<longrightarrow> sr_status (tr_steps r ! i) = failed \<longrightarrow>
         sr_status (tr_steps r ! j) = skipped \<and> sr_duration (tr_steps r ! j) = 0))
   \<and> (fst (exRunScenario X tscenario v) = Inr x \<longrightarrow>
      (\<forall>i j. i < j \<longrightarrow> j < length (xr_steps x) \<longrightarrow> xs_status (xr_steps x ! i) = failed \<longrightarrow>
         xs_status (xr_steps x ! j) = skipped \<and> xs_duration (xr_steps x ! j) = 0))
   \<and> runSteps E config scenarioFile screenshotDir steps (overallStatus, True, stepResults, screenshots) w
       = (Inr (overallStatus, True,
               stepResults @
               map (\<lambda>step. \<lparr>sr_id = st_id step, sr_action = st_action step,
                            sr_target = st_target step, sr_status = skipped, sr_duration = 0,
                            sr_error = None, sr_screenshot = None,
                            sr_actualValue = None, sr_expectedValue = None\<rparr>) steps,
               screenshots), w)
   \<and> exRunSteps X name xsteps (True, errorMessage, xstepResults, xscreenshots) v
       = (Inr (True, errorMessage,
               xstepResults @
               map (\<lambda>step. \<lparr>xs_step = step, xs_status = skipped, xs_duration = 0,
                            xs_error = None\<rparr>) xsteps,
               xscreenshots), v)
   \<and> (fst (runScenario E config (scenario\<lparr>sc_steps := pre\<rparr>) scenarioFile screenshotDir w) = Inr r1
        \<and> (\<exists>s \<in> set (tr_steps r1). sr_status s = failed) \<longrightarrow>
      runScenario E config (scenario\<lparr>sc_steps := pre @ post\<rparr>) scenarioFile screenshotDir w
        = (Inr (r1\<lparr>tr_steps := tr_steps r1 @
               map (\<lambda>step. \<lparr>sr_id = st_id step, sr_action = st_action step,
                            sr_target = st_target step, sr_status = skipped, sr_duration = 0,
                            sr_error = None, sr_screenshot = None,
                            sr_actualValue = None, sr_expectedValue = None\<rparr>) post\<rparr>),
           snd (runScenario E config (scenario\<lparr>sc_steps := pre\<rparr>) scenarioFile screenshotDir w)))
   \<and> (fst (exRunScenario X (tscenario\<lparr>ts_steps := xpre\<rparr>) v) = Inr x1
        \<and> (\<exists>s \<in> set (xr_steps x1). xs_status s = failed) \<longrightarrow>
      exRunScenario X (tscenario\<lparr>ts_steps := xpre @ xpost\<rparr>) v
        = (Inr (x1\<lparr>xr_steps := xr_steps x1 @
               map (\<lambda>step. \<lparr>xs_step = step, xs_status = skipped, xs_duration = 0,
                            xs_error = None\<rparr>) (filterStepsForPlatform xpost (xe_platform X))\<rparr>),
           snd (exRunScenario X (tscenario\<lparr>ts_steps := xpre\<rparr>) v)))"
  apply (intro conjI)
  subgoal
    by (intro impI allI) (rule haltsAtFailure_nth [OF runScenario_halts])
  subgoal
    by (intro impI allI) (rule haltsAtFailure_nth [OF exRunScenario_halts])
  subgoal
    by (rule runSteps_skip)
  subgoal
    by (rule exRunSteps_skip)
  subgoal
    by (rule impI, erule conjE, rule runScenario_rest_skipped)
  subgoal
    by (rule impI, erule conjE, rule exRunScenario_rest_skipped)
  done

theorem skipped_after_first_failure_witness:
  "(\<exists>r. fst (runScenario (demoEnv [] 1) demoConfig demoScenario ''start.yaml'' ''shots/start'' coldWorld)
          = Inr r
        \<and> map (\<lambda>s. (sr_status s, sr_duration s)) (tr_steps r) = [(failed, 30000), (skipped, 0)])
   \<and> (\<exists>x. fst (exRunScenario demoExecutor demoTestScenario 0) = Inr x
        \<and> map (\<lambda>s. (xs_status s, xs_duration s)) (xr_steps x) = [(failed, 10000), (skipped, 0)])
   \<and> (\<exists>r1. fst (runScenario (demoEnv [] 1) demoConfig
                  (demoScenario\<lparr>sc_steps := [hd (sc_steps demoScenario)]\<rparr>)
                  ''start.yaml'' ''shots/start'' coldWorld) = Inr r1
        \<and> map sr_status (tr_steps r1) = [failed]
        \<and> snd (runScenario (demoEnv [] 1) demoConfig
                  (demoScenario\<lparr>sc_steps := [hd (sc_steps demoScenario)] @ tl (sc_steps demoScenario)\<rparr>)
                  ''start.yaml'' ''shots/start'' coldWorld)
            = snd (runScenario (demoEnv [] 1) demoConfig
                  (demoScenario\<lparr>sc_steps := [hd (sc_steps demoScenario)]\<rparr>)
                  ''start.yaml'' ''shots/start'' coldWorld))
   \<and> (\<exists>x1. fst (exRunScenario demoExecutor (demoTestScenario\<lparr>ts_steps := [TapStep ''Missing Button'']\<rparr>) 0)
               = Inr x1
        \<and> map xs_status (xr_steps x1) = [failed]
        \<and> snd (exRunScenario demoExecutor
                  (demoTestScenario\<lparr>ts_steps := [TapStep ''Missing Button''] @ [SeeStep ''Done'']\<rparr>) 0)
            = snd (exRunScenario demoExecutor
                  (demoTestScenario\<lparr>ts_steps := [TapStep ''Missing Button'']\<rparr>) 0))"
proof -
  note T = skipped_after_first_failure
  let ?E = "demoEnv [] 1"
  let ?pre = "[hd (sc_steps demoScenario)]"
  let ?post = "tl (sc_steps demoScenario)"
  obtain r where r: "fst (runScenario ?E demoConfig demoScenario ''start.yaml''
                       ''shots/start'' coldWorld) = Inr r"
    and r0: "sr_status (tr_steps r ! 0) = failed" "sr_duration (tr_steps r ! 0) = 30000"
    and rl: "length (tr_steps r) = 2"
    by (simp add: runScenario_def demoEnv_def demoConfig_def demoScenario_def coldWorld_def
          executeStep_def failedStepResult_def Let_def)
  obtain x where x: "fst (exRunScenario demoExecutor demoTestScenario 0) = Inr x"
    and x0: "xs_status (xr_steps x ! 0) = failed" "xs_duration (xr_steps x ! 0) = 10000"
    and xl: "length (xr_steps x) = 2"
    by (simp add: exRunScenario_def demoExecutor_def demoTestScenario_def captureScreenshot_def
          Let_def)
  from T [where E = ?E and config = demoConfig and scenario = demoScenario
            and scenarioFile = "''start.yaml''" and screenshotDir = "''shots/start''"
            and w = coldWorld and r = r, THEN conjunct1, rule_format, OF r, of 0 1] r0 rl
  have a: "sr_status (tr_steps r ! 1) = skipped \<and> sr_duration (tr_steps r ! 1) = 0"
    by simp
  from T [where X = demoExecutor and tscenario = demoTestScenario and v = 0 and x = x,
          THEN conjunct2, THEN conjunct1, rule_format, OF x, of 0 1] x0 xl
  have b: "xs_status (xr_steps x ! 1) = skipped \<and> xs_duration (xr_steps x ! 1) = 0"
    by simp
  have "tr_steps r = [tr_steps r ! 0, tr_steps r ! 1]"
    using rl by (auto simp: list_eq_iff_nth_eq less_Suc_eq numeral_2_eq_2)
  then have c1: "map (\<lambda>s. (sr_status s, sr_duration s)) (tr_steps r) = [(failed, 30000), (skipped, 0)]"
    using a r0 by (metis (no_types, lifting) list.simps(8,9))
  have "xr_steps x = [xr_steps x ! 0, xr_steps x ! 1]"
    using xl by (auto simp: list_eq_iff_nth_eq less_Suc_eq numeral_2_eq_2)
  then have c2: "map (\<lambda>s. (xs_status s, xs_duration s)) (xr_steps x) = [(failed, 10000), (skipped, 0)]"
    using b x0 by (metis (no_types, lifting) list.simps(8,9))
  obtain r1 where r1: "fst (runScenario ?E demoConfig (demoScenario\<lparr>sc_steps := ?pre\<rparr>)
                       ''start.yaml'' ''shots/start'' coldWorld) = Inr r1"
    and f1: "map sr_status (tr_steps r1) = [failed]"
    by (simp add: runScenario_def demoEnv_def demoConfig_def demoScenario_def coldWorld_def
          executeStep_def failedStepResult_def Let_def)
  from f1 have e1: "\<exists>s \<in> set (tr_steps r1). sr_status s = failed"
    by (cases "tr_steps r1") auto
  from T [where E = ?E and config = demoConfig and scenario = demoScenario
            and scenarioFile = "''start.yaml''" and screenshotDir = "''shots/start''"
            and w = coldWorld and pre = ?pre and post = ?post and ?r1.0 = r1,
          THEN conjunct2, THEN conjunct2, THEN conjunct2, THEN conjunct2, THEN conjunct1,
          rule_format, OF conjI [OF r1 e1]]
  have c3: "snd (runScenario ?E demoConfig (demoScenario\<lparr>sc_steps := ?pre @ ?post\<rparr>)
                  ''start.yaml'' ''shots/start'' coldWorld)
            = snd (runScenario ?E demoConfig (demoScenario\<lparr>sc_steps := ?pre\<rparr>)
                  ''start.yaml'' ''shots/start'' coldWorld)"
    by (simp only: snd_conv)
  let ?xpre = "[TapStep ''Missing Button'']"
  obtain x1 where x1: "fst (exRunScenario demoExecutor (demoTestScenario\<lparr>ts_steps := ?xpre\<rparr>) 0) = Inr x1"
    and g1: "map xs_status (xr_steps x1) = [failed]"
    by (simp add: exRunScenario_def demoExecutor_def demoTestScenario_def captureScreenshot_def
          Let_def)
  from g1 have e2: "\<exists>s \<in> set (xr_steps x1). xs_status s = failed"
    by (cases "xr_steps x1") auto
  from T [where X = demoExecutor and tscenario = demoTestScenario and v = 0 and xpre = ?xpre
            and xpost = "[SeeStep ''Done'']" and ?x1.0 = x1,
          THEN conjunct2, THEN conjunct2, THEN conjunct2, THEN conjunct2, THEN conjunct2,
          rule_format, OF conjI [OF x1 e2]]
  have c4: "snd (exRunScenario demoExecutor
                  (demoTestScenario\<lparr>ts_steps := ?xpre @ [SeeStep ''Done'']\<rparr>) 0)
            = snd (exRunScenario demoExecutor (demoTestScenario\<lparr>ts_steps := ?xpre\<rparr>) 0)"
    by (simp only: snd_conv)
  show ?thesis
    by (rule conjI, rule exI [of _ r], rule conjI [OF r c1],
        rule conjI, rule exI [of _ x], rule conjI [OF x c2],
        rule conjI, rule exI [of _ r1], rule conjI [OF r1 conjI [OF f1 c3]],
        rule exI [of _ x1], rule conjI [OF x1 conjI [OF g1 c4]])
qed

section \<open>Scenario files that do not parse or validate\<close>

text \<open>
  Claim C10.  When \<open>parseScenarioFile\<close> throws on the scenario file, or the parsed
  scenario has validation errors, \<open>runTestRunner\<close> returns (it does not throw) an output
  with \<open>success = false\<close> whose result has status \<open>failed\<close>, no steps, duration 0,
  the error message as the only console error and no network errors; so the result has
  no step with status \<open>failed\<close>.
\<close>

theorem runTestRunner_unparsable:
  "(fst (parseScenarioFile E (io_join E (ri_scenariosDir input) (ri_scenarioFile input)) w) = Inl err
      \<longrightarrow> (\<exists>out w'. runTestRunner E input w = (Inr out, w')
            \<and> \<not> ro_success out
            \<and> tr_status (ro_result out) = test_failed
            \<and> tr_steps (ro_result out) = []
            \<and> tr_duration (ro_result out) = 0
            \<and> tr_consoleErrors (ro_result out) = [message err]
            \<and> tr_networkErrors (ro_result out) = []
            \<and> \<not> (\<exists>s \<in> set (tr_steps (ro_result out)). sr_status s = failed)))
   \<and> (fst (parseScenarioFile E (io_join E (ri_scenariosDir input) (ri_scenarioFile input)) w) = Inr scenario
        \<and> validateScenario scenario \<noteq> []
      \<longrightarrow> (\<exists>out w'. runTestRunner E input w = (Inr out, w')
            \<and> \<not> ro_success out
            \<and> tr_status (ro_result out) = test_failed
            \<and> tr_steps (ro_result out) = []
            \<and> tr_duration (ro_result out) = 0
            \<and> tr_consoleErrors (ro_result out) = [validationMessage (validateScenario scenario)]
            \<and> tr_networkErrors (ro_result out) = []
            \<and> \<not> (\<exists>s \<in> set (tr_steps (ro_result out)). sr_status s = failed)))"
  by (auto simp: runTestRunner_def createFailedResult_def Let_def split: prod.splits sum.splits)


theorem runTestRunner_unparsable_witness:
  "fst (parseScenarioFile (demoEnv [(''a.yaml'', Some noStepsDoc)] 0)
          (io_join (demoEnv [(''a.yaml'', Some noStepsDoc)] 0) ''e2e/scenarios'' ''a.yaml'') freshWorld)
     = Inl (cannotRead ''undefined'' ''map'')
   \<and> (\<exists>out w'. runTestRunner (demoEnv [(''a.yaml'', Some noStepsDoc)] 0) (demoInput ''a.yaml'') freshWorld
                   = (Inr out, w')
        \<and> \<not> ro_success out
        \<and> tr_status (ro_result out) = test_failed
        \<and> tr_steps (ro_result out) = []
        \<and> tr_consoleErrors (ro_result out) = [message (cannotRead ''undefined'' ''map'')])
   \<and> (\<exists>scenario. fst (parseScenarioFile (demoEnv [(''a.yaml'', Some noNameDoc)] 0)
          (io_join (demoEnv [(''a.yaml'', Some noNameDoc)] 0) ''e2e/scenarios'' ''a.yaml'') freshWorld)
        = Inr scenario
        \<and> validateScenario scenario = [''Scenario must have a name'']
        \<and> (\<exists>out w'. runTestRunner (demoEnv [(''a.yaml'', Some noNameDoc)] 0) (demoInput ''a.yaml'') freshWorld
                   = (Inr out, w')
             \<and> \<not> ro_success out
             \<and> tr_status (ro_result out) = test_failed
             \<and> tr_steps (ro_result out) = []
             \<and> tr_consoleErrors (ro_result out)
                 = [validationMessage [''Scenario must have a name'']]))"
proof -
  let ?E1 = "demoEnv [(''a.yaml'', Some noStepsDoc)] 0"
  let ?E2 = "demoEnv [(''a.yaml'', Some noNameDoc)] 0"
  have p1: "fst (parseScenarioFile ?E1 (io_join ?E1 (ri_scenariosDir (demoInput ''a.yaml''))
                   (ri_scenarioFile (demoInput ''a.yaml''))) freshWorld)
              = Inl (cannotRead ''undefined'' ''map'')"
    by (simp add: parseScenarioFile_def demoEnv_def demoInput_def basename_def noStepsDoc_def
          wellFormedDoc_def)
  obtain scenario where p2: "fst (parseScenarioFile ?E2 (io_join ?E2 (ri_scenariosDir (demoInput ''a.yaml''))
                   (ri_scenarioFile (demoInput ''a.yaml''))) freshWorld) = Inr scenario"
    and v2: "validateScenario scenario = [''Scenario must have a name'']"
    by (simp add: parseScenarioFile_def demoEnv_def demoInput_def basename_def noNameDoc_def
          wellFormedDoc_def parseStep_def toLowerCase_def lowerChar_def VALID_ACTIONS_def
          parseExpectation.simps EXPECTATION_TYPES_def trim_def isSpace_def orEmpty_def
          validateScenario_def Let_def)
  from runTestRunner_unparsable [of ?E1 "demoInput ''a.yaml''" freshWorld
         "cannotRead ''undefined'' ''map''" scenario] p1
  have a: "\<exists>out w'. runTestRunner ?E1 (demoInput ''a.yaml'') freshWorld = (Inr out, w')
        \<and> \<not> ro_success out
        \<and> tr_status (ro_result out) = test_failed
        \<and> tr_steps (ro_result out) = []
        \<and> tr_consoleErrors (ro_result out) = [message (cannotRead ''undefined'' ''map'')]"
    by blast
  from runTestRunner_unparsable [of ?E2 "demoInput ''a.yaml''" freshWorld
         "cannotRead ''undefined'' ''map''" scenario] p2 v2
  have b: "\<exists>out w'. runTestRunner ?E2 (demoInput ''a.yaml'') freshWorld = (Inr out, w')
        \<and> \<not> ro_success out
        \<and> tr_status (ro_result out) = test_failed
        \<and> tr_steps (ro_result out) = []
        \<and> tr_consoleErrors (ro_result out) = [validationMessage [''Scenario must have a name'']]"
    by force
  from p1 p2 v2 a b show ?thesis
    by (simp add: demoInput_def)
qed

section \<open>Console errors in the analysis\<close>

text \<open>
  Claim C6, as stated, fails: a console error that does not contain the text \<open>Error\<close>
  (here the browser's message for a missing resource) leaves the classification to the
  failed step's own message, and the analysis is \<open>selector\<close>, not \<open>logic\<close>.
\<close>

theorem console_error_without_Error_counterexample:
  "tr_consoleErrors (demoFailedResult
       [''Failed to load resource: the server responded with a status of 404 (Not Found)'']) \<noteq> []
   \<and> fst (analyzeError demoFailedStep (demoFailedResult
       [''Failed to load resource: the server responded with a status of 404 (Not Found)''])) = selector
   \<and> (case fst (runAnalyzer (demoEnv [] 0) (demoAnalyzerInput
       [''Failed to load resource: the server responded with a status of 404 (Not Found)'']) freshWorld) of
         Inr out \<Rightarrow> an_category (ao_analysis out) = selector
       | Inl e \<Rightarrow> False)"
  by code_simp

text \<open>
  Claim C6, amended.  When some captured console error contains the text \<open>Error\<close>,
  \<open>analyzeError\<close> (and so the analysis \<open>runAnalyzer\<close> returns) has category
  \<open>logic\<close> and the root cause \<open>JavaScript error: \<close> followed by the first 200
  characters of the first such console error, whatever the failed step's message and the
  network errors are.  Console errors without that text do not take part in the
  classification.
\<close>

theorem analyzeError_console_Error_first:
  "(find (\<lambda>e. includesStr e ''Error'') (tr_consoleErrors testResult) = Some jsError \<longrightarrow>
      analyzeError failedStep testResult = (logic, ''JavaScript error: '' @ take 200 jsError))
   \<and> (find (\<lambda>e. includesStr e ''Error'') (tr_consoleErrors testResult) = None \<longrightarrow>
      analyzeError failedStep testResult
        = analyzeError failedStep (testResult\<lparr>tr_consoleErrors := []\<rparr>))
   \<and> (find (\<lambda>e. includesStr e ''Error'') (tr_consoleErrors (ai_testResult input)) = Some jsError
        \<and> fst (runAnalyzer E input w) = Inr out \<longrightarrow>
      an_category (ao_analysis out) = logic
      \<and> an_rootCause (ao_analysis out) = ''JavaScript error: '' @ take 200 jsError)"
proof (intro conjI impI)
  assume "find (\<lambda>e. includesStr e ''Error'') (tr_consoleErrors testResult) = Some jsError"
  then show "analyzeError failedStep testResult = (logic, ''JavaScript error: '' @ take 200 jsError)"
    by (rule analyzeError_Some)
next
  assume "find (\<lambda>e. includesStr e ''Error'') (tr_consoleErrors testResult) = None"
  then show "analyzeError failedStep testResult
        = analyzeError failedStep (testResult\<lparr>tr_consoleErrors := []\<rparr>)"
    by (rule analyzeError_None)
next
  assume a: "find (\<lambda>e. includesStr e ''Error'') (tr_consoleErrors (ai_testResult input)) = Some jsError
        \<and> fst (runAnalyzer E input w) = Inr out"
  then obtain fs where
    "an_category (ao_analysis out) = fst (analyzeError fs (ai_testResult input))"
    "an_rootCause (ao_analysis out) = snd (analyzeError fs (ai_testResult input))"
    using runAnalyzer_Inr [of E input w out] by blast
  moreover from a have "analyzeError fs (ai_testResult input)
      = (logic, ''JavaScript error: '' @ take 200 jsError)"
    by (intro analyzeError_Some) simp
  ultimately show "an_category (ao_analysis out) = logic"
    and "an_rootCause (ao_analysis out) = ''JavaScript error: '' @ take 200 jsError"
    by simp_all
qed

theorem analyzeError_console_Error_first_witness:
  "find (\<lambda>e. includesStr e ''Error'')
       (tr_consoleErrors (demoFailedResult [''Uncaught TypeError: x is undefined'']))
     = Some ''Uncaught TypeError: x is undefined''
   \<and> fst (matchPatterns FAILURE_PATTERNS (the (sr_error demoFailedStep))) = selector
   \<and> analyzeError demoFailedStep (demoFailedResult [''Uncaught TypeError: x is undefined''])
     = (logic, ''JavaScript error: Uncaught TypeError: x is undefined'')
   \<and> find (\<lambda>e. includesStr e ''Error'')
       (tr_consoleErrors (demoFailedResult [''Failed to load resource: net::ERR_FAILED''])) = None
   \<and> analyzeError demoFailedStep (demoFailedResult [''Failed to load resource: net::ERR_FAILED''])
     = analyzeError demoFailedStep (demoFailedResult [])
   \<and> (\<exists>out. fst (runAnalyzer (demoEnv [] 0) (demoAnalyzerInput [''Uncaught TypeError: x is undefined''])
                    freshWorld) = Inr out
          \<and> an_category (ao_analysis out) = logic
          \<and> an_rootCause (ao_analysis out) = ''JavaScript error: Uncaught TypeError: x is undefined'')"
proof -
  let ?R = "demoFailedResult [''Uncaught TypeError: x is undefined'']"
  let ?Q = "demoFailedResult [''Failed to load resource: net::ERR_FAILED'']"
  let ?I = "demoAnalyzerInput [''Uncaught TypeError: x is undefined'']"
  have f: "find (\<lambda>e. includesStr e ''Error'') (tr_consoleErrors ?R)
             = Some ''Uncaught TypeError: x is undefined''"
    by (simp add: demoFailedResult_def)
  have g: "find (\<lambda>e. includesStr e ''Error'') (tr_consoleErrors ?Q) = None"
    by (simp add: demoFailedResult_def)
  have m: "fst (matchPatterns FAILURE_PATTERNS (the (sr_error demoFailedStep))) = selector"
    by code_simp
  have q: "?Q\<lparr>tr_consoleErrors := []\<rparr> = demoFailedResult []"
    by (simp add: demoFailedResult_def)
  have "case fst (runAnalyzer (demoEnv [] 0) ?I freshWorld) of Inr out \<Rightarrow> True | Inl e \<Rightarrow> False"
    by code_simp
  then obtain out where out: "fst (runAnalyzer (demoEnv [] 0) ?I freshWorld) = Inr out"
    by (auto split: sum.splits)
  have fi: "find (\<lambda>e. includesStr e ''Error'') (tr_consoleErrors (ai_testResult ?I))
             = Some ''Uncaught TypeError: x is undefined''"
    using f by (simp add: demoAnalyzerInput_def)
  note t1 = analyzeError_console_Error_first
      [of ?R "''Uncaught TypeError: x is undefined''" demoFailedStep ?I "demoEnv [] 0" freshWorld out]
  note t2 = analyzeError_console_Error_first
      [of ?Q "''Uncaught TypeError: x is undefined''" demoFailedStep ?I "demoEnv [] 0" freshWorld out]
  from t1 f fi out have
    "analyzeError demoFailedStep ?R = (logic, ''JavaScript error: Uncaught TypeError: x is undefined'')"
    and "an_category (ao_analysis out) = logic"
    and "an_rootCause (ao_analysis out) = ''JavaScript error: Uncaught TypeError: x is undefined''"
    by simp_all
  moreover from t2 g q have "analyzeError demoFailedStep ?Q = analyzeError demoFailedStep (demoFailedResult [])"
    by simp
  ultimately show ?thesis
    using f g m out by simp
qed

section \<open>The final report groups results by scenario file\<close>

lemma mapGet_None_iff: "mapGet m k = None \<longleftrightarrow> k \<notin> fst ` set m"
  by (simp add: mapGet_def map_of_eq_None_iff)

lemma mapSet_fresh: "k \<notin> fst ` set m \<Longrightarrow> mapSet k v m = m @ [(k, v)]"
  by (induction m) auto

lemma mapModify_keys: "map fst (mapModify k f m) = map fst m"
  by (induction m) auto

lemma mapModify_absent: "k \<notin> fst ` set m \<Longrightarrow> mapModify k f m = m"
  by (induction m) auto

lemma mapModify_map:
  "distinct (map fst m) \<Longrightarrow> mapModify k f m = map (\<lambda>(k', v). (k', if k' = k then f v else v)) m"
proof (induction m)
  case Nil
  then show ?case by simp
next
  case (Cons p m)
  obtain k' v where p: "p = (k', v)" by (cases p)
  show ?case
  proof (cases "k' = k")
    case True
    with Cons.prems p have "k \<notin> fst ` set m" by auto
    then have "map (\<lambda>(k', v). (k', if k' = k then f v else v)) m = m"
      by (induction m) auto
    with True p show ?thesis by simp
  next
    case False
    with Cons p show ?thesis by simp
  qed
qed

lemma filter_absent: "k \<notin> f ` set xs \<Longrightarrow> filter (\<lambda>r. f r = k) xs = []"
  by (induction xs) auto

lemma grouped_step:
  assumes "grouped seen m"
  shows "grouped (seen @ [result]) (groupResults [result] m)"
proof -
  let ?k = "tr_scenarioFile result"
  let ?init = "\<lparr>rp_name = tr_scenario result, rp_file = tr_scenarioFile result,
                  rp_status = test_failed, rp_iterations = 0,
                  rp_results = [], rp_analyses = [], rp_fixes = []\<rparr>"
  let ?f = "\<lambda>report. report
                 \<lparr>rp_results := rp_results report @ [result],
                  rp_iterations := rp_iterations report + 1,
                  rp_status := (if tr_status result = test_passed then test_passed
                                else rp_status report)\<rparr>"
  define m1 where "m1 = (if mapGet m ?k = None then mapSet ?k ?init m else m)"
  have g: "groupResults [result] m = mapModify ?k ?f m1"
    by (simp add: m1_def Let_def)
  from assms have ge: "groupedEntries seen m" and keys: "set (map fst m) = tr_scenarioFile ` set seen"
    by (simp_all add: grouped_def)
  have m1_keys: "set (map fst m1) = insert ?k (tr_scenarioFile ` set seen)"
    using keys by (auto simp: m1_def mapGet_None_iff mapSet_fresh)
  have m1_entries: "groupedEntries seen m1"
  proof (cases "?k \<in> fst ` set m")
    case True
    with ge show ?thesis by (simp add: m1_def mapGet_None_iff)
  next
    case False
    then have eq: "m1 = m @ [(?k, ?init)]"
      by (simp add: m1_def mapGet_None_iff mapSet_fresh)
    from False keys have "?k \<notin> tr_scenarioFile ` set seen" by auto
    then have "filter (\<lambda>r. tr_scenarioFile r = ?k) seen = []"
      by (rule filter_absent)
    with ge False show ?thesis
      unfolding eq groupedEntries_def by (auto simp: filter_empty_conv)
  qed
  then have d: "distinct (map fst m1)"
    by (simp add: groupedEntries_def)
  have mm: "mapModify ?k ?f m1 = map (\<lambda>(k', v). (k', if k' = ?k then ?f v else v)) m1"
    using d by (rule mapModify_map)
  have "groupedEntries (seen @ [result]) (mapModify ?k ?f m1)"
    using m1_entries d unfolding mm groupedEntries_def
    by (auto simp: comp_def case_prod_beta)
  moreover have "set (map fst (mapModify ?k ?f m1)) = tr_scenarioFile ` set (seen @ [result])"
    using m1_keys by (simp add: mapModify_keys)
  ultimately show ?thesis
    unfolding grouped_def g by blast
qed

lemma grouped_groupResults:
  "grouped seen m \<Longrightarrow> grouped (seen @ results) (groupResults results m)"
proof (induction results arbitrary: seen m)
  case Nil
  then show ?case by simp
next
  case (Cons result results)
  from grouped_step [OF Cons.prems, of result]
  have "grouped (seen @ [result]) (groupResults [result] m)" .
  from Cons.IH [OF this] show ?case
    by (simp add: Let_def)
qed


lemma mapModify_groupedEntries:
  assumes "groupedEntries seen m"
    and "\<And>v. rp_file (f v) = rp_file v \<and> rp_results (f v) = rp_results v
           \<and> rp_iterations (f v) = rp_iterations v \<and> rp_status (f v) = rp_status v"
  shows "groupedEntries seen (mapModify k f m)"
proof -
  from assms(1) have "distinct (map fst m)"
    by (simp add: groupedEntries_def)
  then have "mapModify k f m = map (\<lambda>(k', v). (k', if k' = k then f v else v)) m"
    by (rule mapModify_map)
  with assms show ?thesis
    unfolding groupedEntries_def by (auto simp: comp_def case_prod_beta)
qed

lemma grouped_addAnalyses: "grouped seen m \<Longrightarrow> grouped seen (addAnalyses analyses m)"
proof (induction analyses arbitrary: m)
  case Nil
  then show ?case by simp
next
  case (Cons a analyses)
  have "grouped seen (mapModify (an_scenarioFile a)
          (\<lambda>report. report\<lparr>rp_analyses := rp_analyses report @ [a]\<rparr>) m)"
    using Cons.prems unfolding grouped_def
    by (simp add: mapModify_keys mapModify_groupedEntries)
  then show ?case
    by (simp add: Cons.IH)
qed

lemma grouped_addFixes: "grouped seen m \<Longrightarrow> grouped seen (addFixes fs m)"
proof (induction fs arbitrary: m)
  case Nil
  then show ?case by simp
next
  case (Cons a fs)
  have "grouped seen (mapModify (an_scenarioFile (fx_analysis a))
          (\<lambda>report. report\<lparr>rp_fixes := rp_fixes report @ [a]\<rparr>) m)"
    using Cons.prems unfolding grouped_def
    by (simp add: mapModify_keys mapModify_groupedEntries)
  then show ?case
    by (simp add: Cons.IH)
qed

lemma grouped_buildFinalReport:
  "grouped (os_results st)
     (addFixes (os_fixes st) (addAnalyses (os_analyses st) (groupResults (os_results st) [])))"
proof -
  have "grouped [] []"
    by (simp add: grouped_def groupedEntries_def)
  from grouped_groupResults [OF this, of "os_results st"]
  show ?thesis
    by (simp add: grouped_addAnalyses grouped_addFixes)
qed

lemma generateFinalReport_Inr:
  "fst (generateFinalReport E st outputDir w) = Inr report
     \<Longrightarrow> report = buildFinalReport E st (io_toISOString E w)"
  by (auto simp: generateFinalReport_def Let_def split: prod.splits sum.splits)

text \<open>
  Claim C8.  \<open>generateFinalReport\<close> has one scenario report for each scenario file among
  the results of the state, holding the results of that file in order, and the report's
  status is \<open>passed\<close> if and only if some result of that file has status \<open>passed\<close>,
  wherever it stands among the attempts; otherwise it is \<open>failed\<close>.
\<close>

theorem rolled_up_status_any_passed:
  assumes "fst (generateFinalReport E st outputDir w) = Inr report"
  shows "distinct (map rp_file (fr_scenarios report))
     \<and> set (map rp_file (fr_scenarios report)) = tr_scenarioFile ` set (os_results st)
     \<and> (\<forall>s \<in> set (fr_scenarios report).
           rp_results s = filter (\<lambda>r. tr_scenarioFile r = rp_file s) (os_results st)
           \<and> (rp_status s = test_passed
                \<longleftrightarrow> (\<exists>r \<in> set (os_results st). tr_scenarioFile r = rp_file s \<and> tr_status r = test_passed))
           \<and> (rp_status s = test_failed
                \<longleftrightarrow> \<not> (\<exists>r \<in> set (os_results st). tr_scenarioFile r = rp_file s \<and> tr_status r = test_passed)))"
proof -
  let ?m = "addFixes (os_fixes st) (addAnalyses (os_analyses st) (groupResults (os_results st) []))"
  have sc: "fr_scenarios report = map snd ?m"
    using generateFinalReport_Inr [OF assms] by (simp add: buildFinalReport_def Let_def)
  have g: "grouped (os_results st) ?m"
    by (rule grouped_buildFinalReport)
  then have files: "map rp_file (map snd ?m) = map fst ?m"
    unfolding grouped_def groupedEntries_def by (auto simp: case_prod_beta)
  have st: "rp_status s = test_failed \<longleftrightarrow> rp_status s \<noteq> test_passed" for s
    by (cases "rp_status s") auto
  from g show ?thesis
    unfolding sc files st grouped_def groupedEntries_def
    by (auto simp: case_prod_beta)
qed

theorem rolled_up_status_any_passed_witness:
  "\<exists>report. fst (generateFinalReport (demoEnv [] 0) demoState ''e2e/reports'' freshWorld) = Inr report
      \<and> map rp_file (fr_scenarios report) = [''a.yaml'', ''b.yaml'']
      \<and> map rp_status (fr_scenarios report) = [test_passed, test_failed]"
proof -
  have "case fst (generateFinalReport (demoEnv [] 0) demoState ''e2e/reports'' freshWorld) of
          Inr report \<Rightarrow> map rp_file (fr_scenarios report) = [''a.yaml'', ''b.yaml'']
        | Inl e \<Rightarrow> False"
    by code_simp
  then obtain report where
    run: "fst (generateFinalReport (demoEnv [] 0) demoState ''e2e/reports'' freshWorld) = Inr report"
    and files: "map rp_file (fr_scenarios report) = [''a.yaml'', ''b.yaml'']"
    by (auto split: sum.splits)
  from files obtain s1 s2 where s: "fr_scenarios report = [s1, s2]"
    "rp_file s1 = ''a.yaml''" "rp_file s2 = ''b.yaml''"
    by auto
  from rolled_up_status_any_passed [OF run] s
  have "rp_status s1 = test_passed" and "rp_status s2 = test_failed"
    by (simp_all add: demoState_def demoResult_def)
  with run files s show ?thesis
    by simp
qed

section \<open>The bound on the attempts of a scenario\<close>

text \<open>
  Claim C3, as stated, fails.  \<open>maxIterations\<close> is a number, and the loop counts in whole
  steps until the counter is no longer below it.  With \<open>maxIterations\<close> 1.5 and a
  scenario that never passes, the orchestrator makes two attempts of \<open>a.yaml\<close>, which is
  more than \<open>maxIterations\<close>, and ends with status \<open>max_retries\<close>.
\<close>

theorem attempts_exceed_fractional_maxIterations_counterexample:
  "\<exists>out. fst (runOrchestrator (demoEnv [(''a.yaml'', Some wellFormedDoc)] 9)
                  (demoOrchestratorInput (3 / 2) False) freshWorld) = Inr out
      \<and> 1 \<le> maxIterations (cfg_orchestrator (oi_config (demoOrchestratorInput (3 / 2) False)))
      \<and> length (filter (\<lambda>r. tr_scenarioFile r = ''a.yaml'') (os_results (oo_state out))) = 2
      \<and> maxIterations (cfg_orchestrator (oi_config (demoOrchestratorInput (3 / 2) False)))
           < real (length (filter (\<lambda>r. tr_scenarioFile r = ''a.yaml'') (os_results (oo_state out))))
      \<and> os_status (oo_state out) = max_retries"
proof -
  let ?E = "demoEnv [(''a.yaml'', Some wellFormedDoc)] 9"
  let ?I = "demoOrchestratorInput (3 / 2) False"
  have "(1::real) < 3 / 2" "(3::real) / 2 \<le> 2"
    by simp_all
  from demo_run_exhausted [OF this] obtain out where
    run: "fst (runOrchestrator ?E ?I freshWorld) = Inr out"
    and rs: "map (\<lambda>r. (tr_scenarioFile r, tr_status r)) (os_results (oo_state out))
         = [(''a.yaml'', test_failed), (''a.yaml'', test_failed)]"
    and s: "os_status (oo_state out) = max_retries"
    by force
  from rs obtain r1 r2 where r: "os_results (oo_state out) = [r1, r2]"
    "tr_scenarioFile r1 = ''a.yaml''" "tr_scenarioFile r2 = ''a.yaml''"
    by auto
  then have c: "length (filter (\<lambda>r. tr_scenarioFile r = ''a.yaml'') (os_results (oo_state out))) = 2"
    by simp
  have n: "maxIterations (cfg_orchestrator (oi_config ?I)) = 3 / 2"
    by (simp add: demo_config)
  from run c s show ?thesis
    by (simp add: n)
qed

text \<open>
  Claim C3, amended.  When \<open>maxIterations\<close> is positive, a run of the orchestrator that
  returns holds at most \<open>maxIterations\<close> rounded up to a whole number results for each
  scenario file (one per attempt), hence at most \<open>maxIterations\<close> when that is a whole
  number; and if some scenario file has that many results, none of which passed, the
  final status is \<open>max_retries\<close>, which is not \<open>failed\<close>.
\<close>

theorem attempts_bounded_by_ceiling_of_maxIterations:
  assumes "fst (runOrchestrator E input w) = Inr out"
    and "0 < maxIterations (cfg_orchestrator (oi_config input))"
  shows "(\<forall>f. int (length (filter (\<lambda>r. tr_scenarioFile r = f) (os_results (oo_state out))))
             \<le> \<lceil>maxIterations (cfg_orchestrator (oi_config input))\<rceil>)
     \<and> (maxIterations (cfg_orchestrator (oi_config input)) \<in> \<int> \<longrightarrow>
          (\<forall>f. real (length (filter (\<lambda>r. tr_scenarioFile r = f) (os_results (oo_state out))))
             \<le> maxIterations (cfg_orchestrator (oi_config input))))
     \<and> ((\<exists>f. int (length (filter (\<lambda>r. tr_scenarioFile r = f) (os_results (oo_state out))))
               = \<lceil>maxIterations (cfg_orchestrator (oi_config input))\<rceil>
             \<and> \<not> (\<exists>r \<in> set (os_results (oo_state out)).
                     tr_scenarioFile r = f \<and> tr_status r = test_passed))
          \<longrightarrow> os_status (oo_state out) = max_retries \<and> os_status (oo_state out) \<noteq> orch_failed)"
proof -
  let ?n = "attemptBound input"
  let ?rs = "os_results (oo_state out)"
  from assms(2) have n1: "1 \<le> ?n"
    by (simp add: attemptBound_def)
  from runOrchestrator_Inr [OF assms(1)]
  consider (none) "?rs = []"
    | (batch) files st0 st where "batchPost input files st0 st ?rs"
        "os_results st = ?rs" "os_status (oo_state out) = finalStatus st"
    by blast
  then have main: "(\<forall>f. int (length (filter (\<lambda>r. tr_scenarioFile r = f) ?rs)) \<le> ?n)
     \<and> ((\<exists>f. int (length (filter (\<lambda>r. tr_scenarioFile r = f) ?rs)) = ?n
             \<and> \<not> (\<exists>r \<in> set ?rs. tr_scenarioFile r = f \<and> tr_status r = test_passed))
          \<longrightarrow> os_status (oo_state out) = max_retries \<and> os_status (oo_state out) \<noteq> orch_failed)"
  proof cases
    case none
    with n1 show ?thesis by simp
  next
    case batch
    from batch(1) have bound: "\<And>f. length (filter (\<lambda>r. tr_scenarioFile r = f) ?rs) \<le> nat ?n"
      and full: "1 \<le> ?n \<and> (\<exists>f. length (filter (\<lambda>r. tr_scenarioFile r = f) ?rs) = nat ?n
                          \<and> (\<forall>r \<in> set ?rs. tr_scenarioFile r = f \<longrightarrow> tr_status r = test_failed))
            \<longrightarrow> os_status st = max_retries"
      by (simp_all add: batchPost_def Let_def)
    have a: "int (length (filter (\<lambda>r. tr_scenarioFile r = f) ?rs)) \<le> ?n" for f
      using bound [of f] n1 by linarith
    have b: "os_status (oo_state out) = max_retries"
      if f: "int (length (filter (\<lambda>r. tr_scenarioFile r = f) ?rs)) = ?n"
        and np: "\<not> (\<exists>r \<in> set ?rs. tr_scenarioFile r = f \<and> tr_status r = test_passed)" for f
    proof -
      from f n1 have l: "length (filter (\<lambda>r. tr_scenarioFile r = f) ?rs) = nat ?n"
        by linarith
      have allf: "\<forall>r \<in> set ?rs. tr_scenarioFile r = f \<longrightarrow> tr_status r = test_failed"
      proof (intro ballI impI)
        fix r assume "r \<in> set ?rs" "tr_scenarioFile r = f"
        with np show "tr_status r = test_failed"
          by (cases "tr_status r") auto
      qed
      with l full n1 have s: "os_status st = max_retries" by blast
      from l n1 have "filter (\<lambda>r. tr_scenarioFile r = f) ?rs \<noteq> []"
        by auto
      then obtain r where "r \<in> set ?rs" "tr_scenarioFile r = f"
        by (metis (mono_tags, lifting) filter_False)
      with allf have "\<exists>r \<in> set (os_results st). tr_status r = test_failed"
        using batch(2) by auto
      from finalStatus_failed_result [OF this] s batch(3) show ?thesis
        by simp
    qed
    from a b show ?thesis by auto
  qed
  have whole: "real (length (filter (\<lambda>r. tr_scenarioFile r = f) ?rs))
                 \<le> maxIterations (cfg_orchestrator (oi_config input))"
    if z: "maxIterations (cfg_orchestrator (oi_config input)) \<in> \<int>" for f
  proof -
    from z obtain k where k: "maxIterations (cfg_orchestrator (oi_config input)) = of_int k"
      by (auto elim: Ints_cases)
    from main have "int (length (filter (\<lambda>r. tr_scenarioFile r = f) ?rs)) \<le> ?n"
      by blast
    with k have "int (length (filter (\<lambda>r. tr_scenarioFile r = f) ?rs)) \<le> k"
      by (simp add: attemptBound_def)
    then have "real_of_int (int (length (filter (\<lambda>r. tr_scenarioFile r = f) ?rs))) \<le> real_of_int k"
      by (simp only: of_int_le_iff)
    with k show ?thesis by simp
  qed
  from main whole show ?thesis
    unfolding attemptBound_def by blast
qed

theorem attempts_bounded_by_ceiling_of_maxIterations_witness:
  "\<exists>out. fst (runOrchestrator (demoEnv [(''a.yaml'', Some wellFormedDoc)] 9)
                  (demoOrchestratorInput 2 False) freshWorld) = Inr out
      \<and> 0 < maxIterations (cfg_orchestrator (oi_config (demoOrchestratorInput 2 False)))
      \<and> maxIterations (cfg_orchestrator (oi_config (demoOrchestratorInput 2 False))) \<in> \<int>
      \<and> int (length (filter (\<lambda>r. tr_scenarioFile r = ''a.yaml'') (os_results (oo_state out)))) = 2
      \<and> os_status (oo_state out) = max_retries"
proof -
  let ?E = "demoEnv [(''a.yaml'', Some wellFormedDoc)] 9"
  let ?I = "demoOrchestratorInput 2 False"
  have "(1::real) < 2" "(2::real) \<le> 2"
    by simp_all
  from demo_run_exhausted [OF this] obtain out where
    run: "fst (runOrchestrator ?E ?I freshWorld) = Inr out"
    and rs: "map (\<lambda>r. (tr_scenarioFile r, tr_status r)) (os_results (oo_state out))
         = [(''a.yaml'', test_failed), (''a.yaml'', test_failed)]"
    by force
  have n: "0 < maxIterations (cfg_orchestrator (oi_config ?I))"
    "maxIterations (cfg_orchestrator (oi_config ?I)) = 2"
    "maxIterations (cfg_orchestrator (oi_config ?I)) \<in> \<int>"
    by (simp_all add: demo_config)
  from rs obtain r1 r2 where r: "os_results (oo_state out) = [r1, r2]"
    "tr_scenarioFile r1 = ''a.yaml''" "tr_status r1 = test_failed"
    "tr_scenarioFile r2 = ''a.yaml''" "tr_status r2 = test_failed"
    by auto
  then have c: "int (length (filter (\<lambda>r. tr_scenarioFile r = ''a.yaml'') (os_results (oo_state out)))) = 2"
    and np: "\<not> (\<exists>r \<in> set (os_results (oo_state out)).
                 tr_scenarioFile r = ''a.yaml'' \<and> tr_status r = test_passed)"
    by simp_all
  from attempts_bounded_by_ceiling_of_maxIterations [OF run n(1)] c np n(2)
  have "os_status (oo_state out) = max_retries"
    by auto
  with run n c show ?thesis
    by blast
qed

section \<open>The flag \<open>stopOnFirstFailure\<close>\<close>

lemma analyzeAndFix_once:
  assumes "analyzeAndFix E input r (st, pr) w = (Inr (st', pr'), w')"
  shows "analyzedOnce E input r st pr st' pr'"
proof -
  let ?ai = "\<lparr>ai_testResult = r, ai_projectRoot = oi_projectRoot input,
              ai_reportsDir = oi_reportsDir input\<rparr>"
  obtain a w1 where ra: "runAnalyzer E ?ai w = (a, w1)"
    by (cases "runAnalyzer E ?ai w")
  from assms ra obtain ar where a: "a = Inr ar"
    by (cases a) (simp_all add: analyzeAndFix.simps Let_def)
  obtain b w2 where gp: "generateCodingAgentPrompt E (ao_analysis ar) (oi_projectRoot input) w1 = (b, w2)"
    by (cases "generateCodingAgentPrompt E (ao_analysis ar) (oi_projectRoot input) w1")
  from assms ra a gp obtain prompt where b: "b = Inr prompt"
    by (cases b) (simp_all add: analyzeAndFix.simps Let_def)
  let ?ci = "\<lparr>ci_analysis = ao_analysis ar, ci_projectRoot = oi_projectRoot input,
              ci_reportsDir = oi_reportsDir input, ci_config = cfg_codingAgent (oi_config input)\<rparr>"
  have f1: "fst (runAnalyzer E ?ai w) = Inr ar"
    using ra a by simp
  have f2: "fst (generateCodingAgentPrompt E (ao_analysis ar) (oi_projectRoot input) w1) = Inr prompt"
    using gp b by simp
  show ?thesis
  proof (cases "autoApply (cfg_codingAgent (oi_config input))")
    case False
    with assms ra a gp b
    have "os_analyses st' = os_analyses st @ [ao_analysis ar]" "pr' = pr @ [prompt]"
      "os_fixes st' = os_fixes st"
      by (auto simp: analyzeAndFix.simps Let_def)
    with f1 f2 False show ?thesis
      unfolding analyzedOnce_def by auto
  next
    case True
    obtain c w3 where rc: "runCodingAgent E ?ci w2 = (c, w3)"
      by (cases "runCodingAgent E ?ci w2")
    from assms ra a gp b True rc obtain fr where c: "c = Inr fr"
      by (cases c) (simp_all add: analyzeAndFix.simps Let_def)
    from assms ra a gp b True rc c
    have s: "os_analyses st' = os_analyses st @ [ao_analysis ar]" "pr' = pr @ [prompt]"
      "os_fixes st' = os_fixes st @ [co_fix fr]"
      by (auto simp: analyzeAndFix.simps Let_def)
    have f3: "fst (runCodingAgent E ?ci w2) = Inr fr"
      using rc c by simp
    from f3 s(3) have "\<exists>wf fr. fst (runCodingAgent E ?ci wf) = Inr fr
                \<and> os_fixes st' = os_fixes st @ [co_fix fr]"
      by blast
    with f1 f2 s(1,2) True show ?thesis
      unfolding analyzedOnce_def by auto
  qed
qed

lemma analyzedOnce_from:
  "os_analyses st1 = os_analyses st \<Longrightarrow> os_fixes st1 = os_fixes st
     \<Longrightarrow> analyzedOnce E input r st1 pr st' pr' = analyzedOnce E input r st pr st' pr'"
  by (simp add: analyzedOnce_def cong: if_cong)

lemma analyzedOnce_to:
  "os_analyses st2 = os_analyses st' \<Longrightarrow> os_fixes st2 = os_fixes st'
     \<Longrightarrow> analyzedOnce E input r st pr st2 pr' = analyzedOnce E input r st pr st' pr'"
  by (simp add: analyzedOnce_def cong: if_cong)

text \<open>One scenario under \<open>stopOnFirstFailure\<close>: at most one attempt.\<close>

lemma attempts_stop:
  assumes "attempts E input f (False, 0, st, pr) w = (Inr (p', i', st', pr'), w')"
    and "stopOnFirstFailure (cfg_orchestrator (oi_config input))"
  shows "(attemptBound input \<le> 0 \<and> \<not> p' \<and> i' = 0 \<and> st' = st \<and> pr' = pr)
     \<or> (0 < attemptBound input \<and> i' = 1
          \<and> (\<exists>r. tr_scenarioFile r = f \<and> os_results st' = os_results st @ [r]
                \<and> (p' \<longleftrightarrow> tr_status r = test_passed)
                \<and> (\<not> p' \<longrightarrow> tr_status r = test_failed)
                \<and> (if \<not> p' \<and> 1 < attemptBound input
                    then analyzedOnce E input r st pr st' pr'
                    else os_analyses st' = os_analyses st \<and> os_fixes st' = os_fixes st
                           \<and> pr' = pr)))"
proof (cases "0 < attemptBound input")
  case False
  with assms(1) show ?thesis
    by (simp add: attempts_int)
next
  case True
  let ?inp = "\<lparr>ri_scenarioFile = f, ri_scenariosDir = oi_scenariosDir input,
                ri_screenshotDir = oi_screenshotDir input, ri_reportsDir = oi_reportsDir input,
                ri_config = cfg_testRunner (oi_config input)\<rparr>"
  obtain a w1 where t: "runTestRunner E ?inp w = (a, w1)"
    by (cases "runTestRunner E ?inp w")
  from assms(1) True t obtain out where a: "a = Inr out"
    by (cases a) (simp_all add: attempts_int Let_def)
  from runTestRunner_Inr [OF t [unfolded a]]
  have rfile: "tr_scenarioFile (ro_result out) = f"
    and succ: "ro_success out \<longleftrightarrow> tr_status (ro_result out) = test_passed"
    by simp_all
  let ?st2 = "st\<lparr>os_iteration := 1, os_results := os_results st @ [ro_result out]\<rparr>"
  have post: "i' = 1 \<and> os_results st' = os_results st @ [ro_result out]
       \<and> (p' \<longleftrightarrow> tr_status (ro_result out) = test_passed)
       \<and> (\<not> p' \<longrightarrow> tr_status (ro_result out) = test_failed)
       \<and> (if \<not> p' \<and> 1 < attemptBound input
           then analyzedOnce E input (ro_result out) st pr st' pr'
           else os_analyses st' = os_analyses st \<and> os_fixes st' = os_fixes st \<and> pr' = pr)"
  proof (cases "ro_success out")
    case s: True
    with assms(1) True t a have "p'" "i' = 1" "st' = ?st2" "pr' = pr"
      by (auto simp: attempts_int Let_def)
    with succ s show ?thesis by simp
  next
    case s: False
    with succ have failed: "tr_status (ro_result out) = test_failed"
      by (cases "tr_status (ro_result out)") auto
    show ?thesis
    proof (cases "1 < attemptBound input")
      case last: False
      with assms(1) True t a s have "\<not> p'" "i' = 1" "st' = ?st2" "pr' = pr"
        by (auto simp: attempts_int Let_def)
      with failed last show ?thesis by simp
    next
      case more: True
      obtain b w2 where af: "analyzeAndFix E input (ro_result out) (?st2, pr) w1 = (b, w2)"
        by (cases "analyzeAndFix E input (ro_result out) (?st2, pr) w1")
      from assms(1) True t a s more af obtain st3 pr1 where b: "b = Inr (st3, pr1)"
        by (cases b) (auto simp: attempts_int Let_def)
      from analyzeAndFix_Inr [OF af [unfolded b]]
      have st3: "os_results st3 = os_results st @ [ro_result out]"
        by simp
      from analyzeAndFix_once [OF af [unfolded b]]
      have once: "analyzedOnce E input (ro_result out) st pr st3 pr1"
        by (simp add: analyzedOnce_from [of ?st2 st])
      from assms True t a s more af b have "\<not> p'" "i' = 1" "st' = st3" "pr' = pr1"
        by (auto simp: attempts_int Let_def)
      with failed more st3 once show ?thesis by simp
    qed
  qed
  with True rfile show ?thesis by blast
qed


lemma processScenarios_stop:
  assumes "processScenarios E input scs (st, pr) w = (Inr (st', pr'), w')"
    and "stopOnFirstFailure (cfg_orchestrator (oi_config input))"
  shows "\<exists>new. stopBatchPost E input (map fst scs) st pr st' pr' new"
  using assms(1)
proof (induction scs arbitrary: st pr w)
  case Nil
  then have "stopBatchPost E input [] st pr st' pr' []"
    by (auto simp: stopBatchPost_def)
  then show ?case by auto
next
  case (Cons sc scs)
  let ?n = "attemptBound input"
  obtain f scenario where sc: "sc = (f, scenario)" by (cases sc)
  let ?st0 = "st\<lparr>os_currentScenario := sc_name scenario\<rparr>"
  obtain a w1 where at: "attempts E input f (False, 0, ?st0, pr) w = (a, w1)"
    by (cases "attempts E input f (False, 0, ?st0, pr) w")
  from Cons.prems sc at obtain p i st1 pr1 where a: "a = Inr (p, i, st1, pr1)"
    by (cases a) (auto simp: Let_def)
  let ?st2 = "st1\<lparr>os_status := (if i \<ge> ?n then max_retries else orch_failed)\<rparr>"
  from attempts_stop [OF at [unfolded a] assms(2)]
  consider (none) "?n \<le> 0" "\<not> p" "st1 = ?st0" "pr1 = pr"
    | (one) r where "0 < ?n" "tr_scenarioFile r = f" "os_results st1 = os_results st @ [r]"
        "p \<longleftrightarrow> tr_status r = test_passed" "\<not> p \<longrightarrow> tr_status r = test_failed"
        "if \<not> p \<and> 1 < ?n then analyzedOnce E input r ?st0 pr st1 pr1
         else os_analyses st1 = os_analyses st \<and> os_fixes st1 = os_fixes st \<and> pr1 = pr"
    by auto
  then show ?case
  proof cases
    case none
    with Cons.prems sc at a assms(2) have "st' = ?st2" "pr' = pr"
      by (auto simp: Let_def attempt_bound_le)
    with none have "stopBatchPost E input (map fst (sc # scs)) st pr st' pr' []"
      by (simp add: stopBatchPost_def)
    then show ?thesis by blast
  next
    case one
    show ?thesis
    proof (cases p)
      case False
      with Cons.prems sc at a assms(2) have st': "st' = ?st2" "pr' = pr1"
        by (auto simp: Let_def attempt_bound_le)
      from one(6) False have an: "if 1 < ?n then analyzedOnce E input r st pr st' pr'
         else os_analyses st' = os_analyses st \<and> os_fixes st' = os_fixes st \<and> pr' = pr"
        using st' analyzedOnce_from [of ?st0 st E input r pr st1 pr1]
          analyzedOnce_to [of ?st2 st1 E input r st pr pr1]
        by (simp split: if_splits)
      from one(3) st' have res: "os_results st' = os_results st @ [r]"
        by simp
      from one(5) False have rf: "tr_status r = test_failed"
        by simp
      from res rf an one(2) sc
      have "stopBatchPost E input (map fst (sc # scs)) st pr st' pr' [r]"
        by (simp add: stopBatchPost_def)
      then show ?thesis by blast
    next
      case True
      with Cons.prems sc at a
      have rec: "processScenarios E input scs (st1, pr1) w1 = (Inr (st', pr'), w')"
        by (auto simp: Let_def attempt_bound_le)
      from Cons.IH [OF rec] obtain newr where
        ih: "stopBatchPost E input (map fst scs) st1 pr1 st' pr' newr"
        by blast
      from one True have same: "os_analyses st1 = os_analyses st" "os_fixes st1 = os_fixes st"
        "pr1 = pr" and rp: "tr_status r = test_passed"
        by simp_all
      have "stopBatchPost E input (map fst (sc # scs)) st pr st' pr' (r # newr)"
        unfolding stopBatchPost_def
      proof (intro conjI)
        show "os_results st' = os_results st @ r # newr"
          using ih one(3) by (simp add: stopBatchPost_def)
        show "map tr_scenarioFile (r # newr) = take (length (r # newr)) (map fst (sc # scs))"
          using ih one(2) sc by (simp add: stopBatchPost_def)
        show "\<forall>x \<in> set (butlast (r # newr)). tr_status x = test_passed"
          using ih rp by (simp add: stopBatchPost_def)
        show "if r # newr \<noteq> [] \<and> tr_status (last (r # newr)) = test_failed \<and> 1 < ?n
              then analyzedOnce E input (last (r # newr)) st pr st' pr'
              else os_analyses st' = os_analyses st \<and> os_fixes st' = os_fixes st \<and> pr' = pr"
        proof (cases "newr = []")
          case True
          with ih same rp show ?thesis
            by (simp add: stopBatchPost_def)
        next
          case False
          from ih have c: "if newr \<noteq> [] \<and> tr_status (last newr) = test_failed \<and> 1 < ?n
              then analyzedOnce E input (last newr) st1 pr1 st' pr'
              else os_analyses st' = os_analyses st1 \<and> os_fixes st' = os_fixes st1 \<and> pr' = pr1"
            by (simp add: stopBatchPost_def)
          show ?thesis
          proof (cases "tr_status (last newr) = test_failed \<and> 1 < ?n")
            case True
            with c False have "analyzedOnce E input (last newr) st1 pr1 st' pr'"
              by simp
            with same have "analyzedOnce E input (last newr) st pr st' pr'"
              by (simp add: analyzedOnce_from [OF same(1,2)])
            with True False show ?thesis by simp
          next
            case nc: False
            with c False same show ?thesis by auto
          qed
        qed
        show "(\<forall>x \<in> set (r # newr). tr_status x = test_passed) \<and> 0 < ?n
                \<longrightarrow> length (r # newr) = length (map fst (sc # scs))"
          using ih by (simp add: stopBatchPost_def)
      qed
      then show ?thesis by blast
    qed
  qed
qed


lemma runOrchestrator_stop:
  assumes "fst (runOrchestrator E input w) = Inr out"
    and "stopOnFirstFailure (cfg_orchestrator (oi_config input))"
  shows "\<exists>scenarioMap st0 st.
       fst (loadAllScenarios E (oi_scenariosDir input)
              (snd (ensureDirectories E [oi_screenshotDir input, oi_reportsDir input] w)))
         = Inr scenarioMap
     \<and> stopBatchPost E input (map fst scenarioMap) st0 [] st (oo_codingAgentPrompts out)
          (os_results (oo_state out))
     \<and> os_analyses st0 = [] \<and> os_fixes st0 = []
     \<and> os_analyses (oo_state out) = os_analyses st \<and> os_fixes (oo_state out) = os_fixes st"
proof -
  let ?init = "\<lparr>os_scenarios = [], os_currentScenario = None, os_iteration = 0,
                os_maxIterations = maxIterations (cfg_orchestrator (oi_config input)),
                os_results = [], os_analyses = [], os_fixes = [],
                os_status = initializing, os_startTime = io_toISOString E w,
                os_endTime = None\<rparr>"
  from assms(1) obtain w1 where
    e: "ensureDirectories E [oi_screenshotDir input, oi_reportsDir input] w = (Inr (), w1)"
    by (auto simp: runOrchestrator_def Let_def split: prod.splits sum.splits simp del: ensureDirectories.simps)
  from assms(1) e obtain scenarioMap w2 where
    l: "loadAllScenarios E (oi_scenariosDir input) w1 = (Inr scenarioMap, w2)"
    by (auto simp: runOrchestrator_def Let_def split: prod.splits sum.splits simp del: ensureDirectories.simps)
  from e l have load: "fst (loadAllScenarios E (oi_scenariosDir input)
              (snd (ensureDirectories E [oi_screenshotDir input, oi_reportsDir input] w)))
         = Inr scenarioMap"
    by (simp del: ensureDirectories.simps)
  let ?st0 = "?init\<lparr>os_scenarios := map snd scenarioMap, os_status := running\<rparr>"
  have "\<exists>st. stopBatchPost E input (map fst scenarioMap) ?st0 [] st (oo_codingAgentPrompts out)
          (os_results (oo_state out))
     \<and> os_analyses (oo_state out) = os_analyses st \<and> os_fixes (oo_state out) = os_fixes st"
  proof (cases "scenarioMap = []")
    case True
    with assms(1) e l have "os_results (oo_state out) = []" "os_analyses (oo_state out) = []"
      "os_fixes (oo_state out) = []" "oo_codingAgentPrompts out = []"
      by (auto simp: runOrchestrator_def Let_def simp del: ensureDirectories.simps)
    with True have "stopBatchPost E input (map fst scenarioMap) ?st0 [] ?st0 (oo_codingAgentPrompts out)
          (os_results (oo_state out))
       \<and> os_analyses (oo_state out) = os_analyses ?st0 \<and> os_fixes (oo_state out) = os_fixes ?st0"
      by (simp add: stopBatchPost_def)
    then show ?thesis ..
  next
    case False
    from assms(1) e l False obtain st prompts w3 where
      p: "processScenarios E input scenarioMap (?st0, []) w2 = (Inr (st, prompts), w3)"
      by (auto simp: runOrchestrator_def Let_def split: prod.splits sum.splits simp del: ensureDirectories.simps)
    from assms(1) e l False p
    have out: "oo_state out = st\<lparr>os_status := finalStatus st, os_endTime := Some (io_toISOString E w3)\<rparr>"
      "oo_codingAgentPrompts out = prompts"
      by (auto simp: runOrchestrator_def Let_def split: prod.splits sum.splits simp del: ensureDirectories.simps)
    from processScenarios_stop [OF p assms(2)] obtain new where
      b: "stopBatchPost E input (map fst scenarioMap) ?st0 [] st prompts new"
      by blast
    then have "os_results st = new"
      by (simp add: stopBatchPost_def)
    with b out have "stopBatchPost E input (map fst scenarioMap) ?st0 [] st (oo_codingAgentPrompts out)
          (os_results (oo_state out))
       \<and> os_analyses (oo_state out) = os_analyses st \<and> os_fixes (oo_state out) = os_fixes st"
      by simp
    then show ?thesis ..
  qed
  then obtain st where "stopBatchPost E input (map fst scenarioMap) ?st0 [] st (oo_codingAgentPrompts out)
          (os_results (oo_state out))
     \<and> os_analyses ?st0 = [] \<and> os_fixes ?st0 = []
     \<and> os_analyses (oo_state out) = os_analyses st \<and> os_fixes (oo_state out) = os_fixes st"
    by auto
  with load show ?thesis by blast
qed

lemma stop_status:
  assumes "fst (runOrchestrator E input w) = Inr out"
    and "stopOnFirstFailure (cfg_orchestrator (oi_config input))"
  shows "distinct (map tr_scenarioFile (os_results (oo_state out)))
     \<and> (\<forall>r \<in> set (butlast (os_results (oo_state out))). tr_status r = test_passed)
     \<and> (os_results (oo_state out) \<noteq> [] \<and> tr_status (last (os_results (oo_state out))) = test_failed
          \<longrightarrow> os_status (oo_state out)
              = (if maxIterations (cfg_orchestrator (oi_config input)) \<le> 1
                 then max_retries else orch_failed))"
proof -
  let ?n = "attemptBound input"
  let ?rs = "os_results (oo_state out)"
  have n: "?n \<le> 1 \<longleftrightarrow> maxIterations (cfg_orchestrator (oi_config input)) \<le> 1"
    by (simp add: attemptBound_def ceiling_le_iff)
  from runOrchestrator_Inr [OF assms(1)]
  consider (none) "?rs = []"
    | (batch) files st0 st where "batchPost input files st0 st ?rs"
        "os_results st = ?rs" "os_status (oo_state out) = finalStatus st"
    by blast
  then show ?thesis
  proof cases
    case none
    then show ?thesis by simp
  next
    case batch
    from batch(1) assms(2) have d: "distinct (map tr_scenarioFile ?rs)"
      and b: "\<forall>r \<in> set (butlast ?rs). tr_status r = test_passed"
      and l: "?rs \<noteq> [] \<and> tr_status (last ?rs) = test_failed
                   \<longrightarrow> os_status st = (if ?n \<le> 1 then max_retries else orch_failed)"
      by (simp_all add: batchPost_def Let_def)
    have "os_status (oo_state out) = (if ?n \<le> 1 then max_retries else orch_failed)"
      if h: "?rs \<noteq> [] \<and> tr_status (last ?rs) = test_failed"
    proof -
      from h l have s: "os_status st = (if ?n \<le> 1 then max_retries else orch_failed)"
        by blast
      from h have "\<exists>r \<in> set (os_results st). tr_status r = test_failed"
        using batch(2) last_in_set by metis
      from finalStatus_failed_result [OF this] s batch(3) show ?thesis
        by (simp split: if_splits)
    qed
    with d b show ?thesis unfolding n by blast
  qed
qed

text \<open>
  Claim C5, as stated, fails.  With the flag set, five iterations allowed and two
  scenarios in the directory, the first attempt of \<open>a.yaml\<close> fails: the run ends there,
  with one result, iteration counter 1 and status \<open>failed\<close>.  The scenario is abandoned
  with four iterations left, and \<open>b.yaml\<close> is never run.
\<close>

theorem stopOnFirstFailure_abandons_scenario_counterexample:
  "stopOnFirstFailure (cfg_orchestrator (oi_config (demoOrchestratorInput 5 True)))
   \<and> maxIterations (cfg_orchestrator (oi_config (demoOrchestratorInput 5 True))) = 5
   \<and> (\<exists>w'. loadAllScenarios
              (demoEnv [(''a.yaml'', Some wellFormedDoc), (''b.yaml'', Some wellFormedDoc)] 1)
              ''e2e/scenarios'' freshWorld
            = (Inr [(''a.yaml'', demoScenario), (''b.yaml'', demoScenario)], w'))
   \<and> (\<exists>out w'. runOrchestrator
                (demoEnv [(''a.yaml'', Some wellFormedDoc), (''b.yaml'', Some wellFormedDoc)] 1)
                (demoOrchestratorInput 5 True) freshWorld = (Inr out, w')
          \<and> map (\<lambda>r. (tr_scenarioFile r, tr_status r)) (os_results (oo_state out))
              = [(''a.yaml'', test_failed)]
          \<and> os_iteration (oo_state out) = 1
          \<and> os_status (oo_state out) = orch_failed)"
  using demo_run_stop demo_loadAllScenarios_two [of 1 freshWorld]
  by (simp add: demo_config del: One_nat_def)

text \<open>
  Claim C5, amended.  When \<open>stopOnFirstFailure\<close> is set, the orchestrator stops the whole
  batch at the first failed attempt of any scenario, whether or not it was the last one
  allowed.  The results are one attempt each of the first scenarios of the loaded
  mapping, in its order; every result but the last passed, so the batch runs on while
  scenarios pass, and to the end of the mapping when all pass (with a positive
  \<open>maxIterations\<close>).  When the last result failed, the final status is \<open>max_retries\<close> if
  \<open>maxIterations\<close> is at most 1 and \<open>failed\<close> otherwise; and if \<open>maxIterations\<close> is above
  1, that attempt is the only one analyzed: the state holds the one analysis of that
  result, the output holds the one prompt for it and, under \<open>autoApply\<close>, the state
  holds the one fix of the coding agent for it.  In every other case nothing is
  analyzed and nothing is fixed.
\<close>

theorem stopOnFirstFailure_stops_at_first_failed_attempt:
  assumes "fst (runOrchestrator E input w) = Inr out"
    and "stopOnFirstFailure (cfg_orchestrator (oi_config input))"
  shows "distinct (map tr_scenarioFile (os_results (oo_state out)))
     \<and> (\<forall>r \<in> set (butlast (os_results (oo_state out))). tr_status r = test_passed)
     \<and> (os_results (oo_state out) \<noteq> [] \<and> tr_status (last (os_results (oo_state out))) = test_failed
          \<longrightarrow> os_status (oo_state out)
              = (if maxIterations (cfg_orchestrator (oi_config input)) \<le> 1
                 then max_retries else orch_failed))
     \<and> (\<exists>scenarioMap.
           fst (loadAllScenarios E (oi_scenariosDir input)
                  (snd (ensureDirectories E [oi_screenshotDir input, oi_reportsDir input] w)))
             = Inr scenarioMap
         \<and> map tr_scenarioFile (os_results (oo_state out))
             = take (length (os_results (oo_state out))) (map fst scenarioMap)
         \<and> ((\<forall>r \<in> set (os_results (oo_state out)). tr_status r = test_passed)
              \<and> 0 < maxIterations (cfg_orchestrator (oi_config input))
              \<longrightarrow> length (os_results (oo_state out)) = length scenarioMap))
     \<and> (if os_results (oo_state out) \<noteq> []
            \<and> tr_status (last (os_results (oo_state out))) = test_failed
            \<and> 1 < maxIterations (cfg_orchestrator (oi_config input))
         then (\<exists>wa ar wp prompt.
                 fst (runAnalyzer E \<lparr>ai_testResult = last (os_results (oo_state out)),
                                     ai_projectRoot = oi_projectRoot input,
                                     ai_reportsDir = oi_reportsDir input\<rparr> wa) = Inr ar
               \<and> os_analyses (oo_state out) = [ao_analysis ar]
               \<and> fst (generateCodingAgentPrompt E (ao_analysis ar) (oi_projectRoot input) wp)
                   = Inr prompt
               \<and> oo_codingAgentPrompts out = [prompt]
               \<and> (if autoApply (cfg_codingAgent (oi_config input)) then
                     (\<exists>wf fr. fst (runCodingAgent E
                                      \<lparr>ci_analysis = ao_analysis ar,
                                       ci_projectRoot = oi_projectRoot input,
                                       ci_reportsDir = oi_reportsDir input,
                                       ci_config = cfg_codingAgent (oi_config input)\<rparr> wf) = Inr fr
                         \<and> os_fixes (oo_state out) = [co_fix fr])
                   else os_fixes (oo_state out) = []))
         else os_analyses (oo_state out) = [] \<and> os_fixes (oo_state out) = []
                \<and> oo_codingAgentPrompts out = [])"
proof -
  let ?rs = "os_results (oo_state out)"
  let ?n = "maxIterations (cfg_orchestrator (oi_config input))"
  have n: "1 < attemptBound input \<longleftrightarrow> 1 < ?n" "0 < attemptBound input \<longleftrightarrow> 0 < ?n"
    by (simp_all add: attemptBound_def less_ceiling_iff)
  from runOrchestrator_stop [OF assms] obtain scenarioMap st0 st where
    load: "fst (loadAllScenarios E (oi_scenariosDir input)
              (snd (ensureDirectories E [oi_screenshotDir input, oi_reportsDir input] w)))
         = Inr scenarioMap"
    and post: "stopBatchPost E input (map fst scenarioMap) st0 [] st (oo_codingAgentPrompts out) ?rs"
    and st0: "os_analyses st0 = []" "os_fixes st0 = []"
    and st: "os_analyses (oo_state out) = os_analyses st" "os_fixes (oo_state out) = os_fixes st"
    by blast
  from post have files: "map tr_scenarioFile ?rs = take (length ?rs) (map fst scenarioMap)"
    and all: "(\<forall>r \<in> set ?rs. tr_status r = test_passed) \<and> 0 < ?n
                \<longrightarrow> length ?rs = length scenarioMap"
    and an: "if ?rs \<noteq> [] \<and> tr_status (last ?rs) = test_failed \<and> 1 < ?n
         then analyzedOnce E input (last ?rs) st0 [] st (oo_codingAgentPrompts out)
         else os_analyses st = os_analyses st0 \<and> os_fixes st = os_fixes st0
                \<and> oo_codingAgentPrompts out = []"
    by (simp_all add: stopBatchPost_def n)
  from load files all have b: "\<exists>scenarioMap.
           fst (loadAllScenarios E (oi_scenariosDir input)
                  (snd (ensureDirectories E [oi_screenshotDir input, oi_reportsDir input] w)))
             = Inr scenarioMap
         \<and> map tr_scenarioFile ?rs = take (length ?rs) (map fst scenarioMap)
         \<and> ((\<forall>r \<in> set ?rs. tr_status r = test_passed) \<and> 0 < ?n
              \<longrightarrow> length ?rs = length scenarioMap)"
    by blast
  have c: "if ?rs \<noteq> [] \<and> tr_status (last ?rs) = test_failed \<and> 1 < ?n
         then analyzedOnce E input (last ?rs) st0 [] (oo_state out) (oo_codingAgentPrompts out)
         else os_analyses (oo_state out) = [] \<and> os_fixes (oo_state out) = []
                \<and> oo_codingAgentPrompts out = []"
  proof (cases "?rs \<noteq> [] \<and> tr_status (last ?rs) = test_failed \<and> 1 < ?n")
    case True
    with an have "analyzedOnce E input (last ?rs) st0 [] st (oo_codingAgentPrompts out)"
      by simp
    with st have "analyzedOnce E input (last ?rs) st0 [] (oo_state out) (oo_codingAgentPrompts out)"
      by (simp add: analyzedOnce_to [OF st])
    with True show ?thesis by simp
  next
    case False
    with an st st0 show ?thesis by auto
  qed
  from stop_status [OF assms] b c show ?thesis
    unfolding analyzedOnce_def st0 append_Nil by blast
qed

theorem stopOnFirstFailure_stops_at_first_failed_attempt_witness:
  "stopOnFirstFailure (cfg_orchestrator (oi_config (demoOrchestratorInput 5 True)))
   \<and> (\<exists>out. fst (runOrchestrator
                (demoEnv [(''a.yaml'', Some wellFormedDoc), (''b.yaml'', Some wellFormedDoc)] 1)
                (demoOrchestratorInput 5 True) freshWorld) = Inr out
          \<and> os_results (oo_state out) \<noteq> []
          \<and> tr_status (last (os_results (oo_state out))) = test_failed
          \<and> distinct (map tr_scenarioFile (os_results (oo_state out)))
          \<and> os_status (oo_state out) = orch_failed
          \<and> length (os_analyses (oo_state out)) = 1
          \<and> length (os_fixes (oo_state out)) = 1
          \<and> length (oo_codingAgentPrompts out) = 1)"
proof -
  let ?E = "demoEnv [(''a.yaml'', Some wellFormedDoc), (''b.yaml'', Some wellFormedDoc)] 1"
  let ?I = "demoOrchestratorInput 5 True"
  from demo_run_stop obtain out where
    run: "fst (runOrchestrator ?E ?I freshWorld) = Inr out"
    and rs: "map (\<lambda>r. (tr_scenarioFile r, tr_status r)) (os_results (oo_state out))
         = [(''a.yaml'', test_failed)]"
    by force
  have stop: "stopOnFirstFailure (cfg_orchestrator (oi_config ?I))"
    and n: "maxIterations (cfg_orchestrator (oi_config ?I)) = 5"
    and auto: "autoApply (cfg_codingAgent (oi_config ?I))"
    by (simp_all add: demoOrchestratorInput_def)
  from rs obtain r where r: "os_results (oo_state out) = [r]" "tr_status r = test_failed"
    by auto
  note T = stopOnFirstFailure_stops_at_first_failed_attempt [OF run stop]
  from T [THEN conjunct1] have d: "distinct (map tr_scenarioFile (os_results (oo_state out)))" .
  from T [THEN conjunct2, THEN conjunct2, THEN conjunct1] r n
  have s: "os_status (oo_state out) = orch_failed"
    by simp
  from T [THEN conjunct2, THEN conjunct2, THEN conjunct2, THEN conjunct2] r n auto
  have "length (os_analyses (oo_state out)) = 1 \<and> length (os_fixes (oo_state out)) = 1
    \<and> length (oo_codingAgentPrompts out) = 1"
    by auto
  then have l: "length (os_analyses (oo_state out)) = 1" "length (os_fixes (oo_state out)) = 1"
    "length (oo_codingAgentPrompts out) = 1"
    by simp_all
  from run r d s l have "fst (runOrchestrator ?E ?I freshWorld) = Inr out
          \<and> os_results (oo_state out) \<noteq> []
          \<and> tr_status (last (os_results (oo_state out))) = test_failed
          \<and> distinct (map tr_scenarioFile (os_results (oo_state out)))
          \<and> os_status (oo_state out) = orch_failed
          \<and> length (os_analyses (oo_state out)) = 1
          \<and> length (os_fixes (oo_state out)) = 1
          \<and> length (oo_codingAgentPrompts out) = 1"
    by simp
  then have "\<exists>out. fst (runOrchestrator ?E ?I freshWorld) = Inr out
          \<and> os_results (oo_state out) \<noteq> []
          \<and> tr_status (last (os_results (oo_state out))) = test_failed
          \<and> distinct (map tr_scenarioFile (os_results (oo_state out)))
          \<and> os_status (oo_state out) = orch_failed
          \<and> length (os_analyses (oo_state out)) = 1
          \<and> length (os_fixes (oo_state out)) = 1
          \<and> length (oo_codingAgentPrompts out) = 1" ..
  with stop show ?thesis ..
qed

section \<open>The counts of the summary\<close>

text \<open>
  Claim C9, as stated, fails.  Two scenarios that pass at their first attempt make two
  run attempts, and the summary of the final report for the state of that run says
  \<open>iterations = 1\<close>.
\<close>

theorem summary_iterations_not_total_counterexample:
  "\<exists>out w' report. runOrchestrator
                (demoEnv [(''a.yaml'', Some wellFormedDoc), (''b.yaml'', Some wellFormedDoc)] 0)
                (demoOrchestratorInput 5 False) freshWorld = (Inr out, w')
      \<and> length (os_results (oo_state out)) = 2
      \<and> fst (generateFinalReport
                (demoEnv [(''a.yaml'', Some wellFormedDoc), (''b.yaml'', Some wellFormedDoc)] 0)
                (oo_state out) ''e2e/reports'' w') = Inr report
      \<and> sm_iterations (fr_summary report) = 1"
proof -
  let ?E = "demoEnv [(''a.yaml'', Some wellFormedDoc), (''b.yaml'', Some wellFormedDoc)] 0"
  from demo_run_two_pass obtain out w' where
    run: "runOrchestrator ?E (demoOrchestratorInput 5 False) freshWorld = (Inr out, w')"
    and rs: "map (\<lambda>r. (tr_scenarioFile r, tr_status r)) (os_results (oo_state out))
         = [(''a.yaml'', test_passed), (''b.yaml'', test_passed)]"
    and i: "os_iteration (oo_state out) = 1"
    by auto
  from rs have "length (map (\<lambda>r. (tr_scenarioFile r, tr_status r)) (os_results (oo_state out))) = 2"
    by simp
  then have l: "length (os_results (oo_state out)) = 2"
    by simp
  have "sm_iterations (fr_summary (buildFinalReport ?E (oo_state out) (io_toISOString ?E w'))) = 1"
    using i by (simp add: buildFinalReport_def Let_def)
  with run l show ?thesis
    by (simp add: demo_generateFinalReport)
qed

text \<open>
  Claim C9, amended.  In the final report, the summary's \<open>iterations\<close> is the state's
  \<open>iteration\<close> field, which after an orchestrator run that made an attempt is the number
  of attempts of the scenario that was run last (not the total over the scenarios), and
  \<open>fixesApplied\<close> is the number of Fix records accumulated.
\<close>

theorem summary_iterations_is_last_counter:
  "(fst (generateFinalReport E st outputDir w) = Inr report \<longrightarrow>
      sm_iterations (fr_summary report) = os_iteration st
      \<and> fixesApplied (fr_summary report) = int (length (os_fixes st)))
   \<and> (fst (runOrchestrator E input v) = Inr out \<and> os_results (oo_state out) \<noteq> [] \<longrightarrow>
      os_iteration (oo_state out)
        = int (length (filter (\<lambda>r. tr_scenarioFile r = tr_scenarioFile (last (os_results (oo_state out))))
                        (os_results (oo_state out)))))"
proof (rule conjI; rule impI)
  assume "fst (generateFinalReport E st outputDir w) = Inr report"
  then have "report = buildFinalReport E st (io_toISOString E w)"
    by (auto simp: generateFinalReport_def Let_def split: prod.splits sum.splits)
  then show "sm_iterations (fr_summary report) = os_iteration st
      \<and> fixesApplied (fr_summary report) = int (length (os_fixes st))"
    by (simp add: buildFinalReport_def Let_def)
next
  let ?rs = "os_results (oo_state out)"
  assume a: "fst (runOrchestrator E input v) = Inr out \<and> ?rs \<noteq> []"
  with runOrchestrator_Inr [of E input v out] obtain files st0 st where
    b: "batchPost input files st0 st ?rs" and i: "os_iteration (oo_state out) = os_iteration st"
    by blast
  from b a have "os_iteration st
      = int (length (filter (\<lambda>r. tr_scenarioFile r = tr_scenarioFile (last ?rs)) ?rs))"
    by (simp add: batchPost_def Let_def)
  with i show "os_iteration (oo_state out)
      = int (length (filter (\<lambda>r. tr_scenarioFile r = tr_scenarioFile (last ?rs)) ?rs))"
    by simp
qed

theorem summary_iterations_is_last_counter_witness:
  "\<exists>out w' report. runOrchestrator
                (demoEnv [(''a.yaml'', Some wellFormedDoc), (''b.yaml'', Some wellFormedDoc)] 0)
                (demoOrchestratorInput 5 False) freshWorld = (Inr out, w')
      \<and> os_results (oo_state out) \<noteq> []
      \<and> tr_scenarioFile (last (os_results (oo_state out))) = ''b.yaml''
      \<and> fst (generateFinalReport
                (demoEnv [(''a.yaml'', Some wellFormedDoc), (''b.yaml'', Some wellFormedDoc)] 0)
                (oo_state out) ''e2e/reports'' w') = Inr report
      \<and> sm_iterations (fr_summary report)
          = int (length (filter (\<lambda>r. tr_scenarioFile r = ''b.yaml'') (os_results (oo_state out))))
      \<and> fixesApplied (fr_summary report) = int (length (os_fixes (oo_state out)))"
proof -
  let ?E = "demoEnv [(''a.yaml'', Some wellFormedDoc), (''b.yaml'', Some wellFormedDoc)] 0"
  let ?I = "demoOrchestratorInput 5 False"
  from demo_run_two_pass obtain out w' where
    run: "runOrchestrator ?E ?I freshWorld = (Inr out, w')"
    and rs: "map (\<lambda>r. (tr_scenarioFile r, tr_status r)) (os_results (oo_state out))
         = [(''a.yaml'', test_passed), (''b.yaml'', test_passed)]"
    by auto
  from rs obtain r1 r2 where r: "os_results (oo_state out) = [r1, r2]"
    "tr_scenarioFile r2 = ''b.yaml''"
    by auto
  obtain report where
    rep: "fst (generateFinalReport ?E (oo_state out) ''e2e/reports'' w') = Inr report"
    by (simp add: demo_generateFinalReport)
  from run have run': "fst (runOrchestrator ?E ?I freshWorld) = Inr out"
    by simp
  from summary_iterations_is_last_counter
         [of ?E "oo_state out" "''e2e/reports''" w' report ?I freshWorld out] rep run' r
  have "sm_iterations (fr_summary report)
          = int (length (filter (\<lambda>r. tr_scenarioFile r = ''b.yaml'') (os_results (oo_state out))))"
    and "fixesApplied (fr_summary report) = int (length (os_fixes (oo_state out)))"
    by simp_all
  with run rep r show ?thesis
    by auto
qed

section \<open>The final status after a retry that passes\<close>

text \<open>
  Claim C2 says that the final status is \<open>passed\<close> when every processed scenario ended
  in \<open>passed\<close>, also after failed earlier attempts.  In the code \<open>allPassed\<close> ranges
  over the results of all attempts: here the only scenario fails its first attempt (the
  first launch is cold), is analyzed and fixed, and passes its second attempt, and the run
  ends with status \<open>failed\<close> and \<open>success = false\<close>.
\<close>

theorem retry_then_pass_reports_failed:
  "\<exists>out w'. runOrchestrator (demoEnv [(''a.yaml'', Some wellFormedDoc)] 1)
                (demoOrchestratorInput 5 False) freshWorld = (Inr out, w')
     \<and> map (\<lambda>r. (tr_scenarioFile r, tr_status r)) (os_results (oo_state out))
         = [(''a.yaml'', test_failed), (''a.yaml'', test_passed)]
     \<and> os_status (oo_state out) = orch_failed
     \<and> os_iteration (oo_state out) = 2
     \<and> \<not> oo_success out"
proof -
  let ?files = "[(''a.yaml'', Some wellFormedDoc)]"
  let ?E = "demoEnv ?files 1"
  let ?I = "demoOrchestratorInput 5 False"
  let ?map = "[(''a.yaml'', demoScenario)]"
  let ?init = "\<lparr>os_scenarios = map snd ?map, os_currentScenario = None,
              os_iteration = 0, os_maxIterations = 5, os_results = [], os_analyses = [],
              os_fixes = [], os_status = running,
              os_startTime = io_toISOString ?E freshWorld, os_endTime = None\<rparr>"
  let ?st = "?init\<lparr>os_currentScenario := sc_name demoScenario\<rparr>"
  have m: "map_of ?files (basename (io_join ?E ''e2e/scenarios'' ''a.yaml'')) = Some (Some wellFormedDoc)"
    by (simp add: demo_basename)
  have l0: "launches freshWorld < 1"
    by (simp add: freshWorld_def)
  from demo_attempt_fails [OF m l0, of 0 5 False ?st "[]"] obtain st1 pr1 w1 r1 where
    a1: "attempts ?E ?I ''a.yaml'' (False, 0, ?st, []) freshWorld
           = attempts ?E ?I ''a.yaml'' (False, 1, st1, pr1) w1"
    and s1: "os_results st1 = [r1]" "tr_status r1 = test_failed" "tr_scenarioFile r1 = ''a.yaml''"
      "os_status st1 = running" "launches w1 = launches freshWorld + 1"
    by auto
  from s1 have l1: "1 \<le> launches w1" by simp
  from demo_attempt_passes [OF m l1, of 1 5 False st1 pr1] obtain st2 w2 r2 where
    a2: "attempts ?E ?I ''a.yaml'' (False, 1, st1, pr1) w1 = (Inr (True, 2, st2, pr1), w2)"
    and s2: "os_results st2 = os_results st1 @ [r2]" "tr_status r2 = test_passed"
      "tr_scenarioFile r2 = ''a.yaml''" "os_status st2 = os_status st1" "os_iteration st2 = 2"
    by auto
  from a1 a2 have "attempts ?E ?I ''a.yaml'' (False, 0, ?st, []) freshWorld
      = (Inr (True, 2, st2, pr1), w2)"
    by (rule trans)
  from processScenarios_Cons [OF this, of "[]"]
  have p: "processScenarios ?E ?I ?map (?init, []) freshWorld = (Inr (st2, pr1), w2)"
    by simp
  have f: "finalStatus st2 = orch_failed"
    using s1 s2 by (simp add: finalStatus_def)
  from demo_runOrchestrator [OF demo_loadAllScenarios_one _ p] s1 s2 f
  show ?thesis
    by auto
qed

section \<open>Loading a directory of scenarios\<close>

text \<open>
  Both loaders run their files through one loop with no handler around the parse of a
  file: the files that were read before a point determine the state from which the
  rest is read, and a mapping that is returned has a key for every file.
\<close>

lemma loadFiles_append:
  "loadFiles E dir pre m w = (Inr m1, w1)
     \<Longrightarrow> loadFiles E dir (pre @ rest) m w = loadFiles E dir rest m1 w1"
proof (induction pre arbitrary: m w)
  case Nil
  then show ?case by simp
next
  case (Cons f pre)
  from Cons.prems obtain scenario w0 where
    p: "parseScenarioFile E (io_join E dir f) w = (Inr scenario, w0)"
    and r: "loadFiles E dir pre (mapSet f scenario m) w0 = (Inr m1, w1)"
    by (auto split: prod.splits sum.splits)
  from Cons.IH [OF r] p show ?case by simp
qed

lemma loadFiles_keys:
  "loadFiles E dir fs m w = (Inr m', w') \<Longrightarrow> set (map fst m') = set (map fst m) \<union> set fs"
proof (induction fs arbitrary: m w)
  case Nil
  then show ?case by simp
next
  case (Cons f fs)
  from Cons.prems obtain scenario w0 where
    r: "loadFiles E dir fs (mapSet f scenario m) w0 = (Inr m', w')"
    by (auto split: prod.splits sum.splits)
  from Cons.IH [OF r] show ?case
    by (auto simp: mapSet_keys split: if_splits)
qed

lemma exLoadFiles_append:
  "exLoadFiles P pre m w = (Inr m1, w1)
     \<Longrightarrow> exLoadFiles P (pre @ rest) m w = exLoadFiles P rest m1 w1"
proof (induction pre arbitrary: m w)
  case Nil
  then show ?case by simp
next
  case (Cons f pre)
  from Cons.prems obtain scenario w0 where
    p: "exParseScenarioFile P (px_join P (px_SCENARIOS_DIR P) f) w = (Inr scenario, w0)"
    and r: "exLoadFiles P pre (mapSet (replaceFirst f ''.yaml'' []) scenario m) w0 = (Inr m1, w1)"
    by (auto split: prod.splits sum.splits)
  from Cons.IH [OF r] p show ?case by simp
qed

lemma exLoadFiles_keys:
  "exLoadFiles P fs m w = (Inr m', w')
     \<Longrightarrow> set (map fst m') = set (map fst m) \<union> (\<lambda>f. replaceFirst f ''.yaml'' []) ` set fs"
proof (induction fs arbitrary: m w)
  case Nil
  then show ?case by simp
next
  case (Cons f fs)
  from Cons.prems obtain scenario w0 where
    r: "exLoadFiles P fs (mapSet (replaceFirst f ''.yaml'' []) scenario m) w0 = (Inr m', w')"
    by (auto split: prod.splits sum.splits)
  from Cons.IH [OF r] show ?case
    by (auto simp: mapSet_keys split: if_splits)
qed

lemma demo_parse_noSteps:
  "parseScenarioFile (demoEnv [(''a.yaml'', Some wellFormedDoc), (''b.yaml'', Some noStepsDoc)] cold)
     (io_join (demoEnv [(''a.yaml'', Some wellFormedDoc), (''b.yaml'', Some noStepsDoc)] cold)
        ''e2e/scenarios'' ''b.yaml'') w
   = (Inl (cannotRead ''undefined'' ''map''), w)"
  by (simp add: parseScenarioFile_def demoEnv_def basename_def noStepsDoc_def wellFormedDoc_def)

lemma demo_load_bad_directory:
  "loadAllScenarios (demoEnv [(''a.yaml'', Some wellFormedDoc), (''b.yaml'', Some noStepsDoc)] 0)
     ''e2e/scenarios'' freshWorld = (Inl (cannotRead ''undefined'' ''map''), freshWorld)"
proof -
  let ?E = "demoEnv [(''a.yaml'', Some wellFormedDoc), (''b.yaml'', Some noStepsDoc)] 0"
  have r: "io_readdirSync ?E ''e2e/scenarios'' freshWorld = (Inr [''a.yaml'', ''b.yaml''], freshWorld)"
    by (simp add: demoEnv_def)
  have p: "parseScenarioFile ?E (io_join ?E ''e2e/scenarios'' ''a.yaml'') freshWorld
             = (Inr demoScenario, freshWorld)"
    by (rule demo_parseScenarioFile) (simp add: demo_basename)
  show ?thesis
    by (simp add: loadAllScenarios_def r p demo_parse_noSteps endsWith_def suffix_to_prefix)
qed

lemma demo_exParse:
  "exParseScenarioFile demoParserEnv ''e2e/scenarios/a.yaml'' ()
     = (Inr \<lparr>ts_name = ''missing button'', ts_description = None, ts_tags = None,
             ts_requires = None, ts_steps = [TapStep ''Missing Button'', SeeStep ''Done'']\<rparr>, ())"
  "exParseScenarioFile demoParserEnv ''e2e/scenarios/b.yaml'' ()
     = (Inl (Error (''Scenario missing '' @ sq @ ''name'' @ sq @ '' field: e2e/scenarios/b.yaml'')), ())"
  by (simp_all add: exParseScenarioFile_def demoParserEnv_def demoRawTestScenario_def)

lemma demo_exLoad:
  "exLoadAllScenarios demoParserEnv ()
     = (Inl (Error (''Scenario missing '' @ sq @ ''name'' @ sq @ '' field: e2e/scenarios/b.yaml'')), ())"
proof -
  have j: "px_join demoParserEnv (px_SCENARIOS_DIR demoParserEnv) ''a.yaml'' = ''e2e/scenarios/a.yaml''"
    "px_join demoParserEnv (px_SCENARIOS_DIR demoParserEnv) ''b.yaml'' = ''e2e/scenarios/b.yaml''"
    "px_glob demoParserEnv () = (Inr [''a.yaml'', ''b.yaml''], ())"
    by (simp_all add: demoParserEnv_def)
  show ?thesis
    by (simp add: exLoadAllScenarios_def j demo_exParse)
qed

text \<open>
  Claim C4, as stated, fails.  A directory holds the well-formed \<open>a.yaml\<close> and a
  \<open>b.yaml\<close> that does not parse.  In e2e/lib/scenarioParser.ts (where a document
  without \<open>steps\<close> fails to parse), \<open>a.yaml\<close> parses on its own and
  \<open>loadAllScenarios\<close> throws the TypeError of \<open>b.yaml\<close>, which returns no mapping and
  does not name the file.  In e2e/src/parser.ts, where \<open>b.yaml\<close> lacks \<open>name\<close>,
  \<open>a.yaml\<close> parses on its own and \<open>loadAllScenarios\<close> throws the error of \<open>b.yaml\<close>:
  the message names the file, and no mapping is returned.
\<close>

theorem one_bad_file_aborts_load_counterexample:
  "fst (parseScenarioFile
          (demoEnv [(''a.yaml'', Some wellFormedDoc), (''b.yaml'', Some noStepsDoc)] 0)
          ''e2e/scenarios/a.yaml'' freshWorld) = Inr demoScenario
   \<and> fst (loadAllScenarios
          (demoEnv [(''a.yaml'', Some wellFormedDoc), (''b.yaml'', Some noStepsDoc)] 0)
          ''e2e/scenarios'' freshWorld) = Inl (cannotRead ''undefined'' ''map'')
   \<and> (\<exists>scenario. fst (exParseScenarioFile demoParserEnv ''e2e/scenarios/a.yaml'' ()) = Inr scenario)
   \<and> fst (exLoadAllScenarios demoParserEnv ())
       = Inl (Error (''Scenario missing '' @ sq @ ''name'' @ sq @ '' field: e2e/scenarios/b.yaml''))"
proof -
  have "parseScenarioFile
          (demoEnv [(''a.yaml'', Some wellFormedDoc), (''b.yaml'', Some noStepsDoc)] 0)
          ''e2e/scenarios/a.yaml'' freshWorld = (Inr demoScenario, freshWorld)"
    by (rule demo_parseScenarioFile) (simp add: basename_def)
  then show ?thesis
    by (simp add: demo_load_bad_directory demo_exParse demo_exLoad)
qed

text \<open>
  Claim C4, amended.  \<open>loadAllScenarios\<close> loads all the files or none.  In
  e2e/lib/scenarioParser.ts: a mapping that is returned has exactly the \<open>.yaml\<close> and
  \<open>.yml\<close> names of the directory as its keys; and when the files before \<open>f\<close> have
  loaded and \<open>parseScenarioFile\<close> throws \<open>e\<close> on \<open>f\<close>, \<open>loadAllScenarios\<close> throws \<open>e\<close>
  and returns no mapping.  In e2e/src/parser.ts: a mapping that is returned has a key
  for every file that \<open>glob\<close> found (the file name with its first \<open>.yaml\<close> removed);
  when the files before \<open>xf\<close> have loaded and \<open>parseScenarioFile\<close> throws \<open>xe\<close> on
  \<open>xf\<close>, \<open>loadAllScenarios\<close> throws \<open>xe\<close>; and for a document without a \<open>name\<close> the
  error thrown by \<open>parseScenarioFile\<close> names the path of the file.
\<close>

theorem loadAllScenarios_all_or_nothing:
  "(fst (io_readdirSync E dir w) = Inr names \<and> fst (loadAllScenarios E dir w) = Inr m \<longrightarrow>
      set (map fst m) = {f \<in> set names. endsWith f ''.yaml'' \<or> endsWith f ''.yml''})
   \<and> (io_readdirSync E dir w = (Inr names, w0)
        \<and> filter (\<lambda>f. endsWith f ''.yaml'' \<or> endsWith f ''.yml'') names = pre @ f # post
        \<and> loadFiles E dir pre [] w0 = (Inr m1, w1)
        \<and> parseScenarioFile E (io_join E dir f) w1 = (Inl e, w2) \<longrightarrow>
      loadAllScenarios E dir w = (Inl e, w2))
   \<and> (fst (px_glob P v) = Inr files \<and> fst (exLoadAllScenarios P v) = Inr xm \<longrightarrow>
      set (map fst xm) = (\<lambda>f. replaceFirst f ''.yaml'' []) ` set files)
   \<and> (px_glob P v = (Inr (xpre @ xf # xpost), v0)
        \<and> exLoadFiles P xpre [] v0 = (Inr xm1, v1)
        \<and> exParseScenarioFile P (px_join P (px_SCENARIOS_DIR P) xf) v1 = (Inl xe, v2) \<longrightarrow>
      exLoadAllScenarios P v = (Inl xe, v2))
   \<and> (px_readYaml P path v = (Inr (Some parsed), v3) \<and> \<not> truthy (rt_name parsed) \<longrightarrow>
      fst (exParseScenarioFile P path v)
        = Inl (Error (''Scenario missing '' @ sq @ ''name'' @ sq @ '' field: '' @ path)))"
proof (intro conjI impI)
  assume a: "fst (io_readdirSync E dir w) = Inr names \<and> fst (loadAllScenarios E dir w) = Inr m"
  then obtain w0 where r: "io_readdirSync E dir w = (Inr names, w0)"
    by (cases "io_readdirSync E dir w") auto
  let ?files = "filter (\<lambda>f. endsWith f ''.yaml'' \<or> endsWith f ''.yml'') names"
  from a r have "fst (loadFiles E dir ?files [] w0) = Inr m"
    by (simp add: loadAllScenarios_def)
  then obtain w' where "loadFiles E dir ?files [] w0 = (Inr m, w')"
    by (cases "loadFiles E dir ?files [] w0") auto
  from loadFiles_keys [OF this]
  show "set (map fst m) = {f \<in> set names. endsWith f ''.yaml'' \<or> endsWith f ''.yml''}"
    by auto
next
  assume a: "io_readdirSync E dir w = (Inr names, w0)
        \<and> filter (\<lambda>f. endsWith f ''.yaml'' \<or> endsWith f ''.yml'') names = pre @ f # post
        \<and> loadFiles E dir pre [] w0 = (Inr m1, w1)
        \<and> parseScenarioFile E (io_join E dir f) w1 = (Inl e, w2)"
  then have "loadFiles E dir (pre @ f # post) [] w0 = loadFiles E dir (f # post) m1 w1"
    by (intro loadFiles_append) simp
  with a show "loadAllScenarios E dir w = (Inl e, w2)"
    by (simp add: loadAllScenarios_def)
next
  assume a: "fst (px_glob P v) = Inr files \<and> fst (exLoadAllScenarios P v) = Inr xm"
  then obtain v0 where g: "px_glob P v = (Inr files, v0)"
    by (cases "px_glob P v") auto
  from a g have "fst (exLoadFiles P files [] v0) = Inr xm"
    by (simp add: exLoadAllScenarios_def)
  then obtain v' where "exLoadFiles P files [] v0 = (Inr xm, v')"
    by (cases "exLoadFiles P files [] v0") auto
  from exLoadFiles_keys [OF this]
  show "set (map fst xm) = (\<lambda>f. replaceFirst f ''.yaml'' []) ` set files"
    by simp
next
  assume a: "px_glob P v = (Inr (xpre @ xf # xpost), v0)
        \<and> exLoadFiles P xpre [] v0 = (Inr xm1, v1)
        \<and> exParseScenarioFile P (px_join P (px_SCENARIOS_DIR P) xf) v1 = (Inl xe, v2)"
  then have "exLoadFiles P (xpre @ xf # xpost) [] v0 = exLoadFiles P (xf # xpost) xm1 v1"
    by (intro exLoadFiles_append) simp
  with a show "exLoadAllScenarios P v = (Inl xe, v2)"
    by (simp add: exLoadAllScenarios_def)
next
  assume "px_readYaml P path v = (Inr (Some parsed), v3) \<and> \<not> truthy (rt_name parsed)"
  then show "fst (exParseScenarioFile P path v)
        = Inl (Error (''Scenario missing '' @ sq @ ''name'' @ sq @ '' field: '' @ path))"
    by (simp add: exParseScenarioFile_def)
qed

theorem loadAllScenarios_all_or_nothing_witness:
  "(\<exists>m. fst (loadAllScenarios (demoEnv [(''a.yaml'', Some wellFormedDoc)] 0)
             ''e2e/scenarios'' freshWorld) = Inr m
        \<and> set (map fst m) = {''a.yaml''})
   \<and> loadAllScenarios
         (demoEnv [(''a.yaml'', Some wellFormedDoc), (''b.yaml'', Some noStepsDoc)] 0)
         ''e2e/scenarios'' freshWorld = (Inl (cannotRead ''undefined'' ''map''), freshWorld)
   \<and> exLoadAllScenarios demoParserEnv ()
       = (Inl (Error (''Scenario missing '' @ sq @ ''name'' @ sq @ '' field: e2e/scenarios/b.yaml'')), ())"
proof -
  let ?E1 = "demoEnv [(''a.yaml'', Some wellFormedDoc)] 0"
  let ?E2 = "demoEnv [(''a.yaml'', Some wellFormedDoc), (''b.yaml'', Some noStepsDoc)] 0"
  let ?yaml = "\<lambda>f. endsWith f ''.yaml'' \<or> endsWith f ''.yml''"
  let ?x = "Error (''Scenario missing '' @ sq @ ''name'' @ sq @ '' field: e2e/scenarios/b.yaml'')"
  note T = loadAllScenarios_all_or_nothing
  have r1: "fst (io_readdirSync ?E1 ''e2e/scenarios'' freshWorld) = Inr [''a.yaml'']"
    by (simp add: demoEnv_def)
  have l1: "fst (loadAllScenarios ?E1 ''e2e/scenarios'' freshWorld) = Inr [(''a.yaml'', demoScenario)]"
    by (simp add: demo_loadAllScenarios_one)
  from T [where E = ?E1 and dir = "''e2e/scenarios''" and w = freshWorld and names = "[''a.yaml'']"
            and m = "[(''a.yaml'', demoScenario)]", THEN conjunct1, rule_format,
          OF conjI [OF r1 l1]]
  have k: "set (map fst [(''a.yaml'', demoScenario)]) = {f \<in> set [''a.yaml'']. ?yaml f}" .
  have y: "?yaml ''a.yaml''" "?yaml ''b.yaml''"
    by (simp_all add: endsWith_def suffix_to_prefix)
  from k y have a: "\<exists>m. fst (loadAllScenarios ?E1 ''e2e/scenarios'' freshWorld) = Inr m
        \<and> set (map fst m) = {''a.yaml''}"
    using l1 by auto
  have r2: "io_readdirSync ?E2 ''e2e/scenarios'' freshWorld = (Inr [''a.yaml'', ''b.yaml''], freshWorld)"
    by (simp add: demoEnv_def)
  have f2: "filter ?yaml [''a.yaml'', ''b.yaml''] = [''a.yaml''] @ ''b.yaml'' # []"
    using y by simp
  have pa: "parseScenarioFile ?E2 (io_join ?E2 ''e2e/scenarios'' ''a.yaml'') freshWorld
             = (Inr demoScenario, freshWorld)"
    by (rule demo_parseScenarioFile) (simp add: demo_basename)
  then have p2: "loadFiles ?E2 ''e2e/scenarios'' [''a.yaml''] [] freshWorld
      = (Inr [(''a.yaml'', demoScenario)], freshWorld)"
    by simp
  from T [where E = ?E2 and dir = "''e2e/scenarios''" and w = freshWorld
            and names = "[''a.yaml'', ''b.yaml'']" and ?w0.0 = freshWorld
            and pre = "[''a.yaml'']" and f = "''b.yaml''" and post = "[]"
            and ?m1.0 = "[(''a.yaml'', demoScenario)]" and ?w1.0 = freshWorld
            and e = "cannotRead ''undefined'' ''map''" and ?w2.0 = freshWorld,
          THEN conjunct2, THEN conjunct1, rule_format,
          OF conjI [OF r2 conjI [OF f2 conjI [OF p2 demo_parse_noSteps [of 0 freshWorld]]]]]
  have b: "loadAllScenarios ?E2 ''e2e/scenarios'' freshWorld
      = (Inl (cannotRead ''undefined'' ''map''), freshWorld)" .
  have g: "px_glob demoParserEnv () = (Inr ([''a.yaml''] @ ''b.yaml'' # []), ())"
    by (simp add: demoParserEnv_def)
  have j: "px_join demoParserEnv (px_SCENARIOS_DIR demoParserEnv) ''a.yaml'' = ''e2e/scenarios/a.yaml''"
    "px_join demoParserEnv (px_SCENARIOS_DIR demoParserEnv) ''b.yaml'' = ''e2e/scenarios/b.yaml''"
    by (simp_all add: demoParserEnv_def)
  have xa: "\<exists>xm1. exLoadFiles demoParserEnv [''a.yaml''] [] () = (Inr xm1, ())"
    by (simp add: j demo_exParse)
  then obtain xm1 where xm1: "exLoadFiles demoParserEnv [''a.yaml''] [] () = (Inr xm1, ())"
    by blast
  have xb: "exParseScenarioFile demoParserEnv
               (px_join demoParserEnv (px_SCENARIOS_DIR demoParserEnv) ''b.yaml'') () = (Inl ?x, ())"
    by (simp add: j demo_exParse)
  from T [where P = demoParserEnv and v = "()" and xpre = "[''a.yaml'']" and xf = "''b.yaml''"
            and xpost = "[]" and ?v0.0 = "()" and ?xm1.0 = xm1 and ?v1.0 = "()" and xe = ?x
            and ?v2.0 = "()",
          THEN conjunct2, THEN conjunct2, THEN conjunct2, THEN conjunct1, rule_format,
          OF conjI [OF g conjI [OF xm1 xb]]]
  have c: "exLoadAllScenarios demoParserEnv () = (Inl ?x, ())" .
  from a b c show ?thesis by blast
qed

end
